theory Spec2Isabelle
  imports Complex_Main
begin

section \<open>JavaScript values\<close>

text \<open>
  The ingestion scripts \<^verbatim>\<open>index.js\<close> (PostgreSQL client, one transaction per run) and
  \<^verbatim>\<open>index.http.js\<close> (HTTP client, one request per statement) work on the result of
  \<^verbatim>\<open>JSON.parse\<close> and on object literals they build from it. A value is one of the
  JavaScript values these scripts can hold. Numbers are modelled by their exact rational
  value, with \<open>JNaN\<close> for the one non-number that \<^verbatim>\<open>Number(v)\<close> can produce here.
  Strings are lists of code units below 256. An object is the list of its own properties
  in property order (integer-like keys ascending, then the others in creation order).
\<close>

datatype jsval =
    JUndefined
  | JNull
  | JBool bool
  | JNum rat
  | JNaN
  | JStr string
  | JArr "jsval list"
  | JObj "(string \<times> jsval) list"

text \<open>A thrown exception: its name and its message.\<close>

datatype exn = Exn string string

fun errText :: "exn \<Rightarrow> string" where
  "errText (Exn name msg) = (if msg = [] then name else msg)"

definition bindE :: "exn + 'a \<Rightarrow> ('a \<Rightarrow> exn + 'b) \<Rightarrow> exn + 'b" where
  "bindE m f = (case m of Inl e \<Rightarrow> Inl e | Inr x \<Rightarrow> f x)"

fun truthy :: "jsval \<Rightarrow> bool" where
  "truthy JUndefined = False"
| "truthy JNull = False"
| "truthy (JBool b) = b"
| "truthy (JNum r) = (r \<noteq> 0)"
| "truthy JNaN = False"
| "truthy (JStr s) = (s \<noteq> [])"
| "truthy (JArr xs) = True"
| "truthy (JObj kvs) = True"

definition nullish :: "jsval \<Rightarrow> bool" where
  "nullish v = (v = JUndefined \<or> v = JNull)"

text \<open>\<^verbatim>\<open>a || b\<close> and \<^verbatim>\<open>a ?? b\<close> on values already computed.\<close>

definition js_or :: "jsval \<Rightarrow> jsval \<Rightarrow> jsval" where
  "js_or a b = (if truthy a then a else b)"

definition js_coalesce :: "jsval \<Rightarrow> jsval \<Rightarrow> jsval" where
  "js_coalesce a b = (if nullish a then b else a)"

text \<open>\<^verbatim>\<open>typeof v === 'object'\<close> (true of \<^verbatim>\<open>null\<close>), and the other tests on types.\<close>

fun typeof_object :: "jsval \<Rightarrow> bool" where
  "typeof_object JNull = True"
| "typeof_object (JArr xs) = True"
| "typeof_object (JObj kvs) = True"
| "typeof_object v = False"

fun typeof_string :: "jsval \<Rightarrow> bool" where
  "typeof_string (JStr s) = True"
| "typeof_string v = False"

fun typeof_number :: "jsval \<Rightarrow> bool" where
  "typeof_number (JNum r) = True"
| "typeof_number JNaN = True"
| "typeof_number v = False"

fun isArray :: "jsval \<Rightarrow> bool" where
  "isArray (JArr xs) = True"
| "isArray v = False"

text \<open>
  \<^verbatim>\<open>JSON.stringify\<close> read back: a property that is \<^verbatim>\<open>undefined\<close> is left out, an item
  that is \<^verbatim>\<open>undefined\<close> and \<^verbatim>\<open>NaN\<close> become \<^verbatim>\<open>null\<close>. The result of \<^verbatim>\<open>JSON.parse\<close>
  has none of these and is written back as it is.
\<close>

fun jsonify :: "jsval \<Rightarrow> jsval"
  and jsonify_items :: "jsval list \<Rightarrow> jsval list"
  and jsonify_fields :: "(string \<times> jsval) list \<Rightarrow> (string \<times> jsval) list" where
  "jsonify (JArr xs) = JArr (jsonify_items xs)"
| "jsonify (JObj kvs) = JObj (jsonify_fields kvs)"
| "jsonify JNaN = JNull"
| "jsonify JUndefined = JUndefined"
| "jsonify JNull = JNull"
| "jsonify (JBool b) = JBool b"
| "jsonify (JNum r) = JNum r"
| "jsonify (JStr s) = JStr s"
| "jsonify_items [] = []"
| "jsonify_items (x # xs) = (if x = JUndefined then JNull else jsonify x) # jsonify_items xs"
| "jsonify_fields [] = []"
| "jsonify_fields (kv # kvs) =
     (if snd kv = JUndefined then jsonify_fields kvs
      else (fst kv, jsonify (snd kv)) # jsonify_fields kvs)"

text \<open>The values that \<^verbatim>\<open>JSON.parse\<close> returns.\<close>

fun json_value :: "jsval \<Rightarrow> bool"
  and json_items :: "jsval list \<Rightarrow> bool"
  and json_fields :: "(string \<times> jsval) list \<Rightarrow> bool" where
  "json_value (JArr xs) = json_items xs"
| "json_value (JObj kvs) = json_fields kvs"
| "json_value JNaN = False"
| "json_value JUndefined = False"
| "json_value JNull = True"
| "json_value (JBool b) = True"
| "json_value (JNum r) = True"
| "json_value (JStr s) = True"
| "json_items [] = True"
| "json_items (x # xs) = (json_value x \<and> json_items xs)"
| "json_fields [] = True"
| "json_fields (kv # kvs) = (json_value (snd kv) \<and> json_fields kvs)"

subsection \<open>Decimal numerals and array indices\<close>

text \<open>
  The code of a character and the value of a numeral are integers: the scripts compare
  and add them as numbers.
\<close>

definition is_digit :: "char \<Rightarrow> bool" where
  "is_digit c = (48 \<le> (of_char c :: int) \<and> (of_char c :: int) \<le> 57)"

definition digit_val :: "char \<Rightarrow> int" where
  "digit_val c = (of_char c :: int) - 48"

definition int_of_dec :: "string \<Rightarrow> int" where
  "int_of_dec s = foldl (\<lambda>n c. 10 * n + digit_val c) 0 s"

text \<open>The decimal numeral of an integer that is not negative.\<close>

function dec_int :: "int \<Rightarrow> string" where
  "dec_int i = (if i < 10 then [char_of (48 + i)] else dec_int (i div 10) @ [char_of (48 + i mod 10)])"
  by pat_completeness auto
termination
  by (relation "measure nat") auto

declare dec_int.simps [simp del]

definition dec :: "nat \<Rightarrow> string" where
  "dec n = dec_int (int n)"

text \<open>The integer that a rational number is, if it is one.\<close>

definition rat_int :: "rat \<Rightarrow> int option" where
  "rat_int r = (if snd (quotient_of r) = 1 then Some (fst (quotient_of r)) else None)"

text \<open>A canonical array index: the decimal numeral of a number below \<open>2^32 - 1\<close>.\<close>

definition is_array_index :: "string \<Rightarrow> bool" where
  "is_array_index s =
     (s \<noteq> [] \<and> list_all is_digit s \<and> (s = ''0'' \<or> hd s \<noteq> CHR ''0'')
      \<and> int_of_dec s < 4294967295)"

subsection \<open>Reading and writing properties\<close>

text \<open>
  Reading an own property of a value that is neither \<^verbatim>\<open>null\<close> nor \<^verbatim>\<open>undefined\<close>.
  Inherited properties are left out: every name the scripts read is a fixed name that
  no prototype defines.
\<close>

fun getp :: "jsval \<Rightarrow> string \<Rightarrow> jsval" where
  "getp (JObj kvs) k = (case map_of kvs k of Some v \<Rightarrow> v | None \<Rightarrow> JUndefined)"
| "getp (JArr xs) k =
     (if is_array_index k \<and> int_of_dec k < int (length xs) then xs ! nat (int_of_dec k)
      else if k = ''length'' then JNum (of_nat (length xs))
      else JUndefined)"
| "getp (JStr s) k =
     (if is_array_index k \<and> int_of_dec k < int (length s) then JStr [s ! nat (int_of_dec k)]
      else if k = ''length'' then JNum (of_nat (length s))
      else JUndefined)"
| "getp v k = JUndefined"

text \<open>
  \<^verbatim>\<open>v.k\<close> raises a TypeError on \<^verbatim>\<open>null\<close> and \<^verbatim>\<open>undefined\<close>, with the message of the
  runtime: \<^verbatim>\<open>Cannot read properties of null (reading 'k')\<close>. \<^verbatim>\<open>v?.k\<close> gives
  \<^verbatim>\<open>undefined\<close> there.
\<close>

definition dot :: "jsval \<Rightarrow> string \<Rightarrow> exn + jsval" where
  "dot v k =
     (if nullish v
      then Inl (Exn ''TypeError''
                 (''Cannot read properties of '' @ (if v = JNull then ''null'' else ''undefined'')
                  @ '' (reading '' @ [CHR 0x27] @ k @ [CHR 0x27] @ '')''))
      else Inr (getp v k))"

definition opt :: "jsval \<Rightarrow> string \<Rightarrow> jsval" where
  "opt v k = (if nullish v then JUndefined else getp v k)"

text \<open>The own enumerable properties: what \<^verbatim>\<open>Object.entries\<close> lists and a spread copies.\<close>

fun own_entries :: "jsval \<Rightarrow> (string \<times> jsval) list" where
  "own_entries (JObj kvs) = kvs"
| "own_entries (JArr xs) = zip (map dec [0..<length xs]) xs"
| "own_entries (JStr s) = zip (map dec [0..<length s]) (map (\<lambda>c. JStr [c]) s)"
| "own_entries v = []"

definition comes_before :: "string \<Rightarrow> string \<Rightarrow> bool" where
  "comes_before k k' =
     (is_array_index k \<and> (\<not> is_array_index k' \<or> int_of_dec k < int_of_dec k'))"

fun obj_insert :: "string \<Rightarrow> jsval \<Rightarrow> (string \<times> jsval) list \<Rightarrow> (string \<times> jsval) list" where
  "obj_insert k v [] = [(k, v)]"
| "obj_insert k v (kv # kvs) =
     (if comes_before k (fst kv) then (k, v) # kv # kvs else kv # obj_insert k v kvs)"

definition obj_set :: "string \<Rightarrow> jsval \<Rightarrow> (string \<times> jsval) list \<Rightarrow> (string \<times> jsval) list" where
  "obj_set k v kvs =
     (if k \<in> set (map fst kvs)
      then map (\<lambda>kv. if fst kv = k then (k, v) else kv) kvs
      else obj_insert k v kvs)"

text \<open>\<^verbatim>\<open>{ ...target, ...src }\<close>: the properties of \<open>src\<close> written over \<open>target\<close>.\<close>

definition spread :: "(string \<times> jsval) list \<Rightarrow> jsval \<Rightarrow> (string \<times> jsval) list" where
  "spread target src = foldl (\<lambda>kvs kv. obj_set (fst kv) (snd kv) kvs) target (own_entries src)"

subsection \<open>Strings\<close>

definition is_space :: "char \<Rightarrow> bool" where
  "is_space c = ((of_char c :: int) \<in> {9, 10, 11, 12, 13, 32, 160})"

definition trim :: "string \<Rightarrow> string" where
  "trim s = rev (dropWhile is_space (rev (dropWhile is_space s)))"

definition is_upper :: "char \<Rightarrow> bool" where
  "is_upper c = (65 \<le> (of_char c :: int) \<and> (of_char c :: int) \<le> 90)"

definition is_lower :: "char \<Rightarrow> bool" where
  "is_lower c = (97 \<le> (of_char c :: int) \<and> (of_char c :: int) \<le> 122)"

text \<open>\<^verbatim>\<open>toLowerCase\<close> on code units below 256.\<close>

definition lower_char :: "char \<Rightarrow> char" where
  "lower_char c =
     (let n = (of_char c :: int)
      in if (65 \<le> n \<and> n \<le> 90) \<or> (192 \<le> n \<and> n \<le> 222 \<and> n \<noteq> 215)
         then char_of (n + 32) else c)"

definition toLowerCase :: "string \<Rightarrow> string" where
  "toLowerCase s = map lower_char s"

fun starts_with :: "string \<Rightarrow> string \<Rightarrow> bool" where
  "starts_with s [] = True"
| "starts_with [] (p # ps) = False"
| "starts_with (c # cs) (p # ps) = (c = p \<and> starts_with cs ps)"

text \<open>\<^verbatim>\<open>s.includes(t)\<close>.\<close>

fun str_includes :: "string \<Rightarrow> string \<Rightarrow> bool" where
  "str_includes [] t = (t = [])"
| "str_includes (c # cs) t = (starts_with (c # cs) t \<or> str_includes cs t)"

fun join :: "string \<Rightarrow> string list \<Rightarrow> string" where
  "join sep [] = []"
| "join sep [x] = x"
| "join sep (x # y # ys) = x @ sep @ join sep (y # ys)"

section \<open>The database\<close>

text \<open>
  One record per table of the schema, with the columns the statements of the scripts
  write. Columns the database fills by default (generated keys, \<^verbatim>\<open>created_at\<close>) are left
  out. A column that belongs to a key a statement names holds the value as the database
  compares it (an integer year, a text code). The \<^verbatim>\<open>raw_json\<close> of a version and of a raw
  section holds the JSON value that the database has read from what the client sent for
  the document (\<open>pg_jsonb\<close> and \<open>http_jsonb\<close> below). The other columns hold the
  parameter as it was passed.
\<close>

datatype run_status = UPDATED | UNCHANGED | OUTDATED | PARTIAL | ERROR

record company_row =
  co_azienda_id :: string
  co_vat_code :: jsval
  co_tax_code :: jsval
  co_company_name :: jsval
  co_legal_form :: jsval
  co_status :: jsval
  co_cciaa :: jsval
  co_rea_code :: jsval
  co_country_code :: jsval

record version_row =
  cv_azienda_id :: string
  cv_effective_date :: string
  cv_content_hash :: string
  cv_raw_json :: jsval

record raw_row =
  rs_azienda_id :: string
  rs_section :: string
  rs_effective_date :: string
  rs_raw_json :: jsval

record contact_row =
  ct_azienda_id :: string
  ct_effective_date :: string
  ct_phone :: jsval
  ct_email :: jsval
  ct_pec :: jsval
  ct_website :: jsval
  ct_raw_json :: jsval

record address_row =
  ad_azienda_id :: string
  ad_effective_date :: string
  ad_address_type :: jsval
  ad_street :: jsval
  ad_zip_code :: jsval
  ad_town :: jsval
  ad_province :: jsval
  ad_region :: jsval
  ad_country :: jsval
  ad_raw_json :: jsval

record ateco_row =
  at_ateco_id :: string
  at_azienda_id :: string
  at_effective_date :: string
  at_ateco_code :: jsval
  at_ateco_description :: jsval
  at_raw_json :: jsval

record balance_row =
  be_azienda_id :: string
  be_year :: int
  be_statement :: string
  be_code :: string
  be_description :: jsval
  be_amount :: jsval
  be_currency :: jsval
  be_source_path :: jsval
  be_note :: jsval
  be_content_hash :: string

record unmapped_row =
  um_code :: string
  um_statement_guess :: jsval
  um_occurrences :: nat

text \<open>What \<^verbatim>\<open>ensureColumn\<close> returns: \<^verbatim>\<open>{ created, column, pgType }\<close>.\<close>

record ensured =
  created :: bool
  column :: string
  pgType :: "string option"

text \<open>
  The run summary. \<^verbatim>\<open>createdTables\<close> and \<^verbatim>\<open>updates\<close> are never written after their
  creation and are left out. A created column is \<^verbatim>\<open>{ table, ...res }\<close>, a warning is
  \<^verbatim>\<open>{ table, reason, row }\<close>.
\<close>

record report =
  ingestionId :: string
  createdColumns :: "(string \<times> ensured) list"
  inserts :: "(string \<times> nat) list"
  skips :: "(string \<times> nat) list"
  warnings :: "(string \<times> string \<times> jsval) list"
  status :: run_status

datatype summary = RunSummary report | ErrorSummary string

record ingestion_row =
  ig_ingestion_id :: string
  ig_azienda_id :: "string option"
  ig_status :: run_status
  ig_summary :: summary

text \<open>
  The store: the rows of each table in insertion order, the catalogue of columns
  (table, column, type) that \<^verbatim>\<open>information_schema.columns\<close> shows, and the legend of
  codes, which the scripts only read.
\<close>

record store =
  companies :: "company_row list"
  company_versions :: "version_row list"
  raw_sections :: "raw_row list"
  contacts :: "contact_row list"
  addresses :: "address_row list"
  ateco :: "ateco_row list"
  balance_entries :: "balance_row list"
  unmapped_codes :: "unmapped_row list"
  legend_codes :: "(string \<times> jsval) list"
  ingestions :: "ingestion_row list"
  columns :: "(string \<times> string \<times> string) list"

section \<open>The runtime and the libraries\<close>

text \<open>
  What the scripts take from outside their own text is a parameter of the model: the
  \<^verbatim>\<open>uuid\<close> and \<^verbatim>\<open>object-hash\<close> libraries (each call of \<^verbatim>\<open>uuidv4()\<close> is a draw of
  its own), the clock, the conversions between numbers, dates and strings of the runtime
  and of the database driver, the JSON reader of the database (\<open>jsonbOfText\<close>: the
  value of a text, if the text is JSON), and the statements the database rejects:
  \<open>db_error rt q db ps\<close> is the message of the error that statement \<open>q\<close> with
  parameters \<open>ps\<close> raises on the store \<open>db\<close>, if it raises one (a constraint
  other than those modelled below, a value of the wrong type, a lost connection).
\<close>

datatype site =
    QBegin | QCommit | QErrorRow
  | QUpsertCompany | QInsertVersion | QInsertRaw
  | QSelectColumn | QAlterTable | QDoEnsureColumn
  | QInsertContacts | QInsertAddresses | QInsertAteco
  | QSelectLegend | QUpsertUnmapped | QUpsertBalance
  | QInsertIngestion

record runtime =
  uuidv5 :: "string \<Rightarrow> string \<Rightarrow> string"
  uuidv4_ingestion :: string
  uuidv4_azienda :: string
  uuidv4_ateco :: "nat \<Rightarrow> string"
  hash :: "jsval \<Rightarrow> string"
  now :: string
  toISOString :: "jsval \<Rightarrow> string option"
  yearEndISO :: "jsval \<Rightarrow> string option"
  dateParses :: "string \<Rightarrow> bool"
  numToString :: "rat \<Rightarrow> string"
  strToNum :: "string \<Rightarrow> rat option"
  pgIntOfText :: "string \<Rightarrow> int option"
  pgTextOf :: "jsval \<Rightarrow> string"
  jsonbOfText :: "string \<Rightarrow> jsval option"
  db_error :: "site \<Rightarrow> store \<Rightarrow> jsval list \<Rightarrow> string option"

text \<open>
  \<^verbatim>\<open>String(v)\<close>, which a template literal and \<^verbatim>\<open>join\<close> apply as well. An integer
  below \<open>2\<^sup>5\<^sup>3\<close> is a number of the runtime and is printed with all its digits; the
  string of any other number is the runtime's (the shortest digits that read back as
  the same double).
\<close>

definition num_to_string :: "runtime \<Rightarrow> rat \<Rightarrow> string" where
  "num_to_string rt r =
     (case rat_int r of
        Some i \<Rightarrow> (if \<bar>i\<bar> < 2 ^ 53 then (if i < 0 then ''-'' else []) @ dec_int \<bar>i\<bar>
                   else numToString rt r)
      | None \<Rightarrow> numToString rt r)"

fun to_str :: "runtime \<Rightarrow> jsval \<Rightarrow> string" where
  "to_str rt JUndefined = ''undefined''"
| "to_str rt JNull = ''null''"
| "to_str rt (JBool b) = (if b then ''true'' else ''false'')"
| "to_str rt (JNum r) = num_to_string rt r"
| "to_str rt JNaN = ''NaN''"
| "to_str rt (JStr s) = s"
| "to_str rt (JArr xs) =
     join '','' (map (\<lambda>x. if x = JUndefined \<or> x = JNull then [] else to_str rt x) xs)"
| "to_str rt (JObj kvs) = ''[object Object]''"

section \<open>Utilities of both scripts\<close>

text \<open>
  \<^verbatim>\<open>pathArr.reduce((acc, key) => (acc && acc[key] !== undefined ? acc[key] : def), obj)\<close>
\<close>

definition safeGet :: "jsval \<Rightarrow> string list \<Rightarrow> jsval \<Rightarrow> jsval" where
  "safeGet obj pathArr def =
     foldl (\<lambda>acc key. if truthy acc \<and> getp acc key \<noteq> JUndefined then getp acc key else def)
       obj pathArr"

definition NS :: string where
  "NS = ''6ba7b810-9dad-11d1-80b4-00c04fd430c8''"

subsection \<open>Identity resolution\<close>

text \<open>
  \<^verbatim>\<open>index.js\<close>: the VAT code under \<^verbatim>\<open>companyDetails\<close> or at the root, then the tax code
  at the same places. The right operand of \<^verbatim>\<open>||\<close> is read only when the left one is
  falsy, and reading it raises when the payload is \<^verbatim>\<open>null\<close>.
\<close>

definition vatOf :: "jsval \<Rightarrow> exn + jsval" where
  "vatOf payload =
     (let a = safeGet payload [''companyDetails'', ''vatCode''] JUndefined
      in if truthy a then Inr a else dot payload ''vatCode'')"

definition taxOf :: "jsval \<Rightarrow> exn + jsval" where
  "taxOf payload =
     (let a = safeGet payload [''companyDetails'', ''taxCode''] JUndefined
      in if truthy a then Inr a else dot payload ''taxCode'')"

text \<open>\<^verbatim>\<open>const base = vat || tax\<close>\<close>

definition naturalKey :: "jsval \<Rightarrow> exn + jsval" where
  "naturalKey payload =
     bindE (vatOf payload) (\<lambda>vat.
     bindE (taxOf payload) (\<lambda>tax. Inr (js_or vat tax)))"

definition computeAziendaId :: "runtime \<Rightarrow> jsval \<Rightarrow> exn + string" where
  "computeAziendaId rt payload =
     bindE (naturalKey payload) (\<lambda>base.
       if \<not> truthy base then Inr (uuidv4_azienda rt)
       else Inr (uuidv5 rt (trim (to_str rt base)) NS))"

text \<open>\<^verbatim>\<open>index.http.js\<close> also looks under \<^verbatim>\<open>data\<close>.\<close>

definition vatOf_http :: "jsval \<Rightarrow> exn + jsval" where
  "vatOf_http payload =
     (let a = js_or (safeGet payload [''companyDetails'', ''vatCode''] JUndefined)
                (safeGet payload [''data'', ''companyDetails'', ''vatCode''] JUndefined)
      in if truthy a then Inr a
         else bindE (dot payload ''vatCode'') (\<lambda>b.
              if truthy b then Inr b else Inr (opt (opt payload ''data'') ''vatCode'')))"

definition taxOf_http :: "jsval \<Rightarrow> exn + jsval" where
  "taxOf_http payload =
     (let a = js_or (safeGet payload [''companyDetails'', ''taxCode''] JUndefined)
                (safeGet payload [''data'', ''companyDetails'', ''taxCode''] JUndefined)
      in if truthy a then Inr a
         else bindE (dot payload ''taxCode'') (\<lambda>b.
              if truthy b then Inr b else Inr (opt (opt payload ''data'') ''taxCode'')))"

definition naturalKey_http :: "jsval \<Rightarrow> exn + jsval" where
  "naturalKey_http payload =
     bindE (vatOf_http payload) (\<lambda>vat.
     bindE (taxOf_http payload) (\<lambda>tax. Inr (js_or vat tax)))"

definition computeAziendaId_http :: "runtime \<Rightarrow> jsval \<Rightarrow> exn + string" where
  "computeAziendaId_http rt payload =
     bindE (naturalKey_http payload) (\<lambda>base.
       if truthy base then Inr (uuidv5 rt (trim (to_str rt base)) NS)
       else Inr (uuidv4_azienda rt))"

subsection \<open>Column names and column types\<close>

text \<open>
  \<^verbatim>\<open>String(str).replace(/([a-z0-9])([A-Z])/g, '$1_$2').replace(/[\s\-\.]+/g, '_')
  .toLowerCase().slice(0, 60)\<close>. A global replace goes on after the end of each match.
\<close>

fun camel_split :: "string \<Rightarrow> string" where
  "camel_split (a # b # cs) =
     (if (is_lower a \<or> is_digit a) \<and> is_upper b
      then a # CHR ''_'' # b # camel_split cs
      else a # camel_split (b # cs))"
| "camel_split cs = cs"

definition is_sep :: "char \<Rightarrow> bool" where
  "is_sep c = (is_space c \<or> c = CHR ''-'' \<or> c = CHR ''.'')"

function collapse_seps :: "string \<Rightarrow> string" where
  "collapse_seps [] = []"
| "collapse_seps (c # cs) =
     (if is_sep c then CHR ''_'' # collapse_seps (dropWhile is_sep cs)
      else c # collapse_seps cs)"
  by pat_completeness auto
termination
  by (relation "measure length") (auto simp: length_dropWhile_le less_Suc_eq_le)

definition toSnakeCase :: "string \<Rightarrow> string" where
  "toSnakeCase str = take 60 (toLowerCase (collapse_seps (camel_split str)))"

text \<open>\<^verbatim>\<open>/^(\d{4}-\d{2}-\d{2})/.test(value)\<close>\<close>

definition iso_date_prefix :: "string \<Rightarrow> bool" where
  "iso_date_prefix s =
     (10 \<le> length s
      \<and> list_all is_digit (take 4 s) \<and> s ! 4 = CHR ''-''
      \<and> list_all is_digit (take 2 (drop 5 s)) \<and> s ! 7 = CHR ''-''
      \<and> list_all is_digit (take 2 (drop 8 s)))"

fun inferPgType :: "runtime \<Rightarrow> jsval \<Rightarrow> string" where
  "inferPgType rt JNull = ''text''"
| "inferPgType rt (JBool b) = ''boolean''"
| "inferPgType rt (JNum r) = (if rat_int r \<noteq> None then ''bigint'' else ''numeric'')"
| "inferPgType rt JNaN = ''numeric''"
| "inferPgType rt (JStr s) =
     (if dateParses rt s \<and> iso_date_prefix s
      then (if str_includes s ''T'' then ''timestamptz'' else ''date'')
      else ''text'')"
| "inferPgType rt v = ''text''"

subsection \<open>Effective dates\<close>

text \<open>
  \<^verbatim>\<open>toISOString\<close> raises a RangeError on an invalid date: \<open>toISOString rt v\<close> is
  \<^verbatim>\<open>new Date(v).toISOString()\<close> and \<open>yearEndISO rt y\<close> is
  \<^verbatim>\<open>new Date(Date.UTC(Number(y), 11, 31)).toISOString()\<close>, \<open>None\<close> where they raise.
\<close>

definition iso_or_raise :: "string option \<Rightarrow> exn + string" where
  "iso_or_raise d =
     (case d of None \<Rightarrow> Inl (Exn ''RangeError'' ''Invalid time value'') | Some s \<Rightarrow> Inr s)"

definition effectiveDateForSection :: "runtime \<Rightarrow> string \<Rightarrow> jsval \<Rightarrow> string \<Rightarrow> exn + string" where
  "effectiveDateForSection rt sectionName sectionPayload globalFallback =
     (let year = js_or (opt sectionPayload ''year'') (opt sectionPayload ''fiscalYear'')
      in if sectionName = ''balance'' \<and> truthy year then iso_or_raise (yearEndISO rt year)
         else
           let dates = filter truthy
                 [opt sectionPayload ''lastUpdateDate'', opt sectionPayload ''updateDate'',
                  opt sectionPayload ''sinceDate'', opt sectionPayload ''roleStartDate'']
           in iso_or_raise (toISOString rt (case dates of [] \<Rightarrow> JStr globalFallback | d # ds \<Rightarrow> d)))"

section \<open>Statements on the store\<close>

text \<open>
  A step of a script works on the store and either returns a value or raises; the store
  it leaves is kept in both cases, so that a caller without a transaction sees the writes
  made before the exception.
\<close>

type_synonym 'a io = "store \<Rightarrow> (exn + 'a) \<times> store"

definition returnIO :: "'a \<Rightarrow> 'a io" where
  "returnIO x = (\<lambda>db. (Inr x, db))"

definition liftE :: "exn + 'a \<Rightarrow> 'a io" where
  "liftE r = (\<lambda>db. (r, db))"

definition bindIO :: "'a io \<Rightarrow> ('a \<Rightarrow> 'b io) \<Rightarrow> 'b io" where
  "bindIO m f = (\<lambda>db. case m db of (Inl e, db') \<Rightarrow> (Inl e, db') | (Inr x, db') \<Rightarrow> f x db')"

text \<open>
  A statement the store accepts has the effect \<open>eff\<close>; one it rejects raises the
  database's error and has none. A \<^verbatim>\<open>pg\<close> error has the name \<^verbatim>\<open>error\<close>.
\<close>

definition query :: "runtime \<Rightarrow> site \<Rightarrow> jsval list \<Rightarrow> (store \<Rightarrow> store) \<Rightarrow> unit io" where
  "query rt q ps eff =
     (\<lambda>db. case db_error rt q db ps of
             Some msg \<Rightarrow> (Inl (Exn ''error'' msg), db)
           | None \<Rightarrow> (Inr (), eff db))"

text \<open>A query parameter: \<^verbatim>\<open>undefined\<close> is sent as \<^verbatim>\<open>null\<close>.\<close>

definition pgv :: "jsval \<Rightarrow> jsval" where
  "pgv v = (if v = JUndefined then JNull else v)"

subsection \<open>Schema evolution\<close>

definition SCHEMA_columns :: "store \<Rightarrow> string \<Rightarrow> string \<Rightarrow> bool" where
  "SCHEMA_columns db tableName col = list_ex (\<lambda>c. fst c = tableName \<and> fst (snd c) = col) (columns db)"

text \<open>
  \<^verbatim>\<open>index.js\<close>: look the column up in the catalogue; add it and report
  \<^verbatim>\<open>created: true\<close> only when the lookup finds no row.
\<close>

definition ensureColumn :: "runtime \<Rightarrow> string \<Rightarrow> string \<Rightarrow> jsval \<Rightarrow> ensured io" where
  "ensureColumn rt tableName columnName sampleValue =
     (let col = toSnakeCase columnName
      in bindIO (query rt QSelectColumn [JStr tableName, JStr col] id) (\<lambda>_. (\<lambda>db.
           if \<not> SCHEMA_columns db tableName col
           then
             (let pgType = inferPgType rt sampleValue
              in bindIO (query rt QAlterTable [JStr tableName, JStr col, JStr pgType]
                           (\<lambda>db. db\<lparr>columns := columns db @ [(tableName, col, pgType)]\<rparr>))
                   (\<lambda>_. returnIO \<lparr>created = True, column = col, pgType = Some pgType\<rparr>)) db
           else returnIO \<lparr>created = False, column = col, pgType = None\<rparr> db)))"

text \<open>
  \<^verbatim>\<open>index.http.js\<close>: one anonymous block that adds the column if the catalogue does not
  have it; whatever the block did, the function returns \<^verbatim>\<open>created: true\<close>. \<^verbatim>\<open>execSQL\<close>
  wraps the database's error.
\<close>

definition execSQL_error :: "exn + 'a \<Rightarrow> exn + 'a" where
  "execSQL_error r =
     (case r of Inl e \<Rightarrow> Inl (Exn ''Error'' (''SQL execution error: '' @ (case e of Exn n m \<Rightarrow> m)))
              | Inr x \<Rightarrow> Inr x)"

definition ensureColumn_http :: "runtime \<Rightarrow> string \<Rightarrow> string \<Rightarrow> jsval \<Rightarrow> ensured io" where
  "ensureColumn_http rt tableName columnName sampleValue =
     (let col = toSnakeCase columnName;
          pgType = inferPgType rt sampleValue
      in (\<lambda>db.
           case query rt QDoEnsureColumn [JStr tableName, JStr col, JStr pgType]
                  (\<lambda>db. if \<not> SCHEMA_columns db tableName col
                        then db\<lparr>columns := columns db @ [(tableName, col, pgType)]\<rparr>
                        else db) db
           of (r, db') \<Rightarrow>
             (case execSQL_error r of
                Inl e \<Rightarrow> (Inl e, db')
              | Inr _ \<Rightarrow> (Inr \<lparr>created = True, column = col, pgType = Some pgType\<rparr>, db'))))"

subsection \<open>The document as a parameter\<close>

text \<open>
  \<^verbatim>\<open>index.js\<close> passes the document itself as the parameter of a \<^verbatim>\<open>jsonb\<close> column. The
  library \<^verbatim>\<open>pg\<close> sends an object as its \<^verbatim>\<open>JSON.stringify\<close>, an array as a PostgreSQL
  array literal (braces around the items, each \<^verbatim>\<open>NULL\<close>, a nested literal or a quoted
  string), and any other value as its \<^verbatim>\<open>toString()\<close>; the database reads the text as
  JSON. The literal of the empty array is \<^verbatim>\<open>{}\<close>, the empty object; the literal of any
  other array is not JSON (no item has a colon outside quotes). \<open>None\<close>: the database
  rejects the value, as text that is not JSON or, for \<^verbatim>\<open>null\<close> and \<^verbatim>\<open>undefined\<close>, as
  \<^verbatim>\<open>NULL\<close> in a column that is \<^verbatim>\<open>NOT NULL\<close>.
\<close>

definition pg_jsonb :: "runtime \<Rightarrow> jsval \<Rightarrow> jsval option" where
  "pg_jsonb rt v =
     (case v of
        JObj kvs \<Rightarrow> Some (jsonify (JObj kvs))
      | JArr xs \<Rightarrow> (if xs = [] then Some (JObj []) else None)
      | JStr s \<Rightarrow> jsonbOfText rt s
      | JNum r \<Rightarrow> Some (JNum r)
      | JBool b \<Rightarrow> Some (JBool b)
      | JNaN \<Rightarrow> None
      | JNull \<Rightarrow> None
      | JUndefined \<Rightarrow> None)"

text \<open>
  \<^verbatim>\<open>index.http.js\<close> sends the document inside the JSON body of the request: the column
  gets its \<^verbatim>\<open>JSON.stringify\<close>, and \<^verbatim>\<open>NULL\<close> when that is \<^verbatim>\<open>null\<close> or left out.
\<close>

definition http_jsonb :: "jsval \<Rightarrow> jsval option" where
  "http_jsonb v = (if v = JUndefined \<or> jsonify v = JNull then None else Some (jsonify v))"

definition not_null_violation :: "string \<Rightarrow> exn" where
  "not_null_violation relation =
     Exn ''error''
       (''null value in column '' @ [CHR 0x22] @ ''raw_json'' @ [CHR 0x22] @ '' of relation ''
        @ [CHR 0x22] @ relation @ [CHR 0x22] @ '' violates not-null constraint'')"

definition jsonb_rejected :: "string \<Rightarrow> jsval \<Rightarrow> exn" where
  "jsonb_rejected relation v =
     (if nullish v then not_null_violation relation
      else Exn ''error'' ''invalid input syntax for type json'')"

section \<open>index.js: writes\<close>

text \<open>
  \<^verbatim>\<open>insert ... on conflict (azienda_id) do update set ...\<close>: every column but the key is
  overwritten, so the row of that key is replaced.
\<close>

definition upsert_company :: "company_row \<Rightarrow> company_row list \<Rightarrow> company_row list" where
  "upsert_company row rows =
     (if list_ex (\<lambda>r. co_azienda_id r = co_azienda_id row) rows
      then map (\<lambda>r. if co_azienda_id r = co_azienda_id row then row else r) rows
      else rows @ [row])"

definition upsertCompany :: "runtime \<Rightarrow> jsval \<Rightarrow> string io" where
  "upsertCompany rt payload =
     bindIO (liftE (computeAziendaId rt payload)) (\<lambda>azienda_id.
     bindIO (liftE (dot payload ''companyDetails'')) (\<lambda>cd.
       let details = js_or cd (JObj []);
           name = js_or (js_or (getp details ''companyName'') (getp payload ''companyName'')) JNull;
           vat = js_or (js_or (getp details ''vatCode'') (getp payload ''vatCode'')) JNull;
           tax = js_or (js_or (getp details ''taxCode'') (getp payload ''taxCode'')) JNull;
           legal_form = js_or (js_or (safeGet payload [''legalForm'', ''description''] JUndefined)
                                 (getp details ''legalForm'')) JNull;
           cstatus = js_or (safeGet payload [''companyStatus'', ''description''] JUndefined) JNull;
           cciaa = js_or (js_or (safeGet payload [''chamberOfCommerce'', ''code''] JUndefined)
                            (getp details ''cciaa'')) JNull;
           rea = js_or (getp details ''reaCode'') JNull;
           country = js_or (safeGet payload [''address'', ''country'', ''code''] JUndefined) JNull;
           row = \<lparr>co_azienda_id = azienda_id, co_vat_code = vat, co_tax_code = tax,
                  co_company_name = name, co_legal_form = legal_form, co_status = cstatus,
                  co_cciaa = cciaa, co_rea_code = rea, co_country_code = country\<rparr>
       in bindIO (query rt QUpsertCompany
                    [JStr azienda_id, vat, tax, name, legal_form, cstatus, cciaa, rea, country]
                    (\<lambda>db. db\<lparr>companies := upsert_company row (companies db)\<rparr>))
            (\<lambda>_. returnIO azienda_id)))"

text \<open>
  \<^verbatim>\<open>insert ... on conflict do nothing\<close> names no conflict target: the row is skipped
  when it collides with a row of the table on one of the table's unique constraints, and
  is inserted otherwise. A unique constraint is given by the columns it covers.
\<close>

definition on_conflict_do_nothing :: "('r \<Rightarrow> 'k) list \<Rightarrow> 'r \<Rightarrow> 'r list \<Rightarrow> 'r list" where
  "on_conflict_do_nothing uniq row rows =
     (if list_ex (\<lambda>key. list_ex (\<lambda>r. key r = key row) rows) uniq then rows else rows @ [row])"

text \<open>
  The schema of the repository declares one unique constraint on \<^verbatim>\<open>company_versions\<close>,
  \<^verbatim>\<open>PRIMARY KEY (version_id)\<close>, over a column that the statement leaves to its default
  \<^verbatim>\<open>gen_random_uuid()\<close>: a value of its own in every row. No unique constraint covers the
  columns the statement writes.
\<close>

definition company_versions_unique :: "(version_row \<Rightarrow> string list) list" where
  "company_versions_unique = []"

definition insertCompanyVersion :: "runtime \<Rightarrow> string \<Rightarrow> jsval \<Rightarrow> string \<Rightarrow> string io" where
  "insertCompanyVersion rt azienda_id raw_json effective_date =
     (let content_hash = hash rt raw_json
      in case pg_jsonb rt raw_json of
           None \<Rightarrow> liftE (Inl (jsonb_rejected ''company_versions'' raw_json))
         | Some stored \<Rightarrow>
             bindIO (query rt QInsertVersion
                       [JStr azienda_id, JStr effective_date, JStr content_hash, raw_json]
                       (\<lambda>db. db\<lparr>company_versions :=
                               on_conflict_do_nothing company_versions_unique
                                 \<lparr>cv_azienda_id = azienda_id, cv_effective_date = effective_date,
                                  cv_content_hash = content_hash, cv_raw_json = stored\<rparr>
                                 (company_versions db)\<rparr>))
               (\<lambda>_. returnIO content_hash))"

definition insertRawSection :: "runtime \<Rightarrow> string \<Rightarrow> string \<Rightarrow> string \<Rightarrow> jsval \<Rightarrow> unit io" where
  "insertRawSection rt azienda_id section effective_date raw_json =
     (case pg_jsonb rt raw_json of
        None \<Rightarrow> liftE (Inl (jsonb_rejected ''raw_sections'' raw_json))
      | Some stored \<Rightarrow>
          query rt QInsertRaw [JStr azienda_id, JStr section, JStr effective_date, raw_json]
            (\<lambda>db. db\<lparr>raw_sections := raw_sections db @
               [\<lparr>rs_azienda_id = azienda_id, rs_section = section,
                 rs_effective_date = effective_date, rs_raw_json = stored\<rparr>]\<rparr>))"

text \<open>
  The loop that promotes scalar fields to columns: each field that is not \<^verbatim>\<open>null\<close>, not
  an object and not in the list \<open>excl\<close> goes through \<^verbatim>\<open>ensureColumn\<close>, and the result is
  pushed to \<^verbatim>\<open>report.createdColumns\<close> if it says \<^verbatim>\<open>created\<close>.
\<close>

fun promote :: "runtime \<Rightarrow> string \<Rightarrow> string list \<Rightarrow> (string \<times> jsval) list \<Rightarrow> report \<Rightarrow> report io" where
  "promote rt table excl [] rep = returnIO rep"
| "promote rt table excl (kv # kvs) rep =
     (if snd kv \<noteq> JNull \<and> \<not> typeof_object (snd kv) \<and> fst kv \<notin> set excl
      then bindIO (ensureColumn rt table (fst kv) (snd kv)) (\<lambda>res.
             promote rt table excl kvs
               (if created res then rep\<lparr>createdColumns := createdColumns rep @ [(table, res)]\<rparr>
                else rep))
      else promote rt table excl kvs rep)"

text \<open>The fields that go through \<^verbatim>\<open>ensureColumn\<close>, in either script.\<close>

definition promoted :: "string list \<Rightarrow> string \<times> jsval \<Rightarrow> bool" where
  "promoted excl kv = (snd kv \<noteq> JNull \<and> \<not> typeof_object (snd kv) \<and> fst kv \<notin> set excl)"

definition upsertContacts :: "runtime \<Rightarrow> string \<Rightarrow> jsval \<Rightarrow> string \<Rightarrow> report \<Rightarrow> report io" where
  "upsertContacts rt azienda_id sectionPayload effective_date rep =
     bindIO (promote rt ''contacts'' [] (own_entries sectionPayload) rep) (\<lambda>rep'.
     bindIO (query rt QInsertContacts
               [JStr azienda_id, JStr effective_date, pgv (getp sectionPayload ''phone''),
                pgv (getp sectionPayload ''email''), pgv (getp sectionPayload ''pec''),
                pgv (getp sectionPayload ''website''), sectionPayload]
               (\<lambda>db. db\<lparr>contacts := contacts db @
                  [\<lparr>ct_azienda_id = azienda_id, ct_effective_date = effective_date,
                    ct_phone = pgv (getp sectionPayload ''phone''),
                    ct_email = pgv (getp sectionPayload ''email''),
                    ct_pec = pgv (getp sectionPayload ''pec''),
                    ct_website = pgv (getp sectionPayload ''website''),
                    ct_raw_json = sectionPayload\<rparr>]\<rparr>))
       (\<lambda>_. returnIO rep'))"

definition address_row_of :: "string \<Rightarrow> string \<Rightarrow> jsval \<Rightarrow> address_row" where
  "address_row_of azienda_id effective_date addr =
     \<lparr>ad_azienda_id = azienda_id, ad_effective_date = effective_date,
      ad_address_type = js_or (getp addr ''addressType'') JNull,
      ad_street = js_or (js_or (getp addr ''street'') (getp addr ''streetName'')) JNull,
      ad_zip_code = js_or (getp addr ''zipCode'') JNull,
      ad_town = js_or (getp addr ''town'') JNull,
      ad_province = js_or (js_or (getp addr ''province'') (opt (getp addr ''province'') ''code'')) JNull,
      ad_region = js_or (js_or (getp addr ''region'') (opt (getp addr ''region'') ''description'')) JNull,
      ad_country = js_or (js_or (getp addr ''country'') (opt (getp addr ''country'') ''code'')) JNull,
      ad_raw_json = addr\<rparr>"

fun upsertAddresses :: "runtime \<Rightarrow> string \<Rightarrow> jsval list \<Rightarrow> report \<Rightarrow> string \<Rightarrow> report io" where
  "upsertAddresses rt azienda_id [] rep globalFallback = returnIO rep"
| "upsertAddresses rt azienda_id (addr # list) rep globalFallback =
     bindIO (liftE (effectiveDateForSection rt ''addresses'' addr globalFallback)) (\<lambda>effective_date.
     bindIO (promote rt ''addresses''
               [''street'', ''zipCode'', ''town'', ''province'', ''region'', ''country'', ''addressType'']
               (own_entries addr) rep) (\<lambda>rep'.
     bindIO (query rt QInsertAddresses [JStr azienda_id, JStr effective_date, addr]
               (\<lambda>db. db\<lparr>addresses := addresses db @ [address_row_of azienda_id effective_date addr]\<rparr>))
       (\<lambda>_. upsertAddresses rt azienda_id list rep' globalFallback)))"

subsection \<open>Financial line items\<close>

text \<open>
  The values of the key columns as the database compares them: \<^verbatim>\<open>year\<close> is an
  \<^verbatim>\<open>integer\<close> column (a parameter that is not the numeral of a 32-bit integer is
  rejected), \<^verbatim>\<open>statement\<close> and \<^verbatim>\<open>code\<close> are \<^verbatim>\<open>text\<close> columns.
\<close>

definition pg_int :: "runtime \<Rightarrow> jsval \<Rightarrow> int option" where
  "pg_int rt v =
     (case v of
        JNum r \<Rightarrow> (case rat_int r of
                     Some i \<Rightarrow> (if - 2147483648 \<le> i \<and> i \<le> 2147483647 then Some i else None)
                   | None \<Rightarrow> None)
      | JStr s \<Rightarrow> pgIntOfText rt s
      | _ \<Rightarrow> None)"

definition pg_text :: "runtime \<Rightarrow> jsval \<Rightarrow> string" where
  "pg_text rt v = (case v of JStr s \<Rightarrow> s | _ \<Rightarrow> pgTextOf rt v)"

definition same_key :: "balance_row \<Rightarrow> balance_row \<Rightarrow> bool" where
  "same_key r row =
     (be_azienda_id r = be_azienda_id row \<and> be_year r = be_year row
      \<and> be_statement r = be_statement row \<and> be_code r = be_code row)"

text \<open>
  \<^verbatim>\<open>insert ... on conflict (azienda_id, year, statement, code) do update set description,
  amount, currency, source_path, note\<close>. The statement names its conflict target, and the
  database accepts it only when a unique constraint of the table is over exactly these
  columns; otherwise it rejects the statement, whatever the row. The schema of the
  repository declares one unique constraint on \<^verbatim>\<open>balance_entries\<close>,
  \<^verbatim>\<open>PRIMARY KEY (entry_id)\<close>.
\<close>

definition balance_entries_unique :: "string list list" where
  "balance_entries_unique = [[''entry_id'']]"

definition conflict_target :: "string list list \<Rightarrow> string list \<Rightarrow> bool" where
  "conflict_target uniq cols =
     list_ex (\<lambda>u. list_all (\<lambda>c. c \<in> set cols) u \<and> list_all (\<lambda>c. c \<in> set u) cols) uniq"

definition no_conflict_target :: exn where
  "no_conflict_target =
     Exn ''error''
       ''there is no unique or exclusion constraint matching the ON CONFLICT specification''"

text \<open>
  What the statement does to a table that has the key: the row of that key is updated
  in the five columns named, \<^verbatim>\<open>content_hash\<close> not among them, or the row is added.
\<close>

definition upsert_balance :: "balance_row \<Rightarrow> balance_row list \<Rightarrow> balance_row list" where
  "upsert_balance row rows =
     (if list_ex (\<lambda>r. same_key r row) rows
      then map (\<lambda>r. if same_key r row
                    then r\<lparr>be_description := be_description row, be_amount := be_amount row,
                           be_currency := be_currency row, be_source_path := be_source_path row,
                           be_note := be_note row\<rparr>
                    else r) rows
      else rows @ [row])"

text \<open>
  \<^verbatim>\<open>insert into unmapped_codes ... on conflict (code) do update set last_seen_at = now(),
  occurrences = unmapped_codes.occurrences + 1\<close>
\<close>

definition upsert_unmapped :: "string \<Rightarrow> jsval \<Rightarrow> unmapped_row list \<Rightarrow> unmapped_row list" where
  "upsert_unmapped code guess rows =
     (if list_ex (\<lambda>r. um_code r = code) rows
      then map (\<lambda>r. if um_code r = code then r\<lparr>um_occurrences := um_occurrences r + 1\<rparr> else r) rows
      else rows @ [\<lparr>um_code = code, um_statement_guess = guess, um_occurrences = 1\<rparr>])"

text \<open>
  The description of a row: its own, or the legend's for its code; a code the legend
  does not have is counted in \<^verbatim>\<open>unmapped_codes\<close>.
\<close>

definition enrich :: "runtime \<Rightarrow> jsval \<Rightarrow> jsval io" where
  "enrich rt row =
     (let desc = js_or (getp row ''description'') JNull
      in if \<not> truthy desc \<and> truthy (getp row ''code'')
         then bindIO (query rt QSelectLegend [getp row ''code''] id) (\<lambda>_. (\<lambda>db.
                case map_of (legend_codes db) (pg_text rt (getp row ''code'')) of
                  Some d \<Rightarrow> returnIO d db
                | None \<Rightarrow>
                    bindIO (query rt QUpsertUnmapped [getp row ''code'', getp row ''statement'']
                              (\<lambda>db. db\<lparr>unmapped_codes :=
                                 upsert_unmapped (pg_text rt (getp row ''code''))
                                   (getp row ''statement'') (unmapped_codes db)\<rparr>))
                      (\<lambda>_. returnIO desc) db))
         else returnIO desc)"

definition balance_row_of :: "runtime \<Rightarrow> string \<Rightarrow> int \<Rightarrow> jsval \<Rightarrow> jsval \<Rightarrow> balance_row" where
  "balance_row_of rt azienda_id y row desc =
     \<lparr>be_azienda_id = azienda_id, be_year = y,
      be_statement = pg_text rt (getp row ''statement''),
      be_code = pg_text rt (getp row ''code''),
      be_description = desc,
      be_amount = js_coalesce (getp row ''amount'') JNull,
      be_currency = js_coalesce (getp row ''currency'') JNull,
      be_source_path = js_coalesce (getp row ''source_path'') JNull,
      be_note = js_coalesce (getp row ''note'') JNull,
      be_content_hash = hash rt row\<rparr>"

definition missing_keys :: "jsval \<Rightarrow> bool" where
  "missing_keys row =
     (\<not> truthy (getp row ''year'') \<or> \<not> truthy (getp row ''statement'') \<or> \<not> truthy (getp row ''code''))"

text \<open>The warning that is pushed for a row without its keys.\<close>

abbreviation missing_keys_warning :: "jsval \<Rightarrow> string \<times> string \<times> jsval" where
  "missing_keys_warning row \<equiv> (''balance_entries'', ''missing_keys'', row)"

definition upsert_balance_row :: "runtime \<Rightarrow> string \<Rightarrow> jsval \<Rightarrow> jsval \<Rightarrow> unit io" where
  "upsert_balance_row rt azienda_id row desc =
     (case pg_int rt (getp row ''year'') of
        None \<Rightarrow> liftE (Inl (Exn ''error'' ''invalid input syntax for type integer''))
      | Some y \<Rightarrow>
          if conflict_target balance_entries_unique [''azienda_id'', ''year'', ''statement'', ''code'']
          then query rt QUpsertBalance
                 [JStr azienda_id, getp row ''year'', getp row ''statement'', getp row ''code'']
                 (\<lambda>db. db\<lparr>balance_entries :=
                         upsert_balance (balance_row_of rt azienda_id y row desc) (balance_entries db)\<rparr>)
          else bindIO (query rt QUpsertBalance
                         [JStr azienda_id, getp row ''year'', getp row ''statement'', getp row ''code'']
                         id)
                 (\<lambda>_. liftE (Inl no_conflict_target)))"

fun upsertBalanceEntries :: "runtime \<Rightarrow> string \<Rightarrow> jsval list \<Rightarrow> report \<Rightarrow> report io" where
  "upsertBalanceEntries rt azienda_id [] rep = returnIO rep"
| "upsertBalanceEntries rt azienda_id (row # entries) rep =
     bindIO (liftE (dot row ''year'')) (\<lambda>_.
       if missing_keys row
       then upsertBalanceEntries rt azienda_id entries
              (rep\<lparr>warnings := warnings rep @ [(''balance_entries'', ''missing_keys'', row)]\<rparr>)
       else bindIO (enrich rt row) (\<lambda>desc.
            bindIO (upsert_balance_row rt azienda_id row desc) (\<lambda>_.
              upsertBalanceEntries rt azienda_id entries rep)))"

text \<open>
  The description that is sent for a row, given the legend, and the row that is sent:
  what \<^verbatim>\<open>desc\<close> and the parameters of the insert are when no statement fails.
\<close>

definition description_for :: "runtime \<Rightarrow> (string \<times> jsval) list \<Rightarrow> jsval \<Rightarrow> jsval" where
  "description_for rt legend row =
     (let desc = js_or (getp row ''description'') JNull
      in if \<not> truthy desc \<and> truthy (getp row ''code'')
         then (case map_of legend (pg_text rt (getp row ''code'')) of Some d \<Rightarrow> d | None \<Rightarrow> desc)
         else desc)"

definition stored_balance_row :: "runtime \<Rightarrow> string \<Rightarrow> (string \<times> jsval) list \<Rightarrow> jsval \<Rightarrow> balance_row" where
  "stored_balance_row rt azienda_id legend row =
     balance_row_of rt azienda_id
       (case pg_int rt (getp row ''year'') of Some y \<Rightarrow> y | None \<Rightarrow> 0)
       row (description_for rt legend row)"

section \<open>index.js: extraction\<close>

definition extractContacts :: "jsval \<Rightarrow> exn + jsval" where
  "extractContacts payload =
     bindE (dot payload ''phone'') (\<lambda>_.
       let phone = js_or (js_or (getp payload ''phone'') (opt (getp payload ''contacts'') ''phone'')) JNull;
           email = js_or (js_or (getp payload ''email'') (opt (getp payload ''contacts'') ''email'')) JNull;
           pec = js_or (js_or (getp payload ''pec'') (opt (getp payload ''contacts'') ''pec'')) JNull;
           website = js_or (js_or (getp payload ''website'') (opt (getp payload ''contacts'') ''website'')) JNull
       in if \<not> truthy phone \<and> \<not> truthy email \<and> \<not> truthy pec \<and> \<not> truthy website
          then Inr JNull
          else Inr (JObj [(''phone'', phone), (''email'', email), (''pec'', pec), (''website'', website)]))"

fun mapE :: "('a \<Rightarrow> exn + 'b) \<Rightarrow> 'a list \<Rightarrow> exn + 'b list" where
  "mapE f [] = Inr []"
| "mapE f (x # xs) = bindE (f x) (\<lambda>y. bindE (mapE f xs) (\<lambda>ys. Inr (y # ys)))"

text \<open>\<^verbatim>\<open>{ addressType: o.officeType || 'OFFICE', ...o.address }\<close>\<close>

definition office_address :: "jsval \<Rightarrow> exn + jsval" where
  "office_address office =
     bindE (dot office ''officeType'') (\<lambda>t.
       Inr (JObj (spread [(''addressType'', js_or t (JStr ''OFFICE''))] (getp office ''address''))))"

definition extractAddresses :: "jsval \<Rightarrow> exn + jsval list" where
  "extractAddresses payload =
     bindE (dot payload ''address'') (\<lambda>address.
       let sede = (if truthy address
                   then [JObj (spread [(''addressType'', JStr ''SEDE'')] address)] else [])
       in case getp payload ''allOffices'' of
            JArr offices \<Rightarrow> bindE (mapE office_address offices) (\<lambda>os. Inr (sede @ os))
          | _ \<Rightarrow> Inr sede)"

text \<open>A line item as the extractor builds it.\<close>

definition balance_entry :: "jsval \<Rightarrow> string \<Rightarrow> string \<Rightarrow> jsval \<Rightarrow> jsval \<Rightarrow> string \<Rightarrow> jsval" where
  "balance_entry year statement code amount cur source_path =
     JObj [(''year'', year), (''statement'', JStr statement), (''code'', JStr code),
           (''amount'', if typeof_number amount then amount else JNull),
           (''currency'', cur), (''source_path'', JStr source_path)]"

definition balanceYear :: "jsval \<Rightarrow> jsval" where
  "balanceYear payload =
     js_or (js_or (opt (opt payload ''balance'') ''year'') (opt payload ''fiscalYear''))
       (opt payload ''year'')"

definition balanceCurrency :: "jsval \<Rightarrow> jsval" where
  "balanceCurrency payload = js_or (opt (opt payload ''balance'') ''currency'') (JStr ''EUR'')"

definition balanceAgg :: "jsval \<Rightarrow> jsval" where
  "balanceAgg payload =
     js_or (js_or (opt payload ''balance'') (opt payload ''financialStatements'')) (JObj [])"

text \<open>Step 1 of the extractor: the three aggregate blocks, each with its statement.\<close>

definition aggregateMaps :: "(string list \<times> string) list" where
  "aggregateMaps =
     [([''assetsAggregateValues''], ''SP_A''),
      ([''liabilitiesAggregateValues''], ''SP_P''),
      ([''incomeStatementAggregateValues''], ''CE'')]"

definition aggregateEntries :: "jsval \<Rightarrow> jsval list" where
  "aggregateEntries payload =
     concat (map (\<lambda>m.
        let obj = safeGet (balanceAgg payload) (fst m) JUndefined
        in if truthy obj \<and> typeof_object obj
           then map (\<lambda>kv. balance_entry (balanceYear payload) (snd m) (fst kv) (snd kv)
                             (balanceCurrency payload) (join ''.'' (fst m)))
                  (own_entries obj)
           else []) aggregateMaps)"

text \<open>Step 2: the detail groups, with the statement guessed from the name of the group.\<close>

definition detailGroups :: "string list" where
  "detailGroups =
     [''intangibleFixedAssets'', ''tangibleFixedAssets'', ''financialFixedAssets'',
      ''credits'', ''inventory'', ''cashEquivalents'', ''debts'', ''financialAssets'',
      ''productionValue'', ''productionCosts'', ''revenuesFinancialCharges'', ''annualResult'']"

definition statementGuess :: "string \<Rightarrow> string" where
  "statementGuess g =
     (if list_ex (\<lambda>s. str_includes g s) [''debts'', ''liabilities'', ''financialCharges'', ''productionCosts'']
      then ''SP_P''
      else if list_ex (\<lambda>s. str_includes g s) [''productionValue'', ''revenues'', ''annualResult'']
      then ''CE''
      else ''SP_A'')"

definition detailEntries :: "jsval \<Rightarrow> jsval list" where
  "detailEntries payload =
     concat (map (\<lambda>g.
        let groupObj = opt (balanceAgg payload) g
        in if truthy groupObj \<and> typeof_object groupObj
           then map (\<lambda>kv. balance_entry (balanceYear payload) (statementGuess g) (fst kv) (snd kv)
                             (balanceCurrency payload) (''balance.'' @ g))
                  (own_entries groupObj)
           else []) detailGroups)"

text \<open>
  The array \<^verbatim>\<open>entries\<close> as it stands before the last line: both steps push to it, one
  after the other. The last line keeps the entries with a truthy year.
\<close>

definition balanceCandidates :: "jsval \<Rightarrow> jsval list" where
  "balanceCandidates payload = aggregateEntries payload @ detailEntries payload"

definition extractBalanceEntries :: "jsval \<Rightarrow> jsval list" where
  "extractBalanceEntries payload = filter (\<lambda>e. truthy (getp e ''year'')) (balanceCandidates payload)"

section \<open>index.js: the run\<close>

text \<open>\<^verbatim>\<open>report.inserts.k = (report.inserts.k || 0) + n\<close>\<close>

definition bump :: "string \<Rightarrow> nat \<Rightarrow> (string \<times> nat) list \<Rightarrow> (string \<times> nat) list" where
  "bump k n m =
     (case map_of m k of
        None \<Rightarrow> m @ [(k, n)]
      | Some c \<Rightarrow> map (\<lambda>kv. if fst kv = k then (k, c + n) else kv) m)"

definition initial_report :: "runtime \<Rightarrow> report" where
  "initial_report rt =
     \<lparr>ingestionId = uuidv4_ingestion rt, createdColumns = [], inserts = [], skips = [],
      warnings = [], status = PARTIAL\<rparr>"

definition insertIngestion :: "runtime \<Rightarrow> site \<Rightarrow> string option \<Rightarrow> run_status \<Rightarrow> summary \<Rightarrow> unit io" where
  "insertIngestion rt q azienda_id st summ =
     query rt q
       [JStr (uuidv4_ingestion rt),
        case azienda_id of Some a \<Rightarrow> JStr a | None \<Rightarrow> JNull,
        case summ of RunSummary rep \<Rightarrow> JNull | ErrorSummary msg \<Rightarrow> JStr msg]
       (\<lambda>db. db\<lparr>ingestions := ingestions db @
          [\<lparr>ig_ingestion_id = uuidv4_ingestion rt, ig_azienda_id = azienda_id,
            ig_status = st, ig_summary = summ\<rparr>]\<rparr>)"

text \<open>
  The body of \<^verbatim>\<open>try\<close> in \<^verbatim>\<open>main\<close>, from \<^verbatim>\<open>begin\<close> to \<^verbatim>\<open>commit\<close>, on the connection
  \<^verbatim>\<open>client\<close>. The payload has been read and parsed and the connection is open.
\<close>

definition terminal_status :: "nat \<Rightarrow> run_status" where
  "terminal_status n = (if n > 0 then UPDATED else UNCHANGED)"

definition run_cli :: "runtime \<Rightarrow> jsval \<Rightarrow> (string \<times> report) io" where
  "run_cli rt payload =
     bindIO (query rt QBegin [] id) (\<lambda>_.
     bindIO (upsertCompany rt payload) (\<lambda>azienda_id.
     bindIO (liftE (effectiveDateForSection rt ''root'' payload (now rt))) (\<lambda>globalEffective.
     bindIO (insertCompanyVersion rt azienda_id payload globalEffective) (\<lambda>contentHash.
     bindIO (insertRawSection rt azienda_id ''root'' globalEffective payload) (\<lambda>_.
     bindIO (liftE (extractContacts payload)) (\<lambda>cts.
     bindIO (if truthy cts
             then bindIO (upsertContacts rt azienda_id cts globalEffective (initial_report rt))
                    (\<lambda>rep. returnIO (rep\<lparr>inserts := bump ''contacts'' 1 (inserts rep)\<rparr>))
             else returnIO ((initial_report rt)\<lparr>skips := bump ''contacts'' 1 (skips (initial_report rt))\<rparr>))
       (\<lambda>rep1.
     bindIO (liftE (extractAddresses payload)) (\<lambda>addrs.
     bindIO (if addrs \<noteq> []
             then bindIO (upsertAddresses rt azienda_id addrs rep1 globalEffective)
                    (\<lambda>rep. returnIO (rep\<lparr>inserts := bump ''addresses'' (length addrs) (inserts rep)\<rparr>))
             else returnIO (rep1\<lparr>skips := bump ''addresses'' 1 (skips rep1)\<rparr>))
       (\<lambda>rep2.
     bindIO (if extractBalanceEntries payload \<noteq> []
             then bindIO (upsertBalanceEntries rt azienda_id (extractBalanceEntries payload) rep2)
                    (\<lambda>rep. returnIO (rep\<lparr>inserts :=
                       bump ''balance_entries'' (length (extractBalanceEntries payload)) (inserts rep)\<rparr>))
             else returnIO (rep2\<lparr>skips := bump ''balance_entries'' 1 (skips rep2)\<rparr>))
       (\<lambda>rep3.
       let st = terminal_status
                  (length (extractBalanceEntries payload) + (if truthy cts then 1 else 0) + length addrs);
           rep4 = rep3\<lparr>status := st\<rparr>
       in bindIO (insertIngestion rt QInsertIngestion (Some azienda_id) st (RunSummary rep4)) (\<lambda>_.
          bindIO (query rt QCommit [] id) (\<lambda>_.
            returnIO (azienda_id, rep4)))))))))))))"

text \<open>
  The statement of the handler of \<^verbatim>\<open>index.js\<close>:
  \<^verbatim>\<open>insert into ingestions (...) values ($1, 'it-full', now(), now(), 'ERROR',
  jsonb_build_object('error', $2))\<close>. The second parameter is an argument of a function
  that takes arguments of any type, and the statement gives it no type: the database
  rejects the statement when it reads it, whatever the parameters, and no row is
  written.
\<close>

definition untyped_parameter :: exn where
  "untyped_parameter = Exn ''error'' ''could not determine data type of parameter $2''"

definition insertErrorRow :: "runtime \<Rightarrow> string \<Rightarrow> unit io" where
  "insertErrorRow rt msg =
     bindIO (query rt QErrorRow [JStr (uuidv4_ingestion rt), JStr msg] id)
       (\<lambda>_. liftE (Inl untyped_parameter))"

text \<open>
  \<^verbatim>\<open>main\<close>: the store the run leaves behind and what the process ends with. The body
  works inside the transaction of \<^verbatim>\<open>client\<close>; its writes reach the store with
  \<^verbatim>\<open>commit\<close>. When the body raises, the handler sends the statement of the ERROR row
  through the pool, on a connection of its own; the error of that statement leaves
  \<^verbatim>\<open>main\<close> in place of the error of the body, and the process exits: the transaction
  of \<^verbatim>\<open>client\<close> is never committed.
\<close>

definition main_cli :: "runtime \<Rightarrow> jsval \<Rightarrow> store \<Rightarrow> (exn + string \<times> report) \<times> store" where
  "main_cli rt payload db =
     (case run_cli rt payload db of
        (Inr r, db') \<Rightarrow> (Inr r, db')
      | (Inl err, db') \<Rightarrow>
          (case insertErrorRow rt (errText err) db of
             (Inr u, db'') \<Rightarrow> (Inl err, db'')
           | (Inl err', db'') \<Rightarrow> (Inl err', db)))"

section \<open>index.http.js: extraction\<close>

text \<open>
  \<^verbatim>\<open>walk(obj, cb, path)\<close> calls \<^verbatim>\<open>cb\<close> on every object and array inside \<open>obj\<close>,
  parents first: here the list of these calls, each with the node and its path.
\<close>

fun walk :: "jsval \<Rightarrow> string list \<Rightarrow> (jsval \<times> string list) list"
  and walk_items :: "jsval list \<Rightarrow> nat \<Rightarrow> string list \<Rightarrow> (jsval \<times> string list) list"
  and walk_fields :: "(string \<times> jsval) list \<Rightarrow> string list \<Rightarrow> (jsval \<times> string list) list" where
  "walk (JArr xs) path = (JArr xs, path) # walk_items xs 0 path"
| "walk (JObj kvs) path = (JObj kvs, path) # walk_fields kvs path"
| "walk JUndefined path = []"
| "walk JNull path = []"
| "walk (JBool b) path = []"
| "walk (JNum r) path = []"
| "walk JNaN path = []"
| "walk (JStr s) path = []"
| "walk_items [] i path = []"
| "walk_items (x # xs) i path = walk x (path @ [dec i]) @ walk_items xs (Suc i) path"
| "walk_fields [] path = []"
| "walk_fields (kv # kvs) path = walk (snd kv) (path @ [fst kv]) @ walk_fields kvs path"

text \<open>\<^verbatim>\<open>/^[A-Z]{2,4}\d{2,4}$/\<close>: two to four capitals, then two to four digits, and no more.\<close>

definition CODE_RE :: "string \<Rightarrow> bool" where
  "CODE_RE k =
     (let a = takeWhile is_upper k; b = dropWhile is_upper k
      in 2 \<le> length a \<and> length a \<le> 4 \<and> 2 \<le> length b \<and> length b \<le> 4 \<and> list_all is_digit b)"

text \<open>Contacts: the first string found under a key that looks like each of the four fields.\<close>

definition contact_step :: "(string \<times> jsval) list \<Rightarrow> string \<times> jsval \<Rightarrow> (string \<times> jsval) list" where
  "contact_step res kv =
     (if \<not> typeof_string (snd kv) then res
      else
        let key = toLowerCase (fst kv);
            v = snd kv;
            res1 = (if \<not> truthy (getp (JObj res) ''pec'') \<and> (key = ''pec'' \<or> str_includes key ''pec'')
                    then obj_set ''pec'' v res else res);
            res2 = (if \<not> truthy (getp (JObj res1) ''email'')
                       \<and> (key = ''email'' \<or> key = ''e-mail'' \<or> str_includes key ''mail'')
                    then obj_set ''email'' v res1 else res1);
            res3 = (if \<not> truthy (getp (JObj res2) ''phone'') \<and> (key = ''phone'' \<or> str_includes key ''tel'')
                    then obj_set ''phone'' v res2 else res2)
        in if \<not> truthy (getp (JObj res3) ''website'')
              \<and> (key = ''website'' \<or> str_includes key ''sito'' \<or> str_includes key ''web'')
           then obj_set ''website'' v res3 else res3)"

definition extractContacts_http :: "jsval \<Rightarrow> jsval" where
  "extractContacts_http payload =
     (let res = foldl contact_step
                  [(''phone'', JNull), (''email'', JNull), (''pec'', JNull), (''website'', JNull)]
                  (concat (map (\<lambda>np. if isArray (fst np) then [] else own_entries (fst np))
                             (walk payload [])))
      in if truthy (js_or (js_or (js_or (getp (JObj res) ''phone'') (getp (JObj res) ''email''))
                             (getp (JObj res) ''pec'')) (getp (JObj res) ''website''))
         then JObj res else JNull)"

text \<open>Addresses: the known blocks, then every object with three address keys or more.\<close>

definition address_hints :: "string list" where
  "address_hints =
     [''street'', ''streetname'', ''indirizzo'', ''zip'', ''zipcode'', ''cap'', ''town'', ''city'',
      ''comune'', ''province'', ''provincia'', ''region'', ''regione'', ''country'', ''stato'']"

definition address_score :: "jsval \<Rightarrow> nat" where
  "address_score node =
     length (filter (\<lambda>h. h \<in> set (map (\<lambda>kv. toLowerCase (fst kv)) (own_entries node))) address_hints)"

definition walked_address :: "jsval \<times> string list \<Rightarrow> jsval list" where
  "walked_address np =
     (if isArray (fst np) \<or> address_score (fst np) < 3 then []
      else [JObj (spread
              [(''addressType'',
                JStr (if str_includes (join ''.'' (snd np)) ''registered'' then ''SEDE''
                      else if str_includes (join ''.'' (snd np)) ''ul'' then ''UL'' else ''OFFICE''))]
              (fst np))])"

definition office_address_http :: "jsval \<Rightarrow> jsval" where
  "office_address_http office =
     JObj (spread [(''addressType'', js_or (opt office ''officeType'') (JStr ''OFFICE''))]
             (js_or (opt office ''address'') office))"

definition normalize_address :: "jsval \<Rightarrow> jsval" where
  "normalize_address a =
     JObj (spread
       [(''addressType'', js_or (getp a ''addressType'') JNull),
        (''street'', js_or (js_or (js_or (getp a ''street'') (getp a ''streetName'')) (getp a ''indirizzo'')) JNull),
        (''zipCode'', js_or (js_or (js_or (getp a ''zipCode'') (getp a ''zip'')) (getp a ''cap'')) JNull),
        (''town'', js_or (js_or (js_or (getp a ''town'') (getp a ''city'')) (getp a ''comune'')) JNull),
        (''province'', js_or (js_or (js_or (opt (getp a ''province'') ''code'') (getp a ''provincia''))
                                (getp a ''province'')) JNull),
        (''region'', js_or (js_or (js_or (opt (getp a ''region'') ''description'') (getp a ''regione''))
                              (getp a ''region'')) JNull),
        (''country'', js_or (js_or (js_or (opt (getp a ''country'') ''code'') (getp a ''country''))
                               (getp a ''stato'')) JNull)]
       a)"

definition extractAddresses_http :: "jsval \<Rightarrow> exn + jsval list" where
  "extractAddresses_http payload =
     bindE (dot payload ''address'') (\<lambda>address.
       let known = (if truthy address \<and> typeof_object address
                    then [JObj (spread [(''addressType'', JStr ''SEDE'')] address)] else []);
           offices = (case getp payload ''allOffices'' of
                        JArr os \<Rightarrow> map office_address_http os | _ \<Rightarrow> []);
           walked = concat (map walked_address (walk payload []))
       in Inr (map normalize_address (known @ offices @ walked)))"

text \<open>
  Financial line items. A mapping is a section, its statement and its description; an
  item of a section gives a line when it has a truthy code and a value or an amount.
\<close>

definition sectionMappings :: "(string \<times> string \<times> string) list" where
  "sectionMappings =
     [(''stato_patrimoniale_attivo'', ''SP_A'', ''Stato Patrimoniale Attivo''),
      (''stato_patrimoniale_passivo'', ''SP_P'', ''Stato Patrimoniale Passivo''),
      (''conto_economico'', ''CE'', ''Conto Economico'')]"

definition euromarSectionMappings :: "(string \<times> string \<times> string) list" where
  "euromarSectionMappings =
     [(''assetsAggregateValues'', ''SP_A'', ''Aggregati Attivo''),
      (''intangibleFixedAssets'', ''SP_A'', ''Immobilizzazioni Immateriali''),
      (''tangibleFixedAssets'', ''SP_A'', ''Immobilizzazioni Materiali''),
      (''cashEquivalents'', ''SP_A'', ''Disponibilit'' @ [CHR 0xE0] @ '' Liquide''),
      (''credits'', ''SP_A'', ''Crediti''),
      (''liabilitiesAggregateValues'', ''SP_P'', ''Aggregati Passivo''),
      (''netWorth'', ''SP_P'', ''Patrimonio Netto''),
      (''debts'', ''SP_P'', ''Debiti''),
      (''incomeStatementAggregateValues'', ''CE'', ''Aggregati Conto Economico''),
      (''productionValue'', ''CE'', ''Valore della Produzione''),
      (''productionCosts'', ''CE'', ''Costi della Produzione''),
      (''financialIncomeAndCharges'', ''CE'', ''Proventi e Oneri Finanziari''),
      (''extraordinaryIncomeAndCharges'', ''CE'', ''Proventi e Oneri Straordinari'')]"

definition defaultYear :: "jsval \<Rightarrow> jsval" where
  "defaultYear payload = js_or (js_or (opt payload ''year'') (opt payload ''fiscalYear'')) (JNum 2024)"

definition balanceData :: "jsval \<Rightarrow> jsval" where
  "balanceData payload = js_or (opt payload ''data'') payload"

definition item_entry :: "runtime \<Rightarrow> jsval \<Rightarrow> string \<times> string \<times> string \<Rightarrow> jsval \<Rightarrow> exn + jsval list" where
  "item_entry rt dy mapping item =
     bindE (dot item ''code'') (\<lambda>code.
       if truthy code \<and> (getp item ''value'' \<noteq> JUndefined \<or> getp item ''amount'' \<noteq> JUndefined)
       then Inr [JObj [(''year'', dy), (''statement'', JStr (fst (snd mapping))), (''code'', code),
                       (''description'', JStr (snd (snd mapping) @ '' - '' @ to_str rt code)),
                       (''amount'', js_coalesce (getp item ''value'') (getp item ''amount'')),
                       (''currency'', JStr ''EUR''), (''source_path'', JStr (fst mapping))]]
       else Inr [])"

definition concatE :: "(exn + 'a list) list \<Rightarrow> exn + 'a list" where
  "concatE rs = bindE (mapE id rs) (\<lambda>xss. Inr (concat xss))"

definition sectionEntries :: "runtime \<Rightarrow> jsval \<Rightarrow> jsval \<Rightarrow> (string \<times> string \<times> string) list \<Rightarrow> exn + jsval list" where
  "sectionEntries rt dy data mappings =
     concatE (map (\<lambda>mapping.
        case opt data (fst mapping) of
          JArr items \<Rightarrow> concatE (map (item_entry rt dy mapping) items)
        | _ \<Rightarrow> Inr []) mappings)"

text \<open>The last resort: every key of every node that looks like a code, with a number or a string.\<close>

fun yearGuess :: "string \<Rightarrow> string option" where
  "yearGuess [] = None"
| "yearGuess (c # cs) =
     (if starts_with (c # cs) ''20'' \<and> 4 \<le> length (c # cs) \<and> list_all is_digit (take 2 (drop 1 cs))
      then Some (take 4 (c # cs)) else yearGuess cs)"

definition scanned_entry :: "runtime \<Rightarrow> jsval \<Rightarrow> string list \<Rightarrow> string \<times> jsval \<Rightarrow> jsval list" where
  "scanned_entry rt dy path kv =
     (if CODE_RE (fst kv) \<and> (typeof_number (snd kv) \<or> typeof_string (snd kv))
      then [JObj [(''year'', case yearGuess (join ''.'' path) of
                              Some y \<Rightarrow> JNum (of_int (int_of_dec y)) | None \<Rightarrow> dy),
                  (''statement'', JStr (if starts_with (fst kv) ''IPL'' then ''SP_P''
                                        else if starts_with (fst kv) ''IIC1'' then ''CE'' else ''SP_A'')),
                  (''code'', JStr (fst kv)),
                  (''description'', JStr (''Voce di bilancio - '' @ fst kv)),
                  (''amount'', case snd kv of
                                 JStr s \<Rightarrow> (case strToNum rt s of Some r \<Rightarrow> JNum r | None \<Rightarrow> JNaN)
                               | v \<Rightarrow> v),
                  (''currency'', JStr ''EUR''),
                  (''source_path'', JStr (join ''.'' (path @ [fst kv])))]]
      else [])"

definition scanEntries :: "runtime \<Rightarrow> jsval \<Rightarrow> jsval \<Rightarrow> jsval list" where
  "scanEntries rt dy data =
     concat (map (\<lambda>np. concat (map (scanned_entry rt dy (snd np)) (own_entries (fst np))))
               (walk data []))"

definition tier1_http :: "runtime \<Rightarrow> jsval \<Rightarrow> exn + jsval list" where
  "tier1_http rt payload = sectionEntries rt (defaultYear payload) (balanceData payload) sectionMappings"

definition tier2_http :: "runtime \<Rightarrow> jsval \<Rightarrow> exn + jsval list" where
  "tier2_http rt payload = sectionEntries rt (defaultYear payload) (balanceData payload) euromarSectionMappings"

definition tier3_http :: "runtime \<Rightarrow> jsval \<Rightarrow> jsval list" where
  "tier3_http rt payload = scanEntries rt (defaultYear payload) (balanceData payload)"

definition keep_entry :: "jsval \<Rightarrow> bool" where
  "keep_entry e = (truthy (getp e ''year'') \<and> truthy (getp e ''code''))"

text \<open>
  The three blocks push to one array; the second and the third run only when the array
  is still empty.
\<close>

definition extractBalanceEntries_http :: "runtime \<Rightarrow> jsval \<Rightarrow> exn + jsval list" where
  "extractBalanceEntries_http rt payload =
     bindE (tier1_http rt payload) (\<lambda>entries1.
     bindE (if entries1 = [] then tier2_http rt payload else Inr []) (\<lambda>entries2.
       let entries3 = (if entries1 @ entries2 = [] then tier3_http rt payload else [])
       in Inr (filter keep_entry (entries1 @ entries2 @ entries3))))"

text \<open>The industry codes.\<close>

definition extractAteco :: "jsval \<Rightarrow> jsval list" where
  "extractAteco payload =
     (let a = opt payload ''atecoClassification''
      in if \<not> truthy a then []
         else
           (if truthy (getp a ''ateco'')
            then [JObj [(''ateco_code'', getp (getp a ''ateco'') ''code''),
                        (''ateco_description'', getp (getp a ''ateco'') ''description''),
                        (''type'', JStr ''primary'')]] else [])
           @ (if truthy (getp a ''secondaryAteco'')
              then [JObj [(''ateco_code'', getp a ''secondaryAteco''), (''ateco_description'', JNull),
                          (''type'', JStr ''secondary'')]] else [])
           @ (if truthy (getp a ''ateco2022'')
              then [JObj [(''ateco_code'', getp (getp a ''ateco2022'') ''code''),
                          (''ateco_description'', getp (getp a ''ateco2022'') ''description''),
                          (''type'', JStr ''ateco2022'')]] else [])
           @ (if truthy (getp a ''secondaryAteco2022'')
              then [JObj [(''ateco_code'', getp a ''secondaryAteco2022''), (''ateco_description'', JNull),
                          (''type'', JStr ''secondary2022'')]] else []))"

section \<open>index.http.js: writes and the run\<close>

text \<open>
  Every helper sends one request, which the database runs and commits by itself:
  \<^verbatim>\<open>insert\<close> adds rows, \<^verbatim>\<open>upsert\<close> adds a row or overwrites the row of the same key
  with the columns sent.
\<close>

definition upsertCompany_http :: "runtime \<Rightarrow> jsval \<Rightarrow> string io" where
  "upsertCompany_http rt payload =
     bindIO (liftE (computeAziendaId_http rt payload)) (\<lambda>azienda_id.
     bindIO (liftE (dot payload ''companyDetails'')) (\<lambda>cd.
       let details = js_or (js_or cd (opt (opt payload ''data'') ''companyDetails'')) (JObj []);
           data = js_or (opt payload ''data'') payload;
           row = \<lparr>co_azienda_id = azienda_id,
                  co_vat_code = js_or (js_or (js_or (getp details ''vatCode'') (getp payload ''vatCode''))
                                         (getp data ''vatCode'')) JNull,
                  co_tax_code = js_or (js_or (js_or (getp details ''taxCode'') (getp payload ''taxCode''))
                                         (getp data ''taxCode'')) JNull,
                  co_company_name = js_or (js_or (js_or (getp details ''companyName'')
                                             (getp payload ''companyName'')) (getp data ''companyName'')) JNull,
                  co_legal_form = js_or (js_or (js_or (opt (opt payload ''legalForm'') ''description'')
                                           (opt (opt data ''legalForm'') ''description''))
                                           (getp details ''legalForm'')) JNull,
                  co_status = js_or (js_or (opt (opt payload ''companyStatus'') ''description'')
                                       (opt (opt data ''companyStatus'') ''description'')) JNull,
                  co_cciaa = js_or (js_or (js_or (opt (opt payload ''chamberOfCommerce'') ''code'')
                                      (opt (opt data ''chamberOfCommerce'') ''code''))
                                      (getp details ''cciaa'')) JNull,
                  co_rea_code = js_or (js_or (getp details ''reaCode'') (getp data ''reaCode'')) JNull,
                  co_country_code = js_or (js_or (opt (opt (opt payload ''address'') ''country'') ''code'')
                                             (opt (opt (opt data ''address'') ''country'') ''code'')) JNull\<rparr>
       in bindIO (query rt QUpsertCompany [JStr azienda_id]
                    (\<lambda>db. db\<lparr>companies := upsert_company row (companies db)\<rparr>))
            (\<lambda>_. returnIO azienda_id)))"

definition insertCompanyVersion_http :: "runtime \<Rightarrow> string \<Rightarrow> jsval \<Rightarrow> string \<Rightarrow> string io" where
  "insertCompanyVersion_http rt azienda_id raw_json effective_date =
     (let content_hash = hash rt raw_json
      in case http_jsonb raw_json of
           None \<Rightarrow> liftE (Inl (not_null_violation ''company_versions''))
         | Some stored \<Rightarrow>
             bindIO (query rt QInsertVersion
                       [JStr azienda_id, JStr effective_date, JStr content_hash, raw_json]
                       (\<lambda>db. db\<lparr>company_versions := company_versions db @
                          [\<lparr>cv_azienda_id = azienda_id, cv_effective_date = effective_date,
                            cv_content_hash = content_hash, cv_raw_json = stored\<rparr>]\<rparr>))
               (\<lambda>_. returnIO content_hash))"

definition insertRawSection_http :: "runtime \<Rightarrow> string \<Rightarrow> string \<Rightarrow> string \<Rightarrow> jsval \<Rightarrow> unit io" where
  "insertRawSection_http rt azienda_id section effective_date raw_json =
     (case http_jsonb raw_json of
        None \<Rightarrow> liftE (Inl (not_null_violation ''raw_sections''))
      | Some stored \<Rightarrow>
          query rt QInsertRaw [JStr azienda_id, JStr section, JStr effective_date, raw_json]
            (\<lambda>db. db\<lparr>raw_sections := raw_sections db @
               [\<lparr>rs_azienda_id = azienda_id, rs_section = section,
                 rs_effective_date = effective_date, rs_raw_json = stored\<rparr>]\<rparr>))"

text \<open>The promotion loop of this script pushes every result of \<^verbatim>\<open>ensureColumn\<close>.\<close>

fun promote_http :: "runtime \<Rightarrow> string \<Rightarrow> string list \<Rightarrow> (string \<times> jsval) list \<Rightarrow> report \<Rightarrow> report io" where
  "promote_http rt table excl [] rep = returnIO rep"
| "promote_http rt table excl (kv # kvs) rep =
     (if snd kv \<noteq> JNull \<and> \<not> typeof_object (snd kv) \<and> fst kv \<notin> set excl
      then bindIO (ensureColumn_http rt table (fst kv) (snd kv)) (\<lambda>res.
             promote_http rt table excl kvs
               (rep\<lparr>createdColumns := createdColumns rep @ [(table, res)]\<rparr>))
      else promote_http rt table excl kvs rep)"

definition upsertContacts_http :: "runtime \<Rightarrow> string \<Rightarrow> jsval \<Rightarrow> string \<Rightarrow> report \<Rightarrow> report io" where
  "upsertContacts_http rt azienda_id sectionPayload effective_date rep =
     bindIO (promote_http rt ''contacts'' [''phone'', ''email'', ''pec'', ''website'']
               (own_entries sectionPayload) rep) (\<lambda>rep'.
     bindIO (query rt QInsertContacts [JStr azienda_id, JStr effective_date, sectionPayload]
               (\<lambda>db. db\<lparr>contacts := contacts db @
                  [\<lparr>ct_azienda_id = azienda_id, ct_effective_date = effective_date,
                    ct_phone = pgv (getp sectionPayload ''phone''),
                    ct_email = pgv (getp sectionPayload ''email''),
                    ct_pec = pgv (getp sectionPayload ''pec''),
                    ct_website = pgv (getp sectionPayload ''website''),
                    ct_raw_json = sectionPayload\<rparr>]\<rparr>))
       (\<lambda>_. returnIO rep'))"

definition address_row_http :: "string \<Rightarrow> string \<Rightarrow> jsval \<Rightarrow> address_row" where
  "address_row_http azienda_id effective_date addr =
     \<lparr>ad_azienda_id = azienda_id, ad_effective_date = effective_date,
      ad_address_type = js_or (getp addr ''addressType'') JNull,
      ad_street = js_or (js_or (getp addr ''street'') (getp addr ''streetName'')) JNull,
      ad_zip_code = js_or (getp addr ''zipCode'') JNull,
      ad_town = js_or (getp addr ''town'') JNull,
      ad_province = js_or (js_or (opt (getp addr ''province'') ''code'') (getp addr ''province'')) JNull,
      ad_region = js_or (js_or (opt (getp addr ''region'') ''description'') (getp addr ''region'')) JNull,
      ad_country = js_or (js_or (opt (getp addr ''country'') ''code'') (getp addr ''country'')) JNull,
      ad_raw_json = addr\<rparr>"

fun upsertAddresses_http :: "runtime \<Rightarrow> string \<Rightarrow> jsval list \<Rightarrow> report \<Rightarrow> string \<Rightarrow> report io" where
  "upsertAddresses_http rt azienda_id [] rep globalFallback = returnIO rep"
| "upsertAddresses_http rt azienda_id (addr # list) rep globalFallback =
     bindIO (liftE (effectiveDateForSection rt ''addresses'' addr globalFallback)) (\<lambda>effective_date.
     bindIO (promote_http rt ''addresses''
               [''street'', ''streetName'', ''zipCode'', ''town'', ''province'', ''region'', ''country'',
                ''addressType'']
               (own_entries addr) rep) (\<lambda>rep'.
     bindIO (query rt QInsertAddresses [JStr azienda_id, JStr effective_date, addr]
               (\<lambda>db. db\<lparr>addresses := addresses db @ [address_row_http azienda_id effective_date addr]\<rparr>))
       (\<lambda>_. upsertAddresses_http rt azienda_id list rep' globalFallback)))"

text \<open>
  The upsert over HTTP overwrites every column it sends, \<^verbatim>\<open>content_hash\<close> and, for an
  unmapped code, \<^verbatim>\<open>statement_guess\<close> included. An error of the legend's lookup is not
  raised: the code is then counted as unmapped. The request for \<^verbatim>\<open>balance_entries\<close>
  names the conflict target of \<^verbatim>\<open>index.js\<close> (\<^verbatim>\<open>onConflict\<close>), and the database rejects
  it on the same condition.
\<close>

definition upsert_balance_http :: "balance_row \<Rightarrow> balance_row list \<Rightarrow> balance_row list" where
  "upsert_balance_http row rows =
     (if list_ex (\<lambda>r. same_key r row) rows
      then map (\<lambda>r. if same_key r row then row else r) rows
      else rows @ [row])"

definition upsert_unmapped_http :: "string \<Rightarrow> jsval \<Rightarrow> unmapped_row list \<Rightarrow> unmapped_row list" where
  "upsert_unmapped_http code guess rows =
     (if list_ex (\<lambda>r. um_code r = code) rows
      then map (\<lambda>r. if um_code r = code then r\<lparr>um_statement_guess := guess\<rparr> else r) rows
      else rows @ [\<lparr>um_code = code, um_statement_guess = guess, um_occurrences = 1\<rparr>])"

definition enrich_http :: "runtime \<Rightarrow> jsval \<Rightarrow> jsval io" where
  "enrich_http rt row =
     (let desc = js_or (getp row ''description'') JNull
      in if \<not> truthy desc
         then (\<lambda>db.
           case (if db_error rt QSelectLegend db [getp row ''code''] = None
                 then map_of (legend_codes db) (pg_text rt (getp row ''code'')) else None) of
             Some d \<Rightarrow> returnIO d db
           | None \<Rightarrow>
               bindIO (query rt QUpsertUnmapped [getp row ''code'', getp row ''statement'']
                         (\<lambda>db. db\<lparr>unmapped_codes :=
                            upsert_unmapped_http (pg_text rt (getp row ''code''))
                              (getp row ''statement'') (unmapped_codes db)\<rparr>))
                 (\<lambda>_. returnIO desc) db)
         else returnIO desc)"

definition upsert_balance_row_http :: "runtime \<Rightarrow> string \<Rightarrow> jsval \<Rightarrow> jsval \<Rightarrow> unit io" where
  "upsert_balance_row_http rt azienda_id row desc =
     (case pg_int rt (getp row ''year'') of
        None \<Rightarrow> liftE (Inl (Exn ''error'' ''invalid input syntax for type integer''))
      | Some y \<Rightarrow>
          if conflict_target balance_entries_unique [''azienda_id'', ''year'', ''statement'', ''code'']
          then query rt QUpsertBalance
                 [JStr azienda_id, getp row ''year'', getp row ''statement'', getp row ''code'']
                 (\<lambda>db. db\<lparr>balance_entries :=
                         upsert_balance_http (balance_row_of rt azienda_id y row desc) (balance_entries db)\<rparr>)
          else bindIO (query rt QUpsertBalance
                         [JStr azienda_id, getp row ''year'', getp row ''statement'', getp row ''code'']
                         id)
                 (\<lambda>_. liftE (Inl no_conflict_target)))"

fun upsertBalanceEntries_http :: "runtime \<Rightarrow> string \<Rightarrow> jsval list \<Rightarrow> report \<Rightarrow> report io" where
  "upsertBalanceEntries_http rt azienda_id [] rep = returnIO rep"
| "upsertBalanceEntries_http rt azienda_id (row # entries) rep =
     bindIO (liftE (dot row ''year'')) (\<lambda>_.
       if missing_keys row
       then upsertBalanceEntries_http rt azienda_id entries
              (rep\<lparr>warnings := warnings rep @ [(''balance_entries'', ''missing_keys'', row)]\<rparr>)
       else bindIO (enrich_http rt row) (\<lambda>desc.
            bindIO (upsert_balance_row_http rt azienda_id row desc) (\<lambda>_.
              upsertBalanceEntries_http rt azienda_id entries rep)))"

fun upsertAteco :: "runtime \<Rightarrow> string \<Rightarrow> jsval list \<Rightarrow> string \<Rightarrow> nat \<Rightarrow> unit io" where
  "upsertAteco rt azienda_id [] effective_date i = returnIO ()"
| "upsertAteco rt azienda_id (entry # entries) effective_date i =
     bindIO (query rt QInsertAteco [JStr (uuidv4_ateco rt i), JStr azienda_id, entry]
               (\<lambda>db. db\<lparr>ateco := ateco db @
                  [\<lparr>at_ateco_id = uuidv4_ateco rt i, at_azienda_id = azienda_id,
                    at_effective_date = effective_date,
                    at_ateco_code = pgv (getp entry ''ateco_code''),
                    at_ateco_description = pgv (getp entry ''ateco_description''),
                    at_raw_json = entry\<rparr>]\<rparr>))
       (\<lambda>_. upsertAteco rt azienda_id entries effective_date (Suc i))"

text \<open>The body of \<^verbatim>\<open>try\<close> in \<^verbatim>\<open>main\<close>: no transaction is opened.\<close>

definition run_http :: "runtime \<Rightarrow> jsval \<Rightarrow> (string \<times> report) io" where
  "run_http rt payload =
     bindIO (upsertCompany_http rt payload) (\<lambda>azienda_id.
     bindIO (liftE (effectiveDateForSection rt ''root'' payload (now rt))) (\<lambda>globalEffective.
     bindIO (insertCompanyVersion_http rt azienda_id payload globalEffective) (\<lambda>contentHash.
     bindIO (insertRawSection_http rt azienda_id ''root'' globalEffective payload) (\<lambda>_.
     bindIO (if truthy (extractContacts_http payload)
             then bindIO (upsertContacts_http rt azienda_id (extractContacts_http payload)
                            globalEffective (initial_report rt))
                    (\<lambda>rep. returnIO (rep\<lparr>inserts := bump ''contacts'' 1 (inserts rep)\<rparr>))
             else returnIO ((initial_report rt)\<lparr>skips := bump ''contacts'' 1 (skips (initial_report rt))\<rparr>))
       (\<lambda>rep1.
     bindIO (liftE (extractAddresses_http payload)) (\<lambda>addrs.
     bindIO (if addrs \<noteq> []
             then bindIO (upsertAddresses_http rt azienda_id addrs rep1 globalEffective)
                    (\<lambda>rep. returnIO (rep\<lparr>inserts := bump ''addresses'' (length addrs) (inserts rep)\<rparr>))
             else returnIO (rep1\<lparr>skips := bump ''addresses'' 1 (skips rep1)\<rparr>))
       (\<lambda>rep2.
     bindIO (if extractAteco payload \<noteq> []
             then bindIO (upsertAteco rt azienda_id (extractAteco payload) globalEffective 0)
                    (\<lambda>_. returnIO (rep2\<lparr>inserts :=
                       bump ''ateco'' (length (extractAteco payload)) (inserts rep2)\<rparr>))
             else returnIO (rep2\<lparr>skips := bump ''ateco'' 1 (skips rep2)\<rparr>))
       (\<lambda>rep3.
     bindIO (liftE (extractBalanceEntries_http rt payload)) (\<lambda>balanceEntries.
     bindIO (if balanceEntries \<noteq> []
             then bindIO (upsertBalanceEntries_http rt azienda_id balanceEntries rep3)
                    (\<lambda>rep. returnIO (rep\<lparr>inserts :=
                       bump ''balance_entries'' (length balanceEntries) (inserts rep)\<rparr>))
             else returnIO (rep3\<lparr>skips := bump ''balance_entries'' 1 (skips rep3)\<rparr>))
       (\<lambda>rep4.
       let st = terminal_status
                  (length balanceEntries + (if truthy (extractContacts_http payload) then 1 else 0)
                   + length addrs + length (extractAteco payload));
           rep5 = rep4\<lparr>status := st\<rparr>
       in bindIO (insertIngestion rt QInsertIngestion (Some azienda_id) st (RunSummary rep5)) (\<lambda>_.
            returnIO (azienda_id, rep5))))))))))))"

text \<open>
  \<^verbatim>\<open>main\<close>: before \<^verbatim>\<open>try\<close> it prints \<^verbatim>\<open>Object.keys(payload)\<close>, which raises on
  \<^verbatim>\<open>null\<close>; nothing is sent then. When the body raises, the handler sends the ERROR
  row and drops the error of that request, if any; the writes the body made before the
  exception stay.
\<close>

definition main_http :: "runtime \<Rightarrow> jsval \<Rightarrow> store \<Rightarrow> (exn + string \<times> report) \<times> store" where
  "main_http rt payload db =
     (if nullish payload
      then (Inl (Exn ''TypeError'' ''Cannot convert undefined or null to object''), db)
      else case run_http rt payload db of
             (Inr r, db') \<Rightarrow> (Inr r, db')
           | (Inl err, db') \<Rightarrow>
               (Inl err, snd (insertIngestion rt QErrorRow None ERROR (ErrorSummary (errText err)) db')))"

section \<open>A runtime to run the scripts on\<close>

text \<open>
  Closed statements need a runtime. This one accepts every statement and has simple
  functions in place of the libraries: a rendering of the value for the hash, the name
  itself for the name-based identifier, the ISO strings that begin with a date for the
  dates the runtime parses, and unsigned decimal numerals for the numbers it reads.
\<close>

fun render :: "jsval \<Rightarrow> string"
  and render_items :: "jsval list \<Rightarrow> string list"
  and render_fields :: "(string \<times> jsval) list \<Rightarrow> string list" where
  "render JUndefined = ''undefined''"
| "render JNull = ''null''"
| "render (JBool b) = (if b then ''true'' else ''false'')"
| "render (JNum r) =
     (if fst (quotient_of r) < 0 then ''-'' else []) @ dec_int \<bar>fst (quotient_of r)\<bar>
     @ ''/'' @ dec_int (snd (quotient_of r))"
| "render JNaN = ''NaN''"
| "render (JStr s) = [CHR 0x22] @ s @ [CHR 0x22]"
| "render (JArr xs) = ''['' @ join '','' (render_items xs) @ '']''"
| "render (JObj kvs) = ''{'' @ join '','' (render_fields kvs) @ ''}''"
| "render_items [] = []"
| "render_items (x # xs) = render x # render_items xs"
| "render_fields [] = []"
| "render_fields (kv # kvs) = (fst kv @ '':'' @ render (snd kv)) # render_fields kvs"

definition numeral_of :: "string \<Rightarrow> int option" where
  "numeral_of s = (if s \<noteq> [] \<and> list_all is_digit s then Some (int_of_dec s) else None)"

definition sample_runtime :: runtime where
  "sample_runtime =
     \<lparr>uuidv5 = (\<lambda>name ns. ''uuidv5('' @ name @ '')''),
      uuidv4_ingestion = ''uuidv4-of-the-run'',
      uuidv4_azienda = ''uuidv4-of-the-company'',
      uuidv4_ateco = (\<lambda>i. ''uuidv4-of-ateco-'' @ dec i),
      hash = render,
      now = ''2026-01-01T00:00:00.000Z'',
      toISOString = (\<lambda>v. case v of JStr s \<Rightarrow> (if iso_date_prefix s then Some s else None) | _ \<Rightarrow> None),
      yearEndISO = (\<lambda>v. case v of JNum r \<Rightarrow> Some (render (JNum r) @ ''-12-31T00:00:00.000Z'') | _ \<Rightarrow> None),
      dateParses = iso_date_prefix,
      numToString = (\<lambda>r. render (JNum r)),
      strToNum = (\<lambda>s. map_option of_int (numeral_of s)),
      pgIntOfText = numeral_of,
      pgTextOf = render,
      jsonbOfText = (\<lambda>s. map_option (\<lambda>i. JNum (of_int i)) (numeral_of s)),
      db_error = (\<lambda>q db ps. None)\<rparr>"

definition empty_store :: store where
  "empty_store =
     \<lparr>companies = [], company_versions = [], raw_sections = [], contacts = [], addresses = [],
      ateco = [], balance_entries = [], unmapped_codes = [], legend_codes = [], ingestions = [],
      columns = []\<rparr>"

text \<open>Payloads and stores for the closed statements below.\<close>

definition other_process :: runtime where
  "other_process =
     sample_runtime\<lparr>uuidv4_ingestion := ''uuidv4-of-another-run'',
                    uuidv4_azienda := ''uuidv4-of-another-company'',
                    now := ''2026-06-30T12:00:00.000Z''\<rparr>"


definition payload_vat_root :: jsval where
  "payload_vat_root = JObj [(''companyName'', JStr ''Rossi''), (''vatCode'', JStr ''IT12345678901'')]"

definition payload_e2e :: jsval where
  "payload_e2e =
     JObj [(''companyDetails'', JObj [(''vatCode'', JStr ''IT12345678901'')]),
           (''address'', JObj [(''street'', JStr ''Via Roma 1''), (''zipCode'', JStr ''00100''),
                               (''town'', JStr ''Roma'')])]"

definition payload_bad_date :: jsval where
  "payload_bad_date = JObj [(''lastUpdateDate'', JStr ''not a date'')]"

definition error_row :: "runtime \<Rightarrow> string \<Rightarrow> ingestion_row" where
  "error_row rt msg =
     \<lparr>ig_ingestion_id = uuidv4_ingestion rt, ig_azienda_id = None, ig_status = ERROR,
      ig_summary = ErrorSummary msg\<rparr>"

definition random_company :: company_row where
  "random_company =
     \<lparr>co_azienda_id = uuidv4_azienda sample_runtime, co_vat_code = JNull, co_tax_code = JNull,
      co_company_name = JNull, co_legal_form = JNull, co_status = JNull, co_cciaa = JNull,
      co_rea_code = JNull, co_country_code = JNull\<rparr>"

definition skipped_report :: "(string \<times> nat) list \<Rightarrow> report" where
  "skipped_report sk =
     \<lparr>ingestionId = uuidv4_ingestion sample_runtime, createdColumns = [], inserts = [],
      skips = sk, warnings = [], status = UNCHANGED\<rparr>"

definition store_of_empty_payload :: "report \<Rightarrow> store" where
  "store_of_empty_payload rep =
     empty_store\<lparr>
       companies := [random_company],
       company_versions :=
         [\<lparr>cv_azienda_id = uuidv4_azienda sample_runtime, cv_effective_date = now sample_runtime,
           cv_content_hash = hash sample_runtime (JObj []), cv_raw_json = JObj []\<rparr>],
       raw_sections :=
         [\<lparr>rs_azienda_id = uuidv4_azienda sample_runtime, rs_section = ''root'',
           rs_effective_date = now sample_runtime, rs_raw_json = JObj []\<rparr>],
       ingestions :=
         [\<lparr>ig_ingestion_id = uuidv4_ingestion sample_runtime,
           ig_azienda_id = Some (uuidv4_azienda sample_runtime),
           ig_status = UNCHANGED, ig_summary = RunSummary rep\<rparr>]\<rparr>"

definition store_after_first_run :: store where
  "store_after_first_run = snd (main_cli sample_runtime payload_vat_root empty_store)"

definition store_after_second_run :: store where
  "store_after_second_run = snd (main_cli other_process payload_vat_root store_after_first_run)"

text \<open>
  The line item of the income statement of claim C2, with its amount; a document that
  has it; the store after the loop on that line item alone, where the code has been
  counted as unmapped and no row has been written.
\<close>

definition line_item :: "rat \<Rightarrow> jsval" where
  "line_item a =
     JObj [(''year'', JNum 2023), (''statement'', JStr ''CE''), (''code'', JStr ''A1''), (''amount'', JNum a)]"

definition payload_line_item :: "rat \<Rightarrow> jsval" where
  "payload_line_item a =
     JObj [(''balance'', JObj [(''year'', JNum 2023),
             (''incomeStatementAggregateValues'', JObj [(''A1'', JNum a)])])]"

definition store_unmapped :: store where
  "store_unmapped =
     empty_store\<lparr>unmapped_codes := [\<lparr>um_code = ''A1'', um_statement_guess = JStr ''CE'',
                                        um_occurrences = 1\<rparr>]\<rparr>"

text \<open>
  A balance block with no year anywhere, and one with a year and an empty code; the
  entry that \<^verbatim>\<open>index.js\<close> extracts for the empty code.
\<close>

definition payload_no_year :: jsval where
  "payload_no_year = JObj [(''balance'', JObj [(''assetsAggregateValues'', JObj [(''A1'', JNum 500)])])]"

definition payload_empty_code :: jsval where
  "payload_empty_code =
     JObj [(''balance'', JObj [(''year'', JNum 2023),
             (''assetsAggregateValues'', JObj [([], JNum 1)])])]"

definition entry_empty_code :: jsval where
  "entry_empty_code =
     JObj [(''year'', JNum 2023), (''statement'', JStr ''SP_A''), (''code'', JStr []),
           (''amount'', JNum 1), (''currency'', JStr ''EUR''),
           (''source_path'', JStr ''assetsAggregateValues'')]"

text \<open>
  A document with a section of each vocabulary and a key that looks like a code, with
  the entry its first section gives; and a balance block with an aggregate block and
  a detail group.
\<close>

definition payload_two_vocabularies :: jsval where
  "payload_two_vocabularies =
     JObj [(''conto_economico'', JArr [JObj [(''code'', JStr ''A1''), (''value'', JNum 5)]]),
           (''debts'', JArr [JObj [(''code'', JStr ''D1''), (''value'', JNum 7)]]),
           (''AB12'', JNum 3)]"

definition entry_first_tier :: jsval where
  "entry_first_tier =
     JObj [(''year'', JNum 2024), (''statement'', JStr ''CE''), (''code'', JStr ''A1''),
           (''description'', JStr ''Conto Economico - A1''), (''amount'', JNum 5),
           (''currency'', JStr ''EUR''), (''source_path'', JStr ''conto_economico'')]"

definition payload_both_steps :: jsval where
  "payload_both_steps =
     JObj [(''balance'', JObj [(''year'', JNum 2023),
             (''assetsAggregateValues'', JObj [(''A1'', JNum 500)]),
             (''debts'', JObj [(''D1'', JNum 7)])])]"

text \<open>
  An address with a field that is no column of \<^verbatim>\<open>addresses\<close>, the entry of
  \<^verbatim>\<open>createdColumns\<close> for that field, and the store whose catalogue has the column.
\<close>

definition payload_fax :: jsval where
  "payload_fax = JObj [(''address'', JObj [(''street'', JStr ''Via Roma 1''), (''fax'', JStr ''06 1234'')])]"

definition fax_column :: "string \<times> ensured" where
  "fax_column = (''addresses'', \<lparr>created = True, column = ''fax'', pgType = Some ''text''\<rparr>)"

definition store_fax :: store where
  "store_fax = empty_store\<lparr>columns := [(''addresses'', ''fax'', ''text'')]\<rparr>"

section \<open>Reasoning about steps\<close>

text \<open>
  A step that returns has run each of its parts to the end; a step that only writes
  some tables leaves every function of the other tables as it was (\<open>frame\<close>).
\<close>

lemma bindIO_Inr:
  "bindIO m f db = (Inr y, db'') \<longleftrightarrow> (\<exists>x db'. m db = (Inr x, db') \<and> f x db' = (Inr y, db''))"
  by (auto simp: bindIO_def split: prod.splits sum.splits)

lemma bindIO_InrE:
  assumes "bindIO m f db = (Inr y, db'')"
  obtains x db' where "m db = (Inr x, db')" and "f x db' = (Inr y, db'')"
  using assms by (auto simp: bindIO_Inr)

lemma bindIO_ok: "m db = (Inr x, db') \<Longrightarrow> bindIO m f db = f x db'"
  by (simp add: bindIO_def)

lemma bindIO_fail: "m db = (Inl e, db') \<Longrightarrow> bindIO m f db = (Inl e, db')"
  by (simp add: bindIO_def)

lemma liftE_Inr: "liftE r db = (Inr x, db') \<longleftrightarrow> r = Inr x \<and> db' = db"
  by (auto simp: liftE_def)

lemma returnIO_eq: "returnIO x db = (r, db') \<longleftrightarrow> r = Inr x \<and> db' = db"
  by (auto simp: returnIO_def)

lemma query_Inr:
  "query rt q ps eff db = (Inr u, db') \<longleftrightarrow> db_error rt q db ps = None \<and> db' = eff db"
  by (auto simp: query_def split: option.splits)

lemma query_Inl:
  "query rt q ps eff db = (Inl e, db') \<longleftrightarrow> (\<exists>msg. db_error rt q db ps = Some msg \<and> e = Exn ''error'' msg \<and> db' = db)"
  by (auto simp: query_def split: option.splits)

definition frame :: "(store \<Rightarrow> 'x) \<Rightarrow> 'a io \<Rightarrow> bool" where
  "frame F m = (\<forall>db. F (snd (m db)) = F db)"

named_theorems frame_intros

lemma frameD: "frame F m \<Longrightarrow> m db = (r, db') \<Longrightarrow> F db' = F db"
  by (metis frame_def snd_conv)

lemma frame_returnIO [frame_intros]: "frame F (returnIO x)"
  by (simp add: frame_def returnIO_def)

lemma frame_liftE [frame_intros]: "frame F (liftE r)"
  by (simp add: frame_def liftE_def)

lemma frame_bindIO [frame_intros]:
  "frame F m \<Longrightarrow> (\<And>x. frame F (f x)) \<Longrightarrow> frame F (bindIO m f)"
  by (auto simp: frame_def bindIO_def split: prod.splits sum.splits) (metis snd_conv)+

lemma frame_query [frame_intros]: "(\<And>db. F (eff db) = F db) \<Longrightarrow> frame F (query rt q ps eff)"
  by (simp add: frame_def query_def split: option.splits)

lemma frame_if [frame_intros]: "(c \<Longrightarrow> frame F m) \<Longrightarrow> (\<not> c \<Longrightarrow> frame F n) \<Longrightarrow> frame F (if c then m else n)"
  by simp

lemma frame_let [frame_intros]: "frame F (f v) \<Longrightarrow> frame F (Let v f)"
  by simp

lemma frame_abs: "(\<And>db. F (snd (m db db)) = F db) \<Longrightarrow> frame F (\<lambda>db. m db db)"
  by (simp add: frame_def)

lemma frame_option [frame_intros]:
  "(x = None \<Longrightarrow> frame F n) \<Longrightarrow> (\<And>y. x = Some y \<Longrightarrow> frame F (s y)) \<Longrightarrow>
   frame F (case x of None \<Rightarrow> n | Some y \<Rightarrow> s y)"
  by (cases x) simp_all

lemma no_balance_target [simp]:
  "\<not> conflict_target balance_entries_unique [''azienda_id'', ''year'', ''statement'', ''code'']"
  by (simp add: conflict_target_def balance_entries_unique_def)


lemma frame_ensureColumn [frame_intros]:
  assumes "\<And>db c. F (db\<lparr>columns := c\<rparr>) = F db"
  shows "frame F (ensureColumn rt t c v)"
  unfolding ensureColumn_def Let_def
  by (intro frame_intros frame_abs)
     (auto simp: returnIO_def bindIO_def query_def assms split: option.splits)

lemma frame_promote [frame_intros]:
  assumes "\<And>db c. F (db\<lparr>columns := c\<rparr>) = F db"
  shows "frame F (promote rt t excl kvs rep)"
  by (induction kvs arbitrary: rep) (auto intro!: frame_intros assms)

lemma frame_upsertCompany [frame_intros]:
  assumes "\<And>db c. F (db\<lparr>companies := c\<rparr>) = F db"
  shows "frame F (upsertCompany rt payload)"
  unfolding upsertCompany_def Let_def
  by (intro frame_intros) (simp add: assms)

lemma frame_insertCompanyVersion [frame_intros]:
  assumes "\<And>db c. F (db\<lparr>company_versions := c\<rparr>) = F db"
  shows "frame F (insertCompanyVersion rt a p d)"
  unfolding insertCompanyVersion_def Let_def
  by (intro frame_intros) (simp add: assms)

lemma frame_insertRawSection [frame_intros]:
  assumes "\<And>db c. F (db\<lparr>raw_sections := c\<rparr>) = F db"
  shows "frame F (insertRawSection rt a s d p)"
  unfolding insertRawSection_def
  by (intro frame_intros) (simp add: assms)

lemma frame_upsertContacts [frame_intros]:
  assumes "\<And>db c. F (db\<lparr>columns := c\<rparr>) = F db" "\<And>db c. F (db\<lparr>contacts := c\<rparr>) = F db"
  shows "frame F (upsertContacts rt a p d rep)"
  unfolding upsertContacts_def
  by (intro frame_intros) (simp_all add: assms)

lemma frame_upsertAddresses [frame_intros]:
  assumes "\<And>db c. F (db\<lparr>columns := c\<rparr>) = F db" "\<And>db c. F (db\<lparr>addresses := c\<rparr>) = F db"
  shows "frame F (upsertAddresses rt a xs rep g)"
  by (induction xs arbitrary: rep) (auto intro!: frame_intros simp: assms)

lemma frame_enrich [frame_intros]:
  assumes "\<And>db c. F (db\<lparr>unmapped_codes := c\<rparr>) = F db"
  shows "frame F (enrich rt row)"
  unfolding enrich_def Let_def
  by (intro frame_intros frame_abs)
     (auto simp: returnIO_def bindIO_def query_def assms split: option.splits)

text \<open>The statement for a line item is rejected: it writes nothing.\<close>

lemma frame_upsert_balance_row [frame_intros]: "frame F (upsert_balance_row rt a row desc)"
  unfolding upsert_balance_row_def
  by (auto intro!: frame_intros split: option.splits)

lemma frame_upsertBalanceEntries [frame_intros]:
  assumes "\<And>db c. F (db\<lparr>unmapped_codes := c\<rparr>) = F db"
  shows "frame F (upsertBalanceEntries rt a xs rep)"
  by (induction xs arbitrary: rep) (auto intro!: frame_intros simp: assms)

lemma frame_insertErrorRow [frame_intros]: "frame F (insertErrorRow rt msg)"
  unfolding insertErrorRow_def
  by (intro frame_intros) simp

lemma frame_insertIngestion [frame_intros]:
  assumes "\<And>db c. F (db\<lparr>ingestions := c\<rparr>) = F db"
  shows "frame F (insertIngestion rt a st summ q)"
  unfolding insertIngestion_def
  by (intro frame_intros) (simp add: assms)

lemma bindIO_Inl:
  "bindIO m f db = (Inl e, db'') \<longleftrightarrow>
     m db = (Inl e, db'') \<or> (\<exists>x db'. m db = (Inr x, db') \<and> f x db' = (Inl e, db''))"
  by (auto simp: bindIO_def split: prod.splits sum.splits)

lemma returned: "\<not> isl (fst x) \<Longrightarrow> \<exists>r d. x = (Inr r, d)"
  by (cases x; cases "fst x") auto

lemma raised: "isl (fst x) \<Longrightarrow> \<exists>e d. x = (Inl e, d)"
  by (cases x; cases "fst x") auto

lemma query_id: "query rt q ps id db = (r, db') \<Longrightarrow> db' = db"
  by (auto simp: query_def split: option.splits)

lemma frame_ensureColumn_http [frame_intros]:
  assumes "\<And>db c. F (db\<lparr>columns := c\<rparr>) = F db"
  shows "frame F (ensureColumn_http rt t c v)"
  unfolding ensureColumn_http_def Let_def frame_def
  by (auto simp: query_def execSQL_error_def assms split: option.splits prod.splits sum.splits)

lemma frame_promote_http [frame_intros]:
  assumes "\<And>db c. F (db\<lparr>columns := c\<rparr>) = F db"
  shows "frame F (promote_http rt t excl kvs rep)"
  by (induction kvs arbitrary: rep) (auto intro!: frame_intros assms)

lemma frame_upsertCompany_http [frame_intros]:
  assumes "\<And>db c. F (db\<lparr>companies := c\<rparr>) = F db"
  shows "frame F (upsertCompany_http rt payload)"
  unfolding upsertCompany_http_def Let_def
  by (intro frame_intros) (simp add: assms)

lemma frame_insertCompanyVersion_http [frame_intros]:
  assumes "\<And>db c. F (db\<lparr>company_versions := c\<rparr>) = F db"
  shows "frame F (insertCompanyVersion_http rt a p d)"
  unfolding insertCompanyVersion_http_def Let_def
  by (intro frame_intros) (simp add: assms)

lemma frame_insertRawSection_http [frame_intros]:
  assumes "\<And>db c. F (db\<lparr>raw_sections := c\<rparr>) = F db"
  shows "frame F (insertRawSection_http rt a s d p)"
  unfolding insertRawSection_http_def
  by (intro frame_intros) (simp add: assms)

lemma frame_upsertContacts_http [frame_intros]:
  assumes "\<And>db c. F (db\<lparr>columns := c\<rparr>) = F db" "\<And>db c. F (db\<lparr>contacts := c\<rparr>) = F db"
  shows "frame F (upsertContacts_http rt a p d rep)"
  unfolding upsertContacts_http_def
  by (intro frame_intros) (simp_all add: assms)

lemma frame_upsertAddresses_http [frame_intros]:
  assumes "\<And>db c. F (db\<lparr>columns := c\<rparr>) = F db" "\<And>db c. F (db\<lparr>addresses := c\<rparr>) = F db"
  shows "frame F (upsertAddresses_http rt a xs rep g)"
  by (induction xs arbitrary: rep) (auto intro!: frame_intros simp: assms)

lemma frame_enrich_http [frame_intros]:
  assumes "\<And>db c. F (db\<lparr>unmapped_codes := c\<rparr>) = F db"
  shows "frame F (enrich_http rt row)"
  unfolding enrich_http_def Let_def
  by (intro frame_intros frame_abs)
     (auto simp: returnIO_def bindIO_def query_def assms split: option.splits)

lemma frame_upsert_balance_row_http [frame_intros]: "frame F (upsert_balance_row_http rt a row desc)"
  unfolding upsert_balance_row_http_def
  by (auto intro!: frame_intros split: option.splits)

lemma frame_upsertBalanceEntries_http [frame_intros]:
  assumes "\<And>db c. F (db\<lparr>unmapped_codes := c\<rparr>) = F db"
  shows "frame F (upsertBalanceEntries_http rt a xs rep)"
  by (induction xs arbitrary: rep) (auto intro!: frame_intros simp: assms)

lemma frame_upsertAteco [frame_intros]:
  assumes "\<And>db c. F (db\<lparr>ateco := c\<rparr>) = F db"
  shows "frame F (upsertAteco rt a xs d i)"
  by (induction xs arbitrary: i) (auto intro!: frame_intros simp: assms)

text \<open>A step whose only write to \<open>F\<close> is its last statement.\<close>

definition tail_write :: "(store \<Rightarrow> 'x) \<Rightarrow> ('a \<Rightarrow> 'x \<Rightarrow> 'x \<Rightarrow> bool) \<Rightarrow> 'a io \<Rightarrow> bool" where
  "tail_write F P m =
     (\<forall>db. case m db of (Inl e, db') \<Rightarrow> F db' = F db | (Inr x, db') \<Rightarrow> P x (F db) (F db'))"

lemma tail_write_bindIO:
  assumes m: "frame F m" and f: "\<And>x. tail_write F P (f x)"
  shows "tail_write F P (bindIO m f)"
  unfolding tail_write_def
proof
  fix db
  obtain r db1 where r: "m db = (r, db1)"
    by (cases "m db")
  with m have F1: "F db1 = F db"
    by (auto dest: frameD)
  show "case bindIO m f db of (Inl e, db') \<Rightarrow> F db' = F db | (Inr x, db') \<Rightarrow> P x (F db) (F db')"
  proof (cases r)
    case (Inl e)
    with r F1 show ?thesis by (simp add: bindIO_def)
  next
    case (Inr x)
    with f[of x, unfolded tail_write_def, rule_format, of db1] r F1 show ?thesis
      by (cases "f x db1") (auto simp: bindIO_def split: sum.splits)
  qed
qed

lemma tail_write_if:
  "(c \<Longrightarrow> tail_write F P m) \<Longrightarrow> (\<not> c \<Longrightarrow> tail_write F P n) \<Longrightarrow> tail_write F P (if c then m else n)"
  by simp

text \<open>What a step returns, when it returns.\<close>

definition returns :: "('a \<Rightarrow> bool) \<Rightarrow> 'a io \<Rightarrow> bool" where
  "returns Q m = (\<forall>db x db'. m db = (Inr x, db') \<longrightarrow> Q x)"

lemma returnsD: "returns Q m \<Longrightarrow> m db = (Inr x, db') \<Longrightarrow> Q x"
  by (auto simp: returns_def)

lemma returns_bindIO: "(\<And>x. returns Q (f x)) \<Longrightarrow> returns Q (bindIO m f)"
  by (auto simp: returns_def bindIO_Inr)

lemma returns_bind_liftE: "(\<And>x. r = Inr x \<Longrightarrow> returns Q (f x)) \<Longrightarrow> returns Q (bindIO (liftE r) f)"
  by (auto simp: returns_def bindIO_Inr liftE_Inr)

lemma returns_returnIO: "Q x \<Longrightarrow> returns Q (returnIO x)"
  by (auto simp: returns_def returnIO_eq)

lemma returns_seq:
  "returns P m \<Longrightarrow> (\<And>x. P x \<Longrightarrow> returns Q (f x)) \<Longrightarrow> returns Q (bindIO m f)"
  unfolding returns_def bindIO_Inr by blast

lemma rat_int_of_int [simp]: "rat_int (of_int i) = Some i"
  by (simp add: rat_int_def)

lemma rat_int_numeral [simp]: "rat_int (numeral k) = Some (numeral k)"
  using rat_int_of_int[of "numeral k"] by simp

section \<open>What a run writes\<close>

lemma jsonify_json:
  "json_value v \<Longrightarrow> jsonify v = v"
  "json_items xs \<Longrightarrow> jsonify_items xs = xs"
  "json_fields kvs \<Longrightarrow> jsonify_fields kvs = kvs"
  by (induction v and xs and kvs rule: jsonify_jsonify_items_jsonify_fields.induct) auto

lemma pg_jsonb_object: "json_fields kvs \<Longrightarrow> pg_jsonb rt (JObj kvs) = Some (JObj kvs)"
  by (simp add: pg_jsonb_def jsonify_json)

lemma pg_jsonb_empty_array: "pg_jsonb rt (JArr []) = Some (JObj [])"
  by (simp add: pg_jsonb_def)

lemma pg_jsonb_array: "xs \<noteq> [] \<Longrightarrow> pg_jsonb rt (JArr xs) = None"
  by (simp add: pg_jsonb_def)

lemma insertRawSection_Inr:
  "insertRawSection rt a s d p db = (Inr u, db') \<Longrightarrow>
   \<exists>v. pg_jsonb rt p = Some v \<and> raw_sections db' = raw_sections db @
     [\<lparr>rs_azienda_id = a, rs_section = s, rs_effective_date = d, rs_raw_json = v\<rparr>]"
  by (auto simp: insertRawSection_def query_Inr liftE_Inr split: option.splits)

lemma insertIngestion_Inr:
  "insertIngestion rt q a st summ db = (Inr u, db') \<Longrightarrow>
   ingestions db' = ingestions db @
     [\<lparr>ig_ingestion_id = uuidv4_ingestion rt, ig_azienda_id = a, ig_status = st, ig_summary = summ\<rparr>]"
  by (auto simp: insertIngestion_def query_Inr)

lemma insertCompanyVersion_Inr:
  "insertCompanyVersion rt a p d db = (Inr h, db') \<Longrightarrow>
   h = hash rt p \<and> (\<exists>v. pg_jsonb rt p = Some v \<and> company_versions db' = company_versions db @
     [\<lparr>cv_azienda_id = a, cv_effective_date = d, cv_content_hash = hash rt p, cv_raw_json = v\<rparr>])"
  by (auto simp: insertCompanyVersion_def Let_def bindIO_Inr returnIO_eq query_Inr liftE_Inr
        on_conflict_do_nothing_def company_versions_unique_def split: option.splits)

lemmas raw_frames =
  frameD[OF frame_upsertCompany, where F = raw_sections, simplified]
  frameD[OF frame_insertCompanyVersion, where F = raw_sections, simplified]
  frameD[OF frame_upsertContacts, where F = raw_sections, simplified]
  frameD[OF frame_upsertAddresses, where F = raw_sections, simplified]
  frameD[OF frame_upsertBalanceEntries, where F = raw_sections, simplified]
  frameD[OF frame_insertIngestion, where F = raw_sections, simplified]

lemmas ingestion_frames =
  frameD[OF frame_upsertCompany, where F = ingestions, simplified]
  frameD[OF frame_insertCompanyVersion, where F = ingestions, simplified]
  frameD[OF frame_insertRawSection, where F = ingestions, simplified]
  frameD[OF frame_upsertContacts, where F = ingestions, simplified]
  frameD[OF frame_upsertAddresses, where F = ingestions, simplified]
  frameD[OF frame_upsertBalanceEntries, where F = ingestions, simplified]

lemmas version_frames =
  frameD[OF frame_upsertCompany, where F = company_versions, simplified]
  frameD[OF frame_insertRawSection, where F = company_versions, simplified]
  frameD[OF frame_upsertContacts, where F = company_versions, simplified]
  frameD[OF frame_upsertAddresses, where F = company_versions, simplified]
  frameD[OF frame_upsertBalanceEntries, where F = company_versions, simplified]
  frameD[OF frame_insertIngestion, where F = company_versions, simplified]

subsection \<open>index.js\<close>

lemma main_cli_Inr:
  "main_cli rt payload db = (Inr r, db') \<longleftrightarrow> run_cli rt payload db = (Inr r, db')"
  by (auto simp: main_cli_def split: prod.splits sum.splits)

lemma run_cli_raw_sections:
  assumes "run_cli rt payload db = (Inr (aid, rep), db')"
  shows "\<exists>d v. effectiveDateForSection rt ''root'' payload (now rt) = Inr d
     \<and> pg_jsonb rt payload = Some v
     \<and> raw_sections db' = raw_sections db @
     [\<lparr>rs_azienda_id = aid, rs_section = ''root'', rs_effective_date = d, rs_raw_json = v\<rparr>]"
  using assms
  apply (simp add: run_cli_def bindIO_Inr liftE_Inr returnIO_eq Let_def split: if_splits)
  apply (elim exE conjE)
  apply (auto dest!: raw_frames insertRawSection_Inr query_id)
  done

lemma run_cli_status:
  assumes "run_cli rt payload db = (Inr (aid, rep), db')"
  shows "\<exists>cts addrs. extractContacts payload = Inr cts \<and> extractAddresses payload = Inr addrs
     \<and> status rep = terminal_status (length (extractBalanceEntries payload)
                        + (if truthy cts then 1 else 0) + length addrs)"
  using assms
  apply (simp add: run_cli_def bindIO_Inr liftE_Inr returnIO_eq Let_def split: if_splits)
  apply (elim exE conjE)
  apply auto
  done

lemma run_cli_ingestions:
  assumes "run_cli rt payload db = (Inr (aid, rep), db')"
  shows "ingestions db' = ingestions db @
     [\<lparr>ig_ingestion_id = uuidv4_ingestion rt, ig_azienda_id = Some aid, ig_status = status rep,
       ig_summary = RunSummary rep\<rparr>]"
  using assms
  apply (simp add: run_cli_def bindIO_Inr liftE_Inr returnIO_eq Let_def split: if_splits)
  apply (elim exE conjE)
  apply (auto dest!: ingestion_frames insertIngestion_Inr query_id)
  done

lemma run_cli_versions:
  assumes "run_cli rt payload db = (Inr (aid, rep), db')"
  shows "\<exists>d v. pg_jsonb rt payload = Some v
     \<and> company_versions db' = company_versions db @
     [\<lparr>cv_azienda_id = aid, cv_effective_date = d, cv_content_hash = hash rt payload,
       cv_raw_json = v\<rparr>]"
  using assms
  apply (simp add: run_cli_def bindIO_Inr liftE_Inr returnIO_eq Let_def split: if_splits)
  apply (elim exE conjE)
  apply (auto dest!: version_frames insertCompanyVersion_Inr query_id)
  done

text \<open>
  What \<^verbatim>\<open>main\<close> ends with when the body has raised \<open>e\<close>: the error of the handler's
  statement, on the store as it was.
\<close>

lemma insertErrorRow_raises:
  "insertErrorRow rt msg db =
     (Inl (case db_error rt QErrorRow db [JStr (uuidv4_ingestion rt), JStr msg] of
             None \<Rightarrow> untyped_parameter | Some m \<Rightarrow> Exn ''error'' m), db)"
  by (simp add: insertErrorRow_def bindIO_def query_def liftE_def split: option.splits)

lemma main_cli_Inl:
  assumes "run_cli rt payload db = (Inl e, dbx)"
  shows "main_cli rt payload db =
     (Inl (case db_error rt QErrorRow db [JStr (uuidv4_ingestion rt), JStr (errText e)] of
             None \<Rightarrow> untyped_parameter | Some m \<Rightarrow> Exn ''error'' m), db)"
  using assms
  by (simp add: main_cli_def insertErrorRow_raises)

subsection \<open>index.http.js\<close>

definition run_row :: "runtime \<Rightarrow> string \<times> report \<Rightarrow> ingestion_row" where
  "run_row rt r =
     \<lparr>ig_ingestion_id = uuidv4_ingestion rt, ig_azienda_id = Some (fst r),
      ig_status = status (snd r), ig_summary = RunSummary (snd r)\<rparr>"

lemma tail_write_insertIngestion:
  "st = status rep \<Longrightarrow>
   tail_write ingestions (\<lambda>r old new. new = old @ [run_row rt r])
     (bindIO (insertIngestion rt q (Some aid) st (RunSummary rep))
        (\<lambda>_. returnIO (aid, rep)))"
  by (auto simp: tail_write_def bindIO_def insertIngestion_def query_def returnIO_def run_row_def
        split: option.splits)

lemma run_http_tail:
  "tail_write ingestions (\<lambda>r old new. new = old @ [run_row rt r]) (run_http rt payload)"
  unfolding run_http_def Let_def
  apply (rule tail_write_bindIO, (intro frame_intros; simp; fail))+
  apply (rule tail_write_insertIngestion)
  apply simp
  done

lemma run_http_ingestions:
  "run_http rt payload db = (Inr r, db') \<Longrightarrow> ingestions db' = ingestions db @ [run_row rt r]"
  "run_http rt payload db = (Inl e, db') \<Longrightarrow> ingestions db' = ingestions db"
  using run_http_tail[of rt payload, unfolded tail_write_def, rule_format, of db]
  by simp_all

lemma run_http_status:
  assumes "extractAddresses_http payload = Inr addrs"
    and "extractBalanceEntries_http rt payload = Inr es"
  shows "returns (\<lambda>r. status (snd r) = terminal_status (length es
                        + (if truthy (extractContacts_http payload) then 1 else 0) + length addrs
                        + length (extractAteco payload)))
           (run_http rt payload)"
  unfolding run_http_def Let_def
  apply (rule returns_bind_liftE returns_bindIO)+
  apply (rule returns_returnIO)
  using assms apply simp
  done

lemma main_http_Inr:
  "main_http rt payload db = (Inr r, db') \<longleftrightarrow>
   \<not> nullish payload \<and> run_http rt payload db = (Inr r, db')"
  by (auto simp: main_http_def split: prod.splits sum.splits)

lemma main_http_nullish:
  "nullish payload \<Longrightarrow>
   main_http rt payload db = (Inl (Exn ''TypeError'' ''Cannot convert undefined or null to object''), db)"
  by (simp add: main_http_def)

lemma main_http_Inl:
  assumes "run_http rt payload db = (Inl e, dbx)" and "\<not> nullish payload"
  shows "main_http rt payload db =
     (Inl e,
      case db_error rt QErrorRow dbx [JStr (uuidv4_ingestion rt), JNull, JStr (errText e)] of
        None \<Rightarrow> dbx\<lparr>ingestions := ingestions dbx @
                   [\<lparr>ig_ingestion_id = uuidv4_ingestion rt, ig_azienda_id = None,
                     ig_status = ERROR, ig_summary = ErrorSummary (errText e)\<rparr>]\<rparr>
      | Some msg \<Rightarrow> dbx)"
  using assms
  by (simp add: main_http_def insertIngestion_def query_def split: option.splits)

subsection \<open>Both scripts\<close>

lemma terminal_status_cases: "terminal_status n = UPDATED \<or> terminal_status n = UNCHANGED"
  by (simp add: terminal_status_def)

lemma terminal_status_eq: "terminal_status n = (if n \<noteq> 0 then UPDATED else UNCHANGED)"
  by (simp add: terminal_status_def)

lemma main_cli_ingestions:
  assumes "main_cli rt payload db = (res, db')"
  shows "ingestions db' = ingestions db
     \<or> (\<exists>r. ingestions db' = ingestions db @ [r] \<and> ig_status r \<in> {UPDATED, UNCHANGED, ERROR})"
proof (cases "run_cli rt payload db")
  case (Pair r dbx)
  show ?thesis
  proof (cases r)
    case (Inl e)
    with Pair assms show ?thesis
      by (auto simp: main_cli_Inl split: option.splits)
  next
    case (Inr x)
    with Pair assms have "run_cli rt payload db = (Inr (fst x, snd x), db')"
      by (simp add: main_cli_def)
    from run_cli_status[OF this] obtain n where "status (snd x) = terminal_status n"
      by auto
    with terminal_status_cases[of n] have "status (snd x) \<in> {UPDATED, UNCHANGED, ERROR}"
      by auto
    with run_cli_ingestions[of rt payload db "fst x" "snd x" db'] Pair Inr assms
    show ?thesis by (auto simp: main_cli_def)
  qed
qed

lemma main_http_ingestions:
  assumes "main_http rt payload db = (res, db')"
  shows "ingestions db' = ingestions db
     \<or> (\<exists>r. ingestions db' = ingestions db @ [r] \<and> ig_status r \<in> {UPDATED, UNCHANGED, ERROR})"
proof (cases "nullish payload")
  case True
  with assms show ?thesis
    by (simp add: main_http_nullish)
next
  case nn: False
  obtain r dbx where Pair: "run_http rt payload db = (r, dbx)"
    by (cases "run_http rt payload db")
  show ?thesis
  proof (cases r)
    case (Inl e)
    with Pair assms run_http_ingestions(2)[of rt payload db e dbx] nn show ?thesis
      by (auto simp: main_http_Inl split: option.splits)
  next
    case (Inr x)
    with Pair assms nn have run: "run_http rt payload db = (Inr x, db')"
      by (simp add: main_http_def)
    then obtain addrs es where
      ex: "extractAddresses_http payload = Inr addrs" "extractBalanceEntries_http rt payload = Inr es"
      by (auto simp: run_http_def bindIO_Inr liftE_Inr)
    from returnsD[OF run_http_status[OF ex] run]
    obtain n where "status (snd x) = terminal_status n"
      by auto
    with terminal_status_cases[of n] have "status (snd x) \<in> {UPDATED, UNCHANGED, ERROR}"
      by auto
    with run_http_ingestions(1)[OF run]
    show ?thesis by (auto simp: run_row_def)
  qed
qed

subsection \<open>Runs on the sample runtime\<close>

lemma cli_bad_date_run:
  "main_cli sample_runtime payload_bad_date empty_store = (Inl untyped_parameter, empty_store)"
  by code_simp

lemma http_bad_date_run:
  "main_http sample_runtime payload_bad_date empty_store
     = (Inl (Exn ''RangeError'' ''Invalid time value''),
        empty_store\<lparr>companies := [random_company],
                      ingestions := [error_row sample_runtime ''Invalid time value'']\<rparr>)"
  by code_simp

lemma cli_empty_run:
  "main_cli sample_runtime (JObj []) empty_store
     = (Inr (uuidv4_azienda sample_runtime,
             skipped_report [(''contacts'', 1), (''addresses'', 1), (''balance_entries'', 1)]),
        store_of_empty_payload
          (skipped_report [(''contacts'', 1), (''addresses'', 1), (''balance_entries'', 1)]))"
  by code_simp

lemma http_empty_run:
  "main_http sample_runtime (JObj []) empty_store
     = (Inr (uuidv4_azienda sample_runtime,
             skipped_report [(''contacts'', 1), (''addresses'', 1), (''ateco'', 1), (''balance_entries'', 1)]),
        store_of_empty_payload
          (skipped_report [(''contacts'', 1), (''addresses'', 1), (''ateco'', 1), (''balance_entries'', 1)]))"
  by code_simp

lemma e2e_returns: "\<not> isl (fst (main_cli sample_runtime payload_e2e empty_store))"
  by code_simp

lemma empty_array_returns: "\<not> isl (fst (main_cli sample_runtime (JArr []) empty_store))"
  by code_simp

lemma e2e_facets:
  "extractContacts payload_e2e = Inr JNull"
  "extractAddresses payload_e2e =
     Inr [JObj [(''addressType'', JStr ''SEDE''), (''street'', JStr ''Via Roma 1''),
                (''zipCode'', JStr ''00100''), (''town'', JStr ''Roma'')]]"
  "extractBalanceEntries payload_e2e = []"
  by code_simp+

lemma empty_facets_http:
  "extractAddresses_http (JObj []) = Inr []"
  "extractBalanceEntries_http sample_runtime (JObj []) = Inr []"
  "extractContacts_http (JObj []) = JNull"
  "extractAteco (JObj []) = []"
  by code_simp+

lemma upsertCompany_Inr:
  "upsertCompany rt payload db = (Inr a, db') \<Longrightarrow> computeAziendaId rt payload = Inr a"
  by (auto simp: upsertCompany_def Let_def bindIO_Inr liftE_Inr returnIO_eq)

lemma run_cli_aid:
  assumes "run_cli rt payload db = (Inr (aid, rep), db')"
  shows "computeAziendaId rt payload = Inr aid"
  using assms
  apply (simp add: run_cli_def bindIO_Inr liftE_Inr returnIO_eq Let_def split: if_splits)
  apply (elim exE conjE)
  apply (auto dest!: upsertCompany_Inr)
  done

lemma cli_bad_date_body:
  "run_cli sample_runtime payload_bad_date empty_store
     = (Inl (Exn ''RangeError'' ''Invalid time value''), empty_store\<lparr>companies := [random_company]\<rparr>)"
  by code_simp

lemma http_bad_date_body:
  "run_http sample_runtime payload_bad_date empty_store
     = (Inl (Exn ''RangeError'' ''Invalid time value''), empty_store\<lparr>companies := [random_company]\<rparr>)"
  by code_simp

lemma first_run_returns:
  "\<not> isl (fst (main_cli sample_runtime payload_vat_root empty_store))"
  by code_simp

lemma second_run_returns:
  "\<not> isl (fst (main_cli other_process payload_vat_root store_after_first_run))"
  by code_simp

lemma vat_root_ids:
  "computeAziendaId sample_runtime payload_vat_root = Inr ''uuidv5(IT12345678901)''"
  "computeAziendaId other_process payload_vat_root = Inr ''uuidv5(IT12345678901)''"
  by code_simp+

lemma other_process_hash: "hash other_process = hash sample_runtime"
  by (simp add: other_process_def)

lemma vat_root_jsonb: "pg_jsonb rt payload_vat_root = Some payload_vat_root"
  by (simp add: pg_jsonb_def payload_vat_root_def)

section \<open>Financial line items in the store\<close>

text \<open>
  The statement for a line item names a conflict target that no unique constraint of
  the table matches: it is rejected for every row, in both scripts.
\<close>

lemma upsert_balance_row_raises:
  "upsert_balance_row rt aid row desc db =
     (Inl (case pg_int rt (getp row ''year'') of
             None \<Rightarrow> Exn ''error'' ''invalid input syntax for type integer''
           | Some y \<Rightarrow>
               (case db_error rt QUpsertBalance db
                       [JStr aid, getp row ''year'', getp row ''statement'', getp row ''code''] of
                  None \<Rightarrow> no_conflict_target
                | Some m \<Rightarrow> Exn ''error'' m)), db)"
  by (simp add: upsert_balance_row_def bindIO_def query_def liftE_def split: option.splits)

lemma upsert_balance_row_http_raises:
  "upsert_balance_row_http rt aid row desc db =
     (Inl (case pg_int rt (getp row ''year'') of
             None \<Rightarrow> Exn ''error'' ''invalid input syntax for type integer''
           | Some y \<Rightarrow>
               (case db_error rt QUpsertBalance db
                       [JStr aid, getp row ''year'', getp row ''statement'', getp row ''code''] of
                  None \<Rightarrow> no_conflict_target
                | Some m \<Rightarrow> Exn ''error'' m)), db)"
  by (simp add: upsert_balance_row_http_def bindIO_def query_def liftE_def split: option.splits)

text \<open>So the loop returns only when it has skipped every row, and then it has sent nothing.\<close>

lemma upsertBalanceEntries_returns:
  "upsertBalanceEntries rt aid entries rep db = (Inr rep', db') \<Longrightarrow>
   list_all missing_keys entries \<and> db' = db
   \<and> rep' = rep\<lparr>warnings := warnings rep @
        map (\<lambda>row. (''balance_entries'', ''missing_keys'', row)) entries\<rparr>"
proof (induction entries arbitrary: rep db)
  case Nil
  then show ?case by (simp add: returnIO_eq)
next
  case (Cons row entries)
  show ?case
  proof (cases "missing_keys row")
    case True
    with Cons.prems have "upsertBalanceEntries rt aid entries
        (rep\<lparr>warnings := warnings rep @ [(''balance_entries'', ''missing_keys'', row)]\<rparr>) db
        = (Inr rep', db')"
      by (auto simp: bindIO_Inr liftE_Inr)
    from Cons.IH[OF this] True show ?thesis by simp
  next
    case False
    with Cons.prems obtain desc db1 u db2 where
      "upsert_balance_row rt aid row desc db1 = (Inr u, db2)"
      by (auto simp: bindIO_Inr liftE_Inr)
    then show ?thesis
      by (simp add: upsert_balance_row_raises)
  qed
qed

lemma upsertBalanceEntries_http_returns:
  "upsertBalanceEntries_http rt aid entries rep db = (Inr rep', db') \<Longrightarrow>
   list_all missing_keys entries \<and> db' = db
   \<and> rep' = rep\<lparr>warnings := warnings rep @
        map (\<lambda>row. (''balance_entries'', ''missing_keys'', row)) entries\<rparr>"
proof (induction entries arbitrary: rep db)
  case Nil
  then show ?case by (simp add: returnIO_eq)
next
  case (Cons row entries)
  show ?case
  proof (cases "missing_keys row")
    case True
    with Cons.prems have "upsertBalanceEntries_http rt aid entries
        (rep\<lparr>warnings := warnings rep @ [(''balance_entries'', ''missing_keys'', row)]\<rparr>) db
        = (Inr rep', db')"
      by (auto simp: bindIO_Inr liftE_Inr)
    from Cons.IH[OF this] True show ?thesis by simp
  next
    case False
    with Cons.prems obtain desc db1 u db2 where
      "upsert_balance_row_http rt aid row desc db1 = (Inr u, db2)"
      by (auto simp: bindIO_Inr liftE_Inr)
    then show ?thesis
      by (simp add: upsert_balance_row_http_raises)
  qed
qed

lemma filter_all: "list_all P xs \<Longrightarrow> filter P xs = xs \<and> filter (\<lambda>x. \<not> P x) xs = []"
  by (induction xs) auto

lemma upsertBalanceEntries_Inr:
  assumes "upsertBalanceEntries rt aid entries rep db = (Inr rep', db')"
  shows "balance_entries db' =
     foldl (\<lambda>rows row. upsert_balance (stored_balance_row rt aid (legend_codes db) row) rows)
       (balance_entries db) (filter (\<lambda>row. \<not> missing_keys row) entries)
   \<and> rep' = rep\<lparr>warnings := warnings rep @
        map (\<lambda>row. (''balance_entries'', ''missing_keys'', row)) (filter missing_keys entries)\<rparr>
   \<and> legend_codes db' = legend_codes db"
  using upsertBalanceEntries_returns[OF assms] filter_all[of missing_keys entries]
  by simp

lemma upsertBalanceEntries_raises:
  assumes "list_ex (\<lambda>row. \<not> missing_keys row) entries"
  shows "isl (fst (upsertBalanceEntries rt aid entries rep db))"
    and "isl (fst (upsertBalanceEntries_http rt aid entries rep db))"
proof -
  from assms have n: "\<not> list_all missing_keys entries"
    by (auto simp: list_ex_iff list_all_iff)
  show "isl (fst (upsertBalanceEntries rt aid entries rep db))"
  proof (rule ccontr)
    assume "\<not> isl (fst (upsertBalanceEntries rt aid entries rep db))"
    then obtain r d where "upsertBalanceEntries rt aid entries rep db = (Inr r, d)"
      using returned by blast
    from upsertBalanceEntries_returns[OF this] n show False by simp
  qed
  show "isl (fst (upsertBalanceEntries_http rt aid entries rep db))"
  proof (rule ccontr)
    assume "\<not> isl (fst (upsertBalanceEntries_http rt aid entries rep db))"
    then obtain r d where "upsertBalanceEntries_http rt aid entries rep db = (Inr r, d)"
      using returned by blast
    from upsertBalanceEntries_http_returns[OF this] n show False by simp
  qed
qed

text \<open>No step of either script writes a row of \<^verbatim>\<open>balance_entries\<close>.\<close>

lemma run_cli_balance: "frame balance_entries (run_cli rt payload)"
  unfolding run_cli_def Let_def
  by (intro frame_intros; simp)

lemma run_http_balance: "frame balance_entries (run_http rt payload)"
  unfolding run_http_def Let_def
  by (intro frame_intros; simp)

lemma main_cli_balance: "balance_entries (snd (main_cli rt payload db)) = balance_entries db"
proof (cases "run_cli rt payload db")
  case (Pair r dbx)
  from frameD[OF run_cli_balance Pair] have "balance_entries dbx = balance_entries db" .
  with Pair show ?thesis
    by (cases r) (simp_all add: main_cli_def insertErrorRow_raises)
qed

lemma main_http_balance: "balance_entries (snd (main_http rt payload db)) = balance_entries db"
proof (cases "nullish payload")
  case True
  then show ?thesis by (simp add: main_http_nullish)
next
  case False
  obtain r dbx where Pair: "run_http rt payload db = (r, dbx)"
    by (cases "run_http rt payload db")
  from frameD[OF run_http_balance Pair] have b: "balance_entries dbx = balance_entries db" .
  show ?thesis
  proof (cases r)
    case (Inl e)
    with Pair False b show ?thesis
      by (simp add: main_http_Inl split: option.splits)
  next
    case (Inr x)
    with Pair False b show ?thesis
      by (simp add: main_http_def)
  qed
qed

text \<open>A run that ends has extracted no line item with its keys.\<close>

lemma run_cli_no_keys:
  assumes "run_cli rt payload db = (Inr r, db')"
  shows "list_all missing_keys (extractBalanceEntries payload)"
  using assms
  apply (simp add: run_cli_def bindIO_Inr liftE_Inr returnIO_eq Let_def split: if_splits)
  apply (elim exE conjE)
  apply (auto dest!: upsertBalanceEntries_returns)
  done

lemma returns_const: "Q \<Longrightarrow> returns (\<lambda>x. Q) m"
  by (simp add: returns_def)

lemma run_http_no_keys:
  assumes es: "extractBalanceEntries_http rt payload = Inr es"
  shows "returns (\<lambda>r. list_all missing_keys es) (run_http rt payload)"
  unfolding run_http_def Let_def
  apply (rule returns_bindIO)
  apply (rule returns_bind_liftE)
  apply (rule returns_bindIO)
  apply (rule returns_bindIO)
  apply (rule returns_bindIO)
  apply (rule returns_bind_liftE)
  apply (rule returns_bindIO)
  apply (rule returns_bindIO)
  apply (rule returns_bind_liftE)
  apply (rule returns_seq[where P = "\<lambda>rep. list_all missing_keys es"])
  subgoal
    using es
    by (auto simp: returns_def bindIO_Inr returnIO_eq
             dest!: upsertBalanceEntries_http_returns split: if_splits)
  apply (rule returns_const)
  apply assumption
  done

lemma line_item_facts:
  "\<not> nullish (line_item a)"
  "\<not> missing_keys (line_item a)"
  by (simp_all add: line_item_def missing_keys_def nullish_def)

lemma line_item_runs:
  "upsertBalanceEntries sample_runtime (uuidv4_azienda sample_runtime) [line_item 100] (initial_report sample_runtime)
     empty_store = (Inl no_conflict_target, store_unmapped)"
  "upsertBalanceEntries_http sample_runtime (uuidv4_azienda sample_runtime) [line_item 100] (initial_report sample_runtime)
     empty_store = (Inl no_conflict_target, store_unmapped)"
  "extractBalanceEntries (payload_line_item 100)
     = [balance_entry (JNum 2023) ''CE'' ''A1'' (JNum 100) (JStr ''EUR'') ''incomeStatementAggregateValues'']"
  "fst (run_cli sample_runtime (payload_line_item 100) empty_store) = Inl no_conflict_target"
  "main_cli sample_runtime (payload_line_item 100) empty_store = (Inl untyped_parameter, empty_store)"
  by code_simp+


section \<open>The warnings of a run\<close>

text \<open>
  The loop over the line items is the only code that pushes to \<^verbatim>\<open>report.warnings\<close>: a row
  without a year, a statement or a code is skipped there, with a warning.
\<close>

lemma skip_missing:
  assumes "\<not> nullish row" and "missing_keys row"
  shows "upsertBalanceEntries rt aid (row # entries) rep db =
         upsertBalanceEntries rt aid entries
           (rep\<lparr>warnings := warnings rep @ [(''balance_entries'', ''missing_keys'', row)]\<rparr>) db"
    and "upsertBalanceEntries_http rt aid (row # entries) rep db =
         upsertBalanceEntries_http rt aid entries
           (rep\<lparr>warnings := warnings rep @ [(''balance_entries'', ''missing_keys'', row)]\<rparr>) db"
  using assms by (simp_all add: bindIO_def liftE_def dot_def)

lemma upsertBalanceEntries_http_warnings:
  "upsertBalanceEntries_http rt aid entries rep db = (Inr rep', db') \<Longrightarrow>
   rep' = rep\<lparr>warnings := warnings rep @
        map (\<lambda>row. (''balance_entries'', ''missing_keys'', row)) (filter missing_keys entries)\<rparr>"
proof (induction entries arbitrary: rep db)
  case Nil
  then show ?case by (simp add: returnIO_eq)
next
  case (Cons row entries)
  show ?case
  proof (cases "missing_keys row")
    case True
    with Cons.prems have "upsertBalanceEntries_http rt aid entries
        (rep\<lparr>warnings := warnings rep @ [(''balance_entries'', ''missing_keys'', row)]\<rparr>) db
        = (Inr rep', db')"
      by (auto simp: bindIO_Inr liftE_Inr)
    from Cons.IH[OF this] True show ?thesis by simp
  next
    case False
    with Cons.prems obtain db2 where
      "upsertBalanceEntries_http rt aid entries rep db2 = (Inr rep', db')"
      by (auto simp: bindIO_Inr liftE_Inr)
    from Cons.IH[OF this] False show ?thesis by simp
  qed
qed

lemma promote_warnings:
  "promote rt table excl kvs rep db = (Inr rep', db') \<Longrightarrow> warnings rep' = warnings rep"
proof (induction kvs arbitrary: rep db)
  case Nil
  then show ?case by (simp add: returnIO_eq)
next
  case (Cons kv kvs)
  show ?case
  proof (cases "snd kv \<noteq> JNull \<and> \<not> typeof_object (snd kv) \<and> fst kv \<notin> set excl")
    case True
    with Cons.prems obtain res db1 where
      "promote rt table excl kvs
         (if created res then rep\<lparr>createdColumns := createdColumns rep @ [(table, res)]\<rparr> else rep) db1
       = (Inr rep', db')"
      by (auto simp: bindIO_Inr)
    from Cons.IH[OF this] show ?thesis by (simp split: if_splits)
  next
    case False
    with Cons.prems have "promote rt table excl kvs rep db = (Inr rep', db')"
      by auto
    from Cons.IH[OF this] show ?thesis .
  qed
qed

lemma promote_http_warnings:
  "promote_http rt table excl kvs rep db = (Inr rep', db') \<Longrightarrow> warnings rep' = warnings rep"
proof (induction kvs arbitrary: rep db)
  case Nil
  then show ?case by (simp add: returnIO_eq)
next
  case (Cons kv kvs)
  show ?case
  proof (cases "snd kv \<noteq> JNull \<and> \<not> typeof_object (snd kv) \<and> fst kv \<notin> set excl")
    case True
    with Cons.prems obtain res db1 where
      "promote_http rt table excl kvs
         (rep\<lparr>createdColumns := createdColumns rep @ [(table, res)]\<rparr>) db1
       = (Inr rep', db')"
      by (auto simp: bindIO_Inr)
    from Cons.IH[OF this] show ?thesis by simp
  next
    case False
    with Cons.prems have "promote_http rt table excl kvs rep db = (Inr rep', db')"
      by auto
    from Cons.IH[OF this] show ?thesis .
  qed
qed

lemma upsertContacts_warnings:
  "upsertContacts rt aid c d rep db = (Inr rep', db') \<Longrightarrow> warnings rep' = warnings rep"
  by (auto simp: upsertContacts_def bindIO_Inr returnIO_eq dest: promote_warnings)

lemma upsertContacts_http_warnings:
  "upsertContacts_http rt aid c d rep db = (Inr rep', db') \<Longrightarrow> warnings rep' = warnings rep"
  by (auto simp: upsertContacts_http_def bindIO_Inr returnIO_eq dest: promote_http_warnings)

lemma upsertAddresses_warnings:
  "upsertAddresses rt aid addrs rep g db = (Inr rep', db') \<Longrightarrow> warnings rep' = warnings rep"
proof (induction addrs arbitrary: rep db)
  case Nil
  then show ?case by (simp add: returnIO_eq)
next
  case (Cons addr addrs)
  from Cons.prems obtain rep1 db1 db2 db3 where
    1: "promote rt ''addresses''
          [''street'', ''zipCode'', ''town'', ''province'', ''region'', ''country'', ''addressType'']
          (own_entries addr) rep db1 = (Inr rep1, db2)" and
    2: "upsertAddresses rt aid addrs rep1 g db3 = (Inr rep', db')"
    by (auto simp: bindIO_Inr)
  from promote_warnings[OF 1] Cons.IH[OF 2] show ?case by simp
qed

lemma upsertAddresses_http_warnings:
  "upsertAddresses_http rt aid addrs rep g db = (Inr rep', db') \<Longrightarrow> warnings rep' = warnings rep"
proof (induction addrs arbitrary: rep db)
  case Nil
  then show ?case by (simp add: returnIO_eq)
next
  case (Cons addr addrs)
  from Cons.prems obtain rep1 db1 db2 db3 where
    1: "promote_http rt ''addresses''
          [''street'', ''streetName'', ''zipCode'', ''town'', ''province'', ''region'', ''country'',
           ''addressType'']
          (own_entries addr) rep db1 = (Inr rep1, db2)" and
    2: "upsertAddresses_http rt aid addrs rep1 g db3 = (Inr rep', db')"
    by (auto simp: bindIO_Inr)
  from promote_http_warnings[OF 1] Cons.IH[OF 2] show ?case by simp
qed

lemma upsertBalanceEntries_warnings:
  "upsertBalanceEntries rt aid entries rep db = (Inr rep', db') \<Longrightarrow>
   warnings rep' = warnings rep @
        map (\<lambda>row. (''balance_entries'', ''missing_keys'', row)) (filter missing_keys entries)"
  by (drule upsertBalanceEntries_Inr) simp

lemma upsertBalanceEntries_http_warnings':
  "upsertBalanceEntries_http rt aid entries rep db = (Inr rep', db') \<Longrightarrow>
   warnings rep' = warnings rep @
        map (\<lambda>row. (''balance_entries'', ''missing_keys'', row)) (filter missing_keys entries)"
  by (drule upsertBalanceEntries_http_warnings) simp

lemma run_cli_warnings:
  assumes "run_cli rt payload db = (Inr (aid, rep), db')"
  shows "warnings rep = map (\<lambda>row. (''balance_entries'', ''missing_keys'', row))
                          (filter missing_keys (extractBalanceEntries payload))"
  using assms
  apply (simp add: run_cli_def bindIO_Inr liftE_Inr returnIO_eq Let_def split: if_splits)
  apply (elim exE conjE)
  apply (auto dest!: upsertContacts_warnings upsertAddresses_warnings upsertBalanceEntries_warnings
              simp: initial_report_def)
  done

lemma extractBalanceEntries_http_kept:
  "extractBalanceEntries_http rt payload = Inr es \<Longrightarrow> e \<in> set es \<Longrightarrow> keep_entry e"
  by (auto simp: extractBalanceEntries_http_def bindE_def Let_def split: sum.splits if_splits)

lemma run_http_warnings:
  assumes es: "extractBalanceEntries_http rt payload = Inr es"
  shows "returns (\<lambda>r. warnings (snd r) = map (\<lambda>row. (''balance_entries'', ''missing_keys'', row))
                          (filter missing_keys es))
           (run_http rt payload)"
  unfolding run_http_def Let_def
  apply (rule returns_bindIO)
  apply (rule returns_bind_liftE)
  apply (rule returns_bindIO)
  apply (rule returns_bindIO)
  apply (rule returns_seq[where P = "\<lambda>rep. warnings rep = []"])
  subgoal
    by (auto simp: returns_def bindIO_Inr returnIO_eq initial_report_def
             dest!: upsertContacts_http_warnings split: if_splits)
  apply (rule returns_bind_liftE)
  apply (rule returns_seq[where P = "\<lambda>rep. warnings rep = []"])
  subgoal
    by (auto simp: returns_def bindIO_Inr returnIO_eq
             dest!: upsertAddresses_http_warnings split: if_splits)
  apply (rule returns_seq[where P = "\<lambda>rep. warnings rep = []"])
  subgoal
    by (auto simp: returns_def bindIO_Inr returnIO_eq split: if_splits)
  apply (rule returns_bind_liftE)
  apply (rule returns_seq[where P = "\<lambda>rep. warnings rep = map (\<lambda>row. (''balance_entries'', ''missing_keys'', row))
                          (filter missing_keys es)"])
  subgoal
    using es
    by (auto simp: returns_def bindIO_Inr returnIO_eq
             dest!: upsertBalanceEntries_http_warnings' split: if_splits)
  apply (rule returns_bindIO)
  apply (rule returns_returnIO)
  apply simp
  done


lemma extractBalanceEntries_kept:
  "e \<in> set (extractBalanceEntries payload) \<longleftrightarrow>
   e \<in> set (balanceCandidates payload) \<and> truthy (getp e ''year'')"
  by (auto simp: extractBalanceEntries_def)

lemma empty_code_run:
  "\<not> isl (fst (main_cli sample_runtime payload_empty_code empty_store))"
  "balance_entries (snd (main_cli sample_runtime payload_empty_code empty_store)) = []"
  "filter missing_keys (extractBalanceEntries payload_empty_code) = [entry_empty_code]"
  by code_simp+


section \<open>The steps of the financial extractors\<close>

lemma extract_tier1:
  "tier1_http rt payload = Inr e1 \<Longrightarrow> e1 \<noteq> [] \<Longrightarrow>
   extractBalanceEntries_http rt payload = Inr (filter keep_entry e1)"
  by (simp add: extractBalanceEntries_http_def bindE_def)

lemma extract_tier2:
  "tier1_http rt payload = Inr [] \<Longrightarrow> tier2_http rt payload = Inr e2 \<Longrightarrow> e2 \<noteq> [] \<Longrightarrow>
   extractBalanceEntries_http rt payload = Inr (filter keep_entry e2)"
  by (simp add: extractBalanceEntries_http_def bindE_def)

lemma extract_tier3:
  "tier1_http rt payload = Inr [] \<Longrightarrow> tier2_http rt payload = Inr [] \<Longrightarrow>
   extractBalanceEntries_http rt payload = Inr (filter keep_entry (tier3_http rt payload))"
  by (simp add: extractBalanceEntries_http_def bindE_def)

lemma extract_tiers:
  assumes "extractBalanceEntries_http rt payload = Inr es"
  shows "\<exists>e1. tier1_http rt payload = Inr e1
           \<and> (e1 \<noteq> [] \<longrightarrow> es = filter keep_entry e1)
           \<and> (e1 = [] \<longrightarrow> (\<exists>e2. tier2_http rt payload = Inr e2
                \<and> (e2 \<noteq> [] \<longrightarrow> es = filter keep_entry e2)
                \<and> (e2 = [] \<longrightarrow> es = filter keep_entry (tier3_http rt payload))))"
  using assms
  by (auto simp: extractBalanceEntries_http_def bindE_def Let_def split: sum.splits if_splits)

lemma extract_steps:
  "extractBalanceEntries payload =
     filter (\<lambda>e. truthy (getp e ''year'')) (aggregateEntries payload)
     @ filter (\<lambda>e. truthy (getp e ''year'')) (detailEntries payload)"
  by (simp add: extractBalanceEntries_def balanceCandidates_def)

lemma two_vocabularies_tiers:
  "tier1_http sample_runtime payload_two_vocabularies = Inr [entry_first_tier]"
  "map (\<lambda>e. getp e ''code'') (projr (tier2_http sample_runtime payload_two_vocabularies)) = [JStr ''D1'']"
  "map (\<lambda>e. getp e ''code'') (tier3_http sample_runtime payload_two_vocabularies) = [JStr ''AB12'']"
  "keep_entry entry_first_tier"
  by code_simp+


section \<open>Columns added by a run\<close>

lemma ensureColumn_Inr:
  assumes "ensureColumn rt t c v db = (Inr r, db')"
  shows "(SCHEMA_columns db t (toSnakeCase c) \<longrightarrow> \<not> created r \<and> columns db' = columns db)
     \<and> (\<not> SCHEMA_columns db t (toSnakeCase c) \<longrightarrow>
          created r \<and> columns db' = columns db @ [(t, toSnakeCase c, inferPgType rt v)])"
  using assms
  by (auto simp: ensureColumn_def Let_def bindIO_Inr returnIO_eq query_Inr split: if_splits)

lemma SCHEMA_columns_append:
  "SCHEMA_columns (db\<lparr>columns := columns db @ [(t, col, ty)]\<rparr>) t col"
  by (simp add: SCHEMA_columns_def)

lemma SCHEMA_columns_cong: "columns db' = columns db \<Longrightarrow> SCHEMA_columns db' = SCHEMA_columns db"
  by (auto simp: SCHEMA_columns_def fun_eq_iff)

lemma SCHEMA_columns_mono:
  "columns db' = columns db @ cs \<Longrightarrow> SCHEMA_columns db t col \<Longrightarrow> SCHEMA_columns db' t col"
  by (auto simp: SCHEMA_columns_def list_ex_iff)

lemma ensureColumn_http_Inr:
  assumes "ensureColumn_http rt t c v db = (Inr r, db')"
  shows "r = \<lparr>created = True, column = toSnakeCase c, pgType = Some (inferPgType rt v)\<rparr>
     \<and> (SCHEMA_columns db t (toSnakeCase c) \<longrightarrow> columns db' = columns db)
     \<and> (\<not> SCHEMA_columns db t (toSnakeCase c) \<longrightarrow>
          columns db' = columns db @ [(t, toSnakeCase c, inferPgType rt v)])"
  using assms
  by (auto simp: ensureColumn_http_def Let_def query_def execSQL_error_def
           split: option.splits sum.splits if_splits prod.splits)

lemma promote_http_created:
  "promote_http rt t excl kvs rep db = (Inr rep', db') \<Longrightarrow>
   createdColumns rep' = createdColumns rep @
     map (\<lambda>kv. (t, \<lparr>created = True, column = toSnakeCase (fst kv),
                     pgType = Some (inferPgType rt (snd kv))\<rparr>))
       (filter (promoted excl) kvs)"
proof (induction kvs arbitrary: rep db)
  case Nil
  then show ?case by (simp add: returnIO_eq)
next
  case (Cons kv kvs)
  show ?case
  proof (cases "promoted excl kv")
    case True
    with Cons.prems obtain res db1 where
      1: "ensureColumn_http rt t (fst kv) (snd kv) db = (Inr res, db1)" and
      2: "promote_http rt t excl kvs (rep\<lparr>createdColumns := createdColumns rep @ [(t, res)]\<rparr>) db1
          = (Inr rep', db')"
      by (auto simp: bindIO_Inr promoted_def)
    from ensureColumn_http_Inr[OF 1] Cons.IH[OF 2] True show ?thesis by simp
  next
    case False
    with Cons.prems have "promote_http rt t excl kvs rep db = (Inr rep', db')"
      by (auto simp: promoted_def)
    from Cons.IH[OF this] False show ?thesis by simp
  qed
qed

lemma promote_known:
  "promote rt t excl kvs rep db = (Inr rep', db') \<Longrightarrow>
   \<forall>kv \<in> set kvs. promoted excl kv \<longrightarrow> SCHEMA_columns db t (toSnakeCase (fst kv)) \<Longrightarrow>
   createdColumns rep' = createdColumns rep \<and> columns db' = columns db"
proof (induction kvs arbitrary: rep db)
  case Nil
  then show ?case by (simp add: returnIO_eq)
next
  case (Cons kv kvs)
  show ?case
  proof (cases "promoted excl kv")
    case True
    with Cons.prems(1) obtain res db1 where
      1: "ensureColumn rt t (fst kv) (snd kv) db = (Inr res, db1)" and
      2: "promote rt t excl kvs
           (if created res then rep\<lparr>createdColumns := createdColumns rep @ [(t, res)]\<rparr> else rep) db1
          = (Inr rep', db')"
      by (auto simp: bindIO_Inr promoted_def)
    from True Cons.prems(2) have "SCHEMA_columns db t (toSnakeCase (fst kv))"
      by simp
    with ensureColumn_Inr[OF 1] have r: "\<not> created res" and c: "columns db1 = columns db"
      by simp_all
    from 2 r have 3: "promote rt t excl kvs rep db1 = (Inr rep', db')"
      by simp
    from Cons.prems(2) SCHEMA_columns_cong[OF c]
    have "\<forall>kv \<in> set kvs. promoted excl kv \<longrightarrow> SCHEMA_columns db1 t (toSnakeCase (fst kv))"
      by simp
    from Cons.IH[OF 3 this] c show ?thesis by simp
  next
    case False
    with Cons.prems(1) have 3: "promote rt t excl kvs rep db = (Inr rep', db')"
      by (auto simp: promoted_def)
    from Cons.prems(2) have "\<forall>kv \<in> set kvs. promoted excl kv \<longrightarrow> SCHEMA_columns db t (toSnakeCase (fst kv))"
      by simp
    from Cons.IH[OF 3 this] show ?thesis .
  qed
qed

lemma fax_calls:
  "ensureColumn_http sample_runtime ''addresses'' ''fax'' (JStr ''06 1234'') empty_store
     = (Inr (snd fax_column), store_fax)"
  "ensureColumn_http sample_runtime ''addresses'' ''fax'' (JStr ''06 1234'') store_fax
     = (Inr (snd fax_column), store_fax)"
  "SCHEMA_columns store_fax ''addresses'' (toSnakeCase ''fax'')"
  by code_simp+

lemma fax_runs:
  "\<not> isl (fst (main_http sample_runtime payload_fax empty_store))"
  "createdColumns (snd (projr (fst (main_http sample_runtime payload_fax empty_store)))) = [fax_column]"
  "columns (snd (main_http sample_runtime payload_fax empty_store)) = [(''addresses'', ''fax'', ''text'')]"
  "\<not> isl (fst (main_http other_process payload_fax
               (snd (main_http sample_runtime payload_fax empty_store))))"
  "createdColumns (snd (projr (fst (main_http other_process payload_fax
               (snd (main_http sample_runtime payload_fax empty_store)))))) = [fax_column]"
  "columns (snd (main_http other_process payload_fax
               (snd (main_http sample_runtime payload_fax empty_store))))
     = [(''addresses'', ''fax'', ''text'')]"
  by code_simp+


section \<open>Identity resolution is deterministic on natural keys\<close>







section \<open>The raw section of a run\<close>

text \<open>
  Claim C7. A run of \<^verbatim>\<open>index.js\<close> that succeeds (the transaction is committed and
  \<^verbatim>\<open>main\<close> returns the identifier and the report) leaves the table of raw sections as
  it was with exactly one row more: the row of the company of the run, with the section
  name \<^verbatim>\<open>root\<close> and the effective date of the document, whatever the extractors found.
  The payload of the row is what the database has read from the parameter sent for the
  document. For a document that is a JSON object this is the document. For the document
  \<^verbatim>\<open>[]\<close> the run succeeds as well and the payload stored is the empty object: there
  the claim fails. A document that is any other array is never ingested.
\<close>

theorem raw_section_written_once:
  "(main_cli rt payload db = (Inr (aid, rep), db') \<longrightarrow>
      (\<exists>d v. effectiveDateForSection rt ''root'' payload (now rt) = Inr d
         \<and> pg_jsonb rt payload = Some v
         \<and> raw_sections db' = raw_sections db @
             [\<lparr>rs_azienda_id = aid, rs_section = ''root'', rs_effective_date = d,
               rs_raw_json = v\<rparr>]))
   \<and> (main_cli rt (JObj kvs) db = (Inr (aid, rep), db') \<and> json_fields kvs \<longrightarrow>
      (\<exists>d. raw_sections db' = raw_sections db @
             [\<lparr>rs_azienda_id = aid, rs_section = ''root'', rs_effective_date = d,
               rs_raw_json = JObj kvs\<rparr>]))
   \<and> (main_cli rt (JArr []) db = (Inr (aid, rep), db') \<longrightarrow>
      (\<exists>d. raw_sections db' = raw_sections db @
             [\<lparr>rs_azienda_id = aid, rs_section = ''root'', rs_effective_date = d,
               rs_raw_json = JObj []\<rparr>]))
   \<and> (xs \<noteq> [] \<longrightarrow> isl (fst (main_cli rt (JArr xs) db)))"
proof (intro conjI impI)
  assume "main_cli rt payload db = (Inr (aid, rep), db')"
  then show "\<exists>d v. effectiveDateForSection rt ''root'' payload (now rt) = Inr d
         \<and> pg_jsonb rt payload = Some v
         \<and> raw_sections db' = raw_sections db @
             [\<lparr>rs_azienda_id = aid, rs_section = ''root'', rs_effective_date = d,
               rs_raw_json = v\<rparr>]"
    by (auto simp: main_cli_Inr dest: run_cli_raw_sections)
next
  assume a: "main_cli rt (JObj kvs) db = (Inr (aid, rep), db') \<and> json_fields kvs"
  then have "run_cli rt (JObj kvs) db = (Inr (aid, rep), db')"
    by (simp add: main_cli_Inr)
  from run_cli_raw_sections[OF this] a
  show "\<exists>d. raw_sections db' = raw_sections db @
             [\<lparr>rs_azienda_id = aid, rs_section = ''root'', rs_effective_date = d,
               rs_raw_json = JObj kvs\<rparr>]"
    by (auto simp: pg_jsonb_object)
next
  assume "main_cli rt (JArr []) db = (Inr (aid, rep), db')"
  then have "run_cli rt (JArr []) db = (Inr (aid, rep), db')"
    by (simp add: main_cli_Inr)
  from run_cli_raw_sections[OF this]
  show "\<exists>d. raw_sections db' = raw_sections db @
             [\<lparr>rs_azienda_id = aid, rs_section = ''root'', rs_effective_date = d,
               rs_raw_json = JObj []\<rparr>]"
    by (auto simp: pg_jsonb_empty_array)
next
  assume xs: "xs \<noteq> []"
  show "isl (fst (main_cli rt (JArr xs) db))"
  proof (rule ccontr)
    assume "\<not> isl (fst (main_cli rt (JArr xs) db))"
    then obtain r d where "main_cli rt (JArr xs) db = (Inr r, d)"
      using returned by blast
    then have "run_cli rt (JArr xs) db = (Inr (fst r, snd r), d)"
      by (simp add: main_cli_Inr)
    from run_cli_raw_sections[OF this] xs show False
      by (simp add: pg_jsonb_array)
  qed
qed

text \<open>
  On the empty store: the document \<^verbatim>\<open>[]\<close> is ingested and its raw section holds the
  empty object; a document that is an object is stored as it is.
\<close>

theorem raw_section_written_once_witness:
  "\<not> isl (fst (main_cli sample_runtime (JArr []) empty_store))
   \<and> map rs_section (raw_sections (snd (main_cli sample_runtime (JArr []) empty_store)))
       = [''root'']
   \<and> map rs_raw_json (raw_sections (snd (main_cli sample_runtime (JArr []) empty_store)))
       = [JObj []]
   \<and> \<not> isl (fst (main_cli sample_runtime payload_e2e empty_store))
   \<and> map rs_raw_json (raw_sections (snd (main_cli sample_runtime payload_e2e empty_store)))
       = [payload_e2e]"
proof -
  from empty_array_returns obtain r db' where
    a: "main_cli sample_runtime (JArr []) empty_store = (Inr r, db')"
    using returned by blast
  from raw_section_written_once[where rt = sample_runtime and db = empty_store
         and aid = "fst r" and rep = "snd r" and db' = db' and payload = "JArr []"
         and kvs = "[]" and xs = "[]"] a
  have 1: "map rs_section (raw_sections db') = [''root'']"
       "map rs_raw_json (raw_sections db') = [JObj []]"
    by (auto simp: empty_store_def)
  from e2e_returns obtain r2 db2 where
    e: "main_cli sample_runtime payload_e2e empty_store = (Inr r2, db2)"
    using returned by blast
  have j: "json_fields
             [(''companyDetails'', JObj [(''vatCode'', JStr ''IT12345678901'')]),
              (''address'', JObj [(''street'', JStr ''Via Roma 1''), (''zipCode'', JStr ''00100''),
                                  (''town'', JStr ''Roma'')])]"
    by simp
  from raw_section_written_once[where rt = sample_runtime and db = empty_store
         and aid = "fst r2" and rep = "snd r2" and db' = db2 and payload = payload_e2e
         and kvs = "[(''companyDetails'', JObj [(''vatCode'', JStr ''IT12345678901'')]),
              (''address'', JObj [(''street'', JStr ''Via Roma 1''), (''zipCode'', JStr ''00100''),
                                  (''town'', JStr ''Roma'')])]" and xs = "[]"] e j
  have 2: "map rs_raw_json (raw_sections db2) = [payload_e2e]"
    by (auto simp: empty_store_def payload_e2e_def)
  from a e 1 2 empty_array_returns e2e_returns show ?thesis
    by simp
qed


section \<open>The status of a stored run\<close>

text \<open>
  Claim C10. Whatever \<^verbatim>\<open>main\<close> does, in either script, the rows of \<^verbatim>\<open>ingestions\<close> that
  were there stay as they were, at most one row is added, and the status of a row added
  is UPDATED, UNCHANGED or ERROR: the initial PARTIAL of the report is overwritten before
  the row is written, and OUTDATED is never written.
\<close>

theorem run_status_terminal:
  "(main_cli rt payload db = (res, db') \<longrightarrow>
      take (length (ingestions db)) (ingestions db') = ingestions db
      \<and> length (ingestions db') \<le> Suc (length (ingestions db))
      \<and> list_all (\<lambda>r. ig_status r \<in> {UPDATED, UNCHANGED, ERROR})
           (drop (length (ingestions db)) (ingestions db')))
   \<and> (main_http rt payload db = (res, db') \<longrightarrow>
      take (length (ingestions db)) (ingestions db') = ingestions db
      \<and> length (ingestions db') \<le> Suc (length (ingestions db))
      \<and> list_all (\<lambda>r. ig_status r \<in> {UPDATED, UNCHANGED, ERROR})
           (drop (length (ingestions db)) (ingestions db')))"
  using main_cli_ingestions[of rt payload db res db'] main_http_ingestions[of rt payload db res db']
  by auto

theorem run_status_terminal_witness:
  "list_all (\<lambda>r. ig_status r \<in> {UPDATED, UNCHANGED, ERROR})
     (drop (length (ingestions empty_store))
        (ingestions (snd (main_cli sample_runtime (JObj []) empty_store))))
   \<and> length (ingestions (snd (main_cli sample_runtime (JObj []) empty_store))) = 1
   \<and> list_all (\<lambda>r. ig_status r \<in> {UPDATED, UNCHANGED, ERROR})
     (drop (length (ingestions empty_store))
        (ingestions (snd (main_http sample_runtime payload_bad_date empty_store))))
   \<and> length (ingestions (snd (main_http sample_runtime payload_bad_date empty_store))) = 1"
proof -
  have c: "length (ingestions (snd (main_cli sample_runtime (JObj []) empty_store))) = 1"
    by (simp add: cli_empty_run store_of_empty_payload_def)
  have h: "ingestions (snd (main_http sample_runtime payload_bad_date empty_store))
             = [error_row sample_runtime ''Invalid time value'']"
    by (simp add: http_bad_date_run)
  have e: "ingestions empty_store = []"
    by (simp add: empty_store_def)
  from run_status_terminal[of sample_runtime "JObj []" empty_store
          "fst (main_cli sample_runtime (JObj []) empty_store)"
          "snd (main_cli sample_runtime (JObj []) empty_store)"]
       run_status_terminal[of sample_runtime payload_bad_date empty_store
          "fst (main_http sample_runtime payload_bad_date empty_store)"
          "snd (main_http sample_runtime payload_bad_date empty_store)"]
  show ?thesis
    by (simp add: c h e)
qed

section \<open>The terminal status of a run\<close>

text \<open>
  Claim C3, as the scripts have it. The terminal status of a run that reaches its end is
  computed from the extracted facets alone: UPDATED when a contacts object, an address,
  (in \<^verbatim>\<open>index.http.js\<close>) an industry code or a financial line item was extracted, and
  UNCHANGED otherwise. The row written to \<^verbatim>\<open>ingestions\<close> carries that status. Whether
  the version row of the run is new plays no part.
\<close>

theorem run_status_from_facets:
  "(main_cli rt payload db = (Inr (aid, rep), db')
      \<and> extractContacts payload = Inr cts \<and> extractAddresses payload = Inr addrs
    \<longrightarrow> status rep = (if extractBalanceEntries payload \<noteq> [] \<or> truthy cts \<or> addrs \<noteq> []
                      then UPDATED else UNCHANGED)
        \<and> ingestions db' = ingestions db @
             [\<lparr>ig_ingestion_id = uuidv4_ingestion rt, ig_azienda_id = Some aid,
               ig_status = status rep, ig_summary = RunSummary rep\<rparr>])
   \<and> (main_http rt payload db = (Inr (aid, rep), db')
      \<and> extractAddresses_http payload = Inr addrs \<and> extractBalanceEntries_http rt payload = Inr es
    \<longrightarrow> status rep = (if es \<noteq> [] \<or> truthy (extractContacts_http payload) \<or> addrs \<noteq> []
                         \<or> extractAteco payload \<noteq> []
                      then UPDATED else UNCHANGED)
        \<and> ingestions db' = ingestions db @
             [\<lparr>ig_ingestion_id = uuidv4_ingestion rt, ig_azienda_id = Some aid,
               ig_status = status rep, ig_summary = RunSummary rep\<rparr>])"
proof (intro conjI impI)
  assume a: "main_cli rt payload db = (Inr (aid, rep), db')
      \<and> extractContacts payload = Inr cts \<and> extractAddresses payload = Inr addrs"
  then have run: "run_cli rt payload db = (Inr (aid, rep), db')"
    by (simp add: main_cli_Inr)
  from run_cli_status[OF run] a
  show "status rep = (if extractBalanceEntries payload \<noteq> [] \<or> truthy cts \<or> addrs \<noteq> []
                      then UPDATED else UNCHANGED)"
    by (auto simp: terminal_status_def)
  from run_cli_ingestions[OF run]
  show "ingestions db' = ingestions db @
             [\<lparr>ig_ingestion_id = uuidv4_ingestion rt, ig_azienda_id = Some aid,
               ig_status = status rep, ig_summary = RunSummary rep\<rparr>]" .
next
  assume a: "main_http rt payload db = (Inr (aid, rep), db')
      \<and> extractAddresses_http payload = Inr addrs \<and> extractBalanceEntries_http rt payload = Inr es"
  then have run: "run_http rt payload db = (Inr (aid, rep), db')"
    by (simp add: main_http_Inr)
  from a have ex: "extractAddresses_http payload = Inr addrs"
      "extractBalanceEntries_http rt payload = Inr es"
    by simp_all
  from returnsD[OF run_http_status[OF ex] run]
  show "status rep = (if es \<noteq> [] \<or> truthy (extractContacts_http payload) \<or> addrs \<noteq> []
                         \<or> extractAteco payload \<noteq> []
                      then UPDATED else UNCHANGED)"
    by (auto simp: terminal_status_def)
  from run_http_ingestions(1)[OF run]
  show "ingestions db' = ingestions db @
             [\<lparr>ig_ingestion_id = uuidv4_ingestion rt, ig_azienda_id = Some aid,
               ig_status = status rep, ig_summary = RunSummary rep\<rparr>]"
    by (simp add: run_row_def)
qed

theorem run_status_from_facets_witness:
  "status (snd (projr (fst (main_cli sample_runtime payload_e2e empty_store)))) = UPDATED
   \<and> status (snd (projr (fst (main_http sample_runtime (JObj []) empty_store)))) = UNCHANGED"
proof -
  from e2e_returns obtain r db' where
    e: "main_cli sample_runtime payload_e2e empty_store = (Inr r, db')"
    using returned by blast
  from run_status_from_facets[of sample_runtime payload_e2e empty_store "fst r" "snd r" db' JNull
         "[JObj [(''addressType'', JStr ''SEDE''), (''street'', JStr ''Via Roma 1''),
                (''zipCode'', JStr ''00100''), (''town'', JStr ''Roma'')]]"] e e2e_facets
  have 1: "status (snd r) = UPDATED"
    by simp
  from run_status_from_facets[where rt = sample_runtime and payload = "JObj []"
         and db = empty_store and aid = "uuidv4_azienda sample_runtime"
         and rep = "skipped_report [(''contacts'', 1), (''addresses'', 1), (''ateco'', 1), (''balance_entries'', 1)]"
         and db' = "snd (main_http sample_runtime (JObj []) empty_store)"
         and addrs = "[]" and es = "[]"]
       empty_facets_http
  have 2: "status (skipped_report [(''contacts'', 1), (''addresses'', 1), (''ateco'', 1), (''balance_entries'', 1)]) = UNCHANGED"
    by (simp add: http_empty_run)
  from 1 2 e show ?thesis
    by (simp add: http_empty_run)
qed

text \<open>
  Claim C3, as stated, fails: on an empty store the empty document is new content, its
  version row is inserted, and the run ends UNCHANGED, in both scripts.
\<close>

theorem new_version_unchanged_status:
  "company_versions empty_store = []
   \<and> map cv_raw_json (company_versions (snd (main_cli sample_runtime (JObj []) empty_store)))
       = [JObj []]
   \<and> map ig_status (ingestions (snd (main_cli sample_runtime (JObj []) empty_store)))
       = [UNCHANGED]
   \<and> map cv_raw_json (company_versions (snd (main_http sample_runtime (JObj []) empty_store)))
       = [JObj []]
   \<and> map ig_status (ingestions (snd (main_http sample_runtime (JObj []) empty_store)))
       = [UNCHANGED]"
  by (simp add: cli_empty_run http_empty_run store_of_empty_payload_def) (simp add: empty_store_def)

section \<open>A run that raises\<close>

text \<open>
  Claim C8. In \<^verbatim>\<open>index.js\<close>, when the body of the run raises \<open>e\<close> anywhere between
  \<^verbatim>\<open>begin\<close> and \<^verbatim>\<open>commit\<close>, nothing that the body wrote reaches the store, whatever
  the store of the transaction \<open>dbx\<close> was at that point: that half of the claim holds.
  The other half fails: the statement of the handler is rejected by the database for
  every input, so no ERROR row is written, the store is the one before the run, and
  \<^verbatim>\<open>main\<close> ends with the error of that statement in place of \<open>e\<close>. In
  \<^verbatim>\<open>index.http.js\<close> there is no transaction: the store is the one the body left when it
  raised, \<open>dbx\<close>, with the ERROR row and the message of \<open>e\<close> added when the
  database accepts the request; and for the document \<^verbatim>\<open>null\<close> the script raises before
  \<^verbatim>\<open>try\<close> and sends nothing.
\<close>

theorem exception_leaves_no_error_row:
  "(run_cli rt payload db = (Inl e, dbx) \<longrightarrow>
      main_cli rt payload db =
        (Inl (case db_error rt QErrorRow db [JStr (uuidv4_ingestion rt), JStr (errText e)] of
                None \<Rightarrow> untyped_parameter
              | Some msg \<Rightarrow> Exn ''error'' msg), db))
   \<and> (isl (fst (main_cli rt payload db)) \<longrightarrow> snd (main_cli rt payload db) = db)
   \<and> (\<not> nullish payload \<and> run_http rt payload db = (Inl e, dbx) \<longrightarrow>
      ingestions dbx = ingestions db
      \<and> main_http rt payload db =
        (Inl e,
         case db_error rt QErrorRow dbx [JStr (uuidv4_ingestion rt), JNull, JStr (errText e)] of
           None \<Rightarrow> dbx\<lparr>ingestions := ingestions db @ [error_row rt (errText e)]\<rparr>
         | Some msg \<Rightarrow> dbx))
   \<and> (nullish payload \<longrightarrow>
      main_http rt payload db =
        (Inl (Exn ''TypeError'' ''Cannot convert undefined or null to object''), db))"
proof (intro conjI impI)
  assume "run_cli rt payload db = (Inl e, dbx)"
  then show "main_cli rt payload db =
        (Inl (case db_error rt QErrorRow db [JStr (uuidv4_ingestion rt), JStr (errText e)] of
                None \<Rightarrow> untyped_parameter
              | Some msg \<Rightarrow> Exn ''error'' msg), db)"
    by (rule main_cli_Inl)
next
  assume a: "isl (fst (main_cli rt payload db))"
  obtain r dbx where run: "run_cli rt payload db = (r, dbx)"
    by (cases "run_cli rt payload db")
  show "snd (main_cli rt payload db) = db"
  proof (cases r)
    case (Inl e)
    with run show ?thesis
      by (simp add: main_cli_Inl)
  next
    case (Inr x)
    with run a show ?thesis
      by (simp add: main_cli_def)
  qed
next
  assume a: "\<not> nullish payload \<and> run_http rt payload db = (Inl e, dbx)"
  then have run: "run_http rt payload db = (Inl e, dbx)" and nn: "\<not> nullish payload"
    by simp_all
  from run show i: "ingestions dbx = ingestions db"
    by (rule run_http_ingestions(2))
  from main_http_Inl[OF run nn] i show "main_http rt payload db =
        (Inl e,
         case db_error rt QErrorRow dbx [JStr (uuidv4_ingestion rt), JNull, JStr (errText e)] of
           None \<Rightarrow> dbx\<lparr>ingestions := ingestions db @ [error_row rt (errText e)]\<rparr>
         | Some msg \<Rightarrow> dbx)"
    by (simp add: error_row_def split: option.splits)
next
  assume "nullish payload"
  then show "main_http rt payload db =
        (Inl (Exn ''TypeError'' ''Cannot convert undefined or null to object''), db)"
    by (rule main_http_nullish)
qed

text \<open>
  A document whose \<^verbatim>\<open>lastUpdateDate\<close> is not a date makes \<^verbatim>\<open>toISOString\<close> raise after
  the company has been upserted. \<^verbatim>\<open>index.js\<close> leaves the store as it was, with no
  ERROR row, and ends with the error of the handler's statement; \<^verbatim>\<open>index.http.js\<close>
  leaves the company row and the ERROR row.
\<close>

theorem exception_leaves_no_error_row_witness:
  "run_cli sample_runtime payload_bad_date empty_store
     = (Inl (Exn ''RangeError'' ''Invalid time value''), empty_store\<lparr>companies := [random_company]\<rparr>)
   \<and> main_cli sample_runtime payload_bad_date empty_store = (Inl untyped_parameter, empty_store)
   \<and> ingestions empty_store = []
   \<and> main_http sample_runtime payload_bad_date empty_store
       = (Inl (Exn ''RangeError'' ''Invalid time value''),
          empty_store\<lparr>companies := [random_company],
                        ingestions := [error_row sample_runtime ''Invalid time value'']\<rparr>)
   \<and> main_http sample_runtime JNull empty_store
       = (Inl (Exn ''TypeError'' ''Cannot convert undefined or null to object''), empty_store)"
proof -
  have q: "db_error sample_runtime = (\<lambda>q db ps. None)"
    by (simp add: sample_runtime_def)
  have i: "ingestions empty_store = []"
    by (simp add: empty_store_def)
  have n: "\<not> nullish payload_bad_date"
    by (simp add: payload_bad_date_def nullish_def)
  from exception_leaves_no_error_row[of sample_runtime payload_bad_date empty_store
         "Exn ''RangeError'' ''Invalid time value''"
         "empty_store\<lparr>companies := [random_company]\<rparr>"]
       cli_bad_date_body http_bad_date_body n
  have 1: "main_cli sample_runtime payload_bad_date empty_store = (Inl untyped_parameter, empty_store)"
    and 2: "main_http sample_runtime payload_bad_date empty_store
       = (Inl (Exn ''RangeError'' ''Invalid time value''),
          empty_store\<lparr>companies := [random_company],
                        ingestions := [error_row sample_runtime ''Invalid time value'']\<rparr>)"
    by (simp_all add: q i)
  from exception_leaves_no_error_row[of sample_runtime JNull empty_store
         "Exn ''RangeError'' ''Invalid time value''" empty_store]
  have 3: "main_http sample_runtime JNull empty_store
       = (Inl (Exn ''TypeError'' ''Cannot convert undefined or null to object''), empty_store)"
    by (simp add: nullish_def)
  from 1 2 3 i cli_bad_date_body show ?thesis
    by simp
qed


section \<open>Versions of a document\<close>

text \<open>
  Claim C1 says that a version whose hash is already stored for the company is not
  inserted again. The statement of \<^verbatim>\<open>insertCompanyVersion\<close> skips a row only on a
  conflict with a unique constraint of \<^verbatim>\<open>company_versions\<close>, and the schema declares
  none over the columns written: every run of \<^verbatim>\<open>index.js\<close> that succeeds adds the
  version row of its document, of the company that \<^verbatim>\<open>computeAziendaId\<close> gives and with
  the hash of the document, to the rows that were there. (The payload of the row is what
  the database has read from the parameter sent for the document: the document itself
  when it is a JSON object.)
\<close>

theorem version_row_always_inserted:
  "main_cli rt payload db = (Inr (aid, rep), db') \<longrightarrow>
   computeAziendaId rt payload = Inr aid
   \<and> (\<exists>d v. pg_jsonb rt payload = Some v
        \<and> company_versions db' = company_versions db @
          [\<lparr>cv_azienda_id = aid, cv_effective_date = d, cv_content_hash = hash rt payload,
            cv_raw_json = v\<rparr>])"
  by (auto simp: main_cli_Inr dest: run_cli_versions run_cli_aid)

text \<open>
  The same document ingested twice, by two processes, on a store that was empty: two
  version rows of the same company with the same hash.
\<close>

theorem version_row_always_inserted_witness:
  "map cv_azienda_id (company_versions store_after_second_run)
     = [''uuidv5(IT12345678901)'', ''uuidv5(IT12345678901)'']
   \<and> map cv_content_hash (company_versions store_after_second_run)
     = [hash sample_runtime payload_vat_root, hash sample_runtime payload_vat_root]
   \<and> map cv_raw_json (company_versions store_after_second_run)
     = [payload_vat_root, payload_vat_root]"
proof -
  from first_run_returns obtain r1 where
    e1: "main_cli sample_runtime payload_vat_root empty_store = (Inr r1, store_after_first_run)"
    using returned[of "main_cli sample_runtime payload_vat_root empty_store"]
    by (auto simp: store_after_first_run_def)
  from second_run_returns obtain r2 where
    e2: "main_cli other_process payload_vat_root store_after_first_run = (Inr r2, store_after_second_run)"
    using returned[of "main_cli other_process payload_vat_root store_after_first_run"]
    by (auto simp: store_after_second_run_def)
  from version_row_always_inserted[of sample_runtime payload_vat_root empty_store "fst r1" "snd r1"
         store_after_first_run] e1
  have 1: "map cv_azienda_id (company_versions store_after_first_run) = [''uuidv5(IT12345678901)'']"
      "map cv_content_hash (company_versions store_after_first_run) = [hash sample_runtime payload_vat_root]"
      "map cv_raw_json (company_versions store_after_first_run) = [payload_vat_root]"
    by (auto simp: vat_root_ids empty_store_def vat_root_jsonb)
  from version_row_always_inserted[of other_process payload_vat_root store_after_first_run
         "fst r2" "snd r2" store_after_second_run] e2 1
  show ?thesis
    by (auto simp: vat_root_ids other_process_hash vat_root_jsonb)
qed

section \<open>One row for a line-item key\<close>

text \<open>
  Claim C2. Both scripts write a line item with a statement that names the conflict
  target (entity, fiscal year, statement, code), and the schema of the repository
  declares no unique constraint over these columns: the database rejects the statement
  for every row. So the loop of \<^verbatim>\<open>upsertBalanceEntries\<close> raises at the first row that has
  its three keys, a document from which such a row is extracted is never ingested, and
  no run of either script changes the rows of \<^verbatim>\<open>balance_entries\<close>. That the table holds
  at most one row for a key holds only in that no row is ever written; ingesting
  \<^verbatim>\<open>{year:2023, statement:"CE", code:"A1", amount:100}\<close> leaves no row for the key,
  where the claim has one.
\<close>

theorem line_item_upsert_rejected:
  "isl (fst (upsert_balance_row rt aid row desc db))
   \<and> snd (upsert_balance_row rt aid row desc db) = db
   \<and> isl (fst (upsert_balance_row_http rt aid row desc db))
   \<and> snd (upsert_balance_row_http rt aid row desc db) = db
   \<and> (list_ex (\<lambda>row. \<not> missing_keys row) entries \<longrightarrow>
        isl (fst (upsertBalanceEntries rt aid entries rep db))
        \<and> isl (fst (upsertBalanceEntries_http rt aid entries rep db)))
   \<and> (list_ex (\<lambda>row. \<not> missing_keys row) (extractBalanceEntries payload) \<longrightarrow>
        isl (fst (main_cli rt payload db)))
   \<and> (extractBalanceEntries_http rt payload = Inr es \<and> list_ex (\<lambda>row. \<not> missing_keys row) es \<longrightarrow>
        isl (fst (main_http rt payload db)))
   \<and> balance_entries (snd (main_cli rt payload db)) = balance_entries db
   \<and> balance_entries (snd (main_http rt payload db)) = balance_entries db"
proof (intro conjI impI)
  show "isl (fst (upsert_balance_row rt aid row desc db))"
    and "snd (upsert_balance_row rt aid row desc db) = db"
    by (simp_all add: upsert_balance_row_raises)
  show "isl (fst (upsert_balance_row_http rt aid row desc db))"
    and "snd (upsert_balance_row_http rt aid row desc db) = db"
    by (simp_all add: upsert_balance_row_http_raises)
next
  assume a: "list_ex (\<lambda>row. \<not> missing_keys row) entries"
  then show "isl (fst (upsertBalanceEntries rt aid entries rep db))"
    by (rule upsertBalanceEntries_raises(1))
  from a show "isl (fst (upsertBalanceEntries_http rt aid entries rep db))"
    by (rule upsertBalanceEntries_raises(2))
next
  assume a: "list_ex (\<lambda>row. \<not> missing_keys row) (extractBalanceEntries payload)"
  show "isl (fst (main_cli rt payload db))"
  proof (rule ccontr)
    assume "\<not> isl (fst (main_cli rt payload db))"
    then obtain r d where "main_cli rt payload db = (Inr r, d)"
      using returned by blast
    then have "run_cli rt payload db = (Inr r, d)"
      by (simp add: main_cli_Inr)
    from run_cli_no_keys[OF this] a show False
      by (auto simp: list_ex_iff list_all_iff)
  qed
next
  assume a: "extractBalanceEntries_http rt payload = Inr es \<and> list_ex (\<lambda>row. \<not> missing_keys row) es"
  show "isl (fst (main_http rt payload db))"
  proof (rule ccontr)
    assume "\<not> isl (fst (main_http rt payload db))"
    then obtain r d where "main_http rt payload db = (Inr r, d)"
      using returned by blast
    then have "run_http rt payload db = (Inr r, d)"
      by (simp add: main_http_Inr)
    from returnsD[OF run_http_no_keys this] a show False
      by (auto simp: list_ex_iff list_all_iff)
  qed
next
  show "balance_entries (snd (main_cli rt payload db)) = balance_entries db"
    by (rule main_cli_balance)
  show "balance_entries (snd (main_http rt payload db)) = balance_entries db"
    by (rule main_http_balance)
qed

text \<open>
  The line item of the claim on the empty store: the loop of either script raises the
  error of the conflict target and leaves no row; a document of \<^verbatim>\<open>index.js\<close> with that
  line item is not ingested.
\<close>

theorem line_item_upsert_rejected_witness:
  "upsertBalanceEntries sample_runtime (uuidv4_azienda sample_runtime) [line_item 100] (initial_report sample_runtime)
     empty_store = (Inl no_conflict_target, store_unmapped)
   \<and> upsertBalanceEntries_http sample_runtime (uuidv4_azienda sample_runtime) [line_item 100]
       (initial_report sample_runtime) empty_store = (Inl no_conflict_target, store_unmapped)
   \<and> balance_entries store_unmapped = []
   \<and> list_ex (\<lambda>row. \<not> missing_keys row) (extractBalanceEntries (payload_line_item 100))
   \<and> fst (run_cli sample_runtime (payload_line_item 100) empty_store) = Inl no_conflict_target
   \<and> isl (fst (main_cli sample_runtime (payload_line_item 100) empty_store))
   \<and> balance_entries (snd (main_cli sample_runtime (payload_line_item 100) empty_store)) = []"
proof -
  have k: "list_ex (\<lambda>row. \<not> missing_keys row) (extractBalanceEntries (payload_line_item 100))"
    by (simp add: line_item_runs(3) missing_keys_def balance_entry_def)
  have e: "balance_entries empty_store = []" "balance_entries store_unmapped = []"
    by (simp_all add: empty_store_def store_unmapped_def)
  from line_item_upsert_rejected[where rt = sample_runtime and payload = "payload_line_item 100"
         and db = empty_store and entries = "[]" and es = "[]"] k e
  have "isl (fst (main_cli sample_runtime (payload_line_item 100) empty_store))
     \<and> balance_entries (snd (main_cli sample_runtime (payload_line_item 100) empty_store)) = []"
    by simp
  with k e line_item_runs show ?thesis
    by simp
qed


section \<open>Line items without a year or a code\<close>

text \<open>
  Claim C9, amended. In both scripts the loop of \<^verbatim>\<open>upsertBalanceEntries\<close> skips a row
  whose year, statement or code is falsy: it pushes one warning for the row, raises
  nothing for it and goes on with the rows that remain; when the loop returns, the
  warnings added are those of the skipped rows, in order, and the rows upserted are the
  others. The extractors never emit an entry without a year (\<^verbatim>\<open>index.js\<close>), or without a
  year or a code (\<^verbatim>\<open>index.http.js\<close>): their last line removes such candidates, and
  nothing is reported for them. So the warnings in the summary of a run that ends are
  those of the extracted entries without a statement or a code, and no others. (On the
  schema of the repository the statement for a row that has its keys is rejected, so a
  loop that returns has skipped every row.)
\<close>

theorem missing_keys_skipped_with_warning:
  "(\<not> nullish row \<and> missing_keys row \<longrightarrow>
      upsertBalanceEntries rt aid (row # entries) rep db =
        upsertBalanceEntries rt aid entries
          (rep\<lparr>warnings := warnings rep @ [missing_keys_warning row]\<rparr>) db
      \<and> upsertBalanceEntries_http rt aid (row # entries) rep db =
        upsertBalanceEntries_http rt aid entries
          (rep\<lparr>warnings := warnings rep @ [missing_keys_warning row]\<rparr>) db)
   \<and> (upsertBalanceEntries rt aid entries rep db = (Inr rep', db') \<longrightarrow>
        warnings rep' = warnings rep @ map missing_keys_warning (filter missing_keys entries)
        \<and> balance_entries db' =
            foldl (\<lambda>rows row. upsert_balance (stored_balance_row rt aid (legend_codes db) row) rows)
              (balance_entries db) (filter (\<lambda>row. \<not> missing_keys row) entries))
   \<and> (upsertBalanceEntries_http rt aid entries rep db = (Inr rep', db') \<longrightarrow>
        warnings rep' = warnings rep @ map missing_keys_warning (filter missing_keys entries))
   \<and> (e \<in> set (extractBalanceEntries payload) \<longrightarrow>
        e \<in> set (balanceCandidates payload) \<and> truthy (getp e ''year''))
   \<and> (extractBalanceEntries_http rt payload = Inr es \<and> e \<in> set es \<longrightarrow>
        truthy (getp e ''year'') \<and> truthy (getp e ''code''))
   \<and> (main_cli rt payload db = (Inr (company, summary), db'') \<longrightarrow>
        warnings summary =
          map missing_keys_warning (filter missing_keys (extractBalanceEntries payload)))
   \<and> (main_http rt payload db = (Inr (company, summary), db'')
        \<and> extractBalanceEntries_http rt payload = Inr es \<longrightarrow>
        warnings summary = map missing_keys_warning (filter missing_keys es))"
proof (intro conjI impI)
  assume "\<not> nullish row \<and> missing_keys row"
  then have n: "\<not> nullish row" and m: "missing_keys row"
    by simp_all
  show "upsertBalanceEntries rt aid (row # entries) rep db =
        upsertBalanceEntries rt aid entries
          (rep\<lparr>warnings := warnings rep @ [missing_keys_warning row]\<rparr>) db"
    by (rule skip_missing(1)[OF n m])
  show "upsertBalanceEntries_http rt aid (row # entries) rep db =
        upsertBalanceEntries_http rt aid entries
          (rep\<lparr>warnings := warnings rep @ [missing_keys_warning row]\<rparr>) db"
    by (rule skip_missing(2)[OF n m])
next
  assume a: "upsertBalanceEntries rt aid entries rep db = (Inr rep', db')"
  from upsertBalanceEntries_Inr[OF a]
  show "warnings rep' = warnings rep @ map missing_keys_warning (filter missing_keys entries)"
    by simp
  from upsertBalanceEntries_Inr[OF a]
  show "balance_entries db' =
            foldl (\<lambda>rows row. upsert_balance (stored_balance_row rt aid (legend_codes db) row) rows)
              (balance_entries db) (filter (\<lambda>row. \<not> missing_keys row) entries)"
    by simp
next
  assume "upsertBalanceEntries_http rt aid entries rep db = (Inr rep', db')"
  then show "warnings rep' = warnings rep @ map missing_keys_warning (filter missing_keys entries)"
    by (rule upsertBalanceEntries_http_warnings')
next
  assume "e \<in> set (extractBalanceEntries payload)"
  then show "e \<in> set (balanceCandidates payload)" and "truthy (getp e ''year'')"
    by (simp_all add: extractBalanceEntries_kept)
next
  assume "extractBalanceEntries_http rt payload = Inr es \<and> e \<in> set es"
  then have "keep_entry e"
    using extractBalanceEntries_http_kept by blast
  then show "truthy (getp e ''year'')" and "truthy (getp e ''code'')"
    by (simp_all add: keep_entry_def)
next
  assume "main_cli rt payload db = (Inr (company, summary), db'')"
  then have "run_cli rt payload db = (Inr (company, summary), db'')"
    by (simp add: main_cli_Inr)
  then show "warnings summary =
          map missing_keys_warning (filter missing_keys (extractBalanceEntries payload))"
    by (rule run_cli_warnings)
next
  assume a: "main_http rt payload db = (Inr (company, summary), db'')
        \<and> extractBalanceEntries_http rt payload = Inr es"
  then have "run_http rt payload db = (Inr (company, summary), db'')"
    by (simp add: main_http_Inr)
  from returnsD[OF run_http_warnings this] a
  show "warnings summary = map missing_keys_warning (filter missing_keys es)"
    by simp
qed

text \<open>
  A balance block of year 2023 with an empty code: the run ends, no line item is
  stored, and its summary has the warning for the entry with the empty code.
\<close>

theorem missing_keys_skipped_with_warning_witness:
  "\<not> nullish entry_empty_code \<and> missing_keys entry_empty_code
   \<and> warnings (snd (projr (fst (main_cli sample_runtime payload_empty_code empty_store))))
       = [missing_keys_warning entry_empty_code]
   \<and> balance_entries (snd (main_cli sample_runtime payload_empty_code empty_store)) = []"
proof -
  from empty_code_run(1) obtain r db' where
    e: "main_cli sample_runtime payload_empty_code empty_store = (Inr r, db')"
    using returned by blast
  from missing_keys_skipped_with_warning[where rt = sample_runtime and payload = payload_empty_code
         and db = empty_store and company = "fst r" and summary = "snd r" and db'' = db'] e
  have "warnings (snd r) = [missing_keys_warning entry_empty_code]"
    by (simp add: empty_code_run(3))
  moreover have "\<not> nullish entry_empty_code \<and> missing_keys entry_empty_code"
    by (simp add: entry_empty_code_def nullish_def missing_keys_def)
  ultimately show ?thesis
    using e empty_code_run(2) by simp
qed

text \<open>
  Claim C9, as stated, fails: a balance block with no year gives a candidate without a
  year; \<^verbatim>\<open>extractBalanceEntries\<close> of \<^verbatim>\<open>index.js\<close> drops it, the run ends, nothing is
  upserted and the summary of the run has no warning.
\<close>

theorem missing_year_dropped_silently:
  "map (\<lambda>e. (getp e ''year'', getp e ''code'', getp e ''amount'')) (balanceCandidates payload_no_year)
     = [(JUndefined, JStr ''A1'', JNum 500)]
   \<and> extractBalanceEntries payload_no_year = []
   \<and> \<not> isl (fst (main_cli sample_runtime payload_no_year empty_store))
   \<and> warnings (snd (projr (fst (main_cli sample_runtime payload_no_year empty_store)))) = []
   \<and> balance_entries (snd (main_cli sample_runtime payload_no_year empty_store)) = []"
  by code_simp


section \<open>Fallback tiers of the financial extractor\<close>

text \<open>
  Claim C4, amended. In \<^verbatim>\<open>index.http.js\<close> the tiers are exclusive: when the extractor
  returns, its entries are the kept entries of one tier alone, the first that is not
  empty; tier 2 is read only when tier 1 gave nothing (so an error of tier 2 cannot
  show when tier 1 gave an entry), tier 3 only when tiers 1 and 2 gave nothing. In
  \<^verbatim>\<open>index.js\<close> the extractor has no fallback: the aggregate blocks and the detail groups
  are both read, and the entries of both that have a year are returned together.
\<close>

theorem http_tiers_exclusive:
  "(extractBalanceEntries_http rt payload = Inr es \<longrightarrow>
      (\<exists>e1. tier1_http rt payload = Inr e1
           \<and> (e1 \<noteq> [] \<longrightarrow> es = filter keep_entry e1)
           \<and> (e1 = [] \<longrightarrow> (\<exists>e2. tier2_http rt payload = Inr e2
                \<and> (e2 \<noteq> [] \<longrightarrow> es = filter keep_entry e2)
                \<and> (e2 = [] \<longrightarrow> es = filter keep_entry (tier3_http rt payload))))))
   \<and> (tier1_http rt payload = Inr first \<and> first \<noteq> [] \<longrightarrow>
        extractBalanceEntries_http rt payload = Inr (filter keep_entry first))
   \<and> (tier1_http rt payload = Inr [] \<and> tier2_http rt payload = Inr second \<and> second \<noteq> [] \<longrightarrow>
        extractBalanceEntries_http rt payload = Inr (filter keep_entry second))
   \<and> (tier1_http rt payload = Inr [] \<and> tier2_http rt payload = Inr [] \<longrightarrow>
        extractBalanceEntries_http rt payload = Inr (filter keep_entry (tier3_http rt payload)))
   \<and> extractBalanceEntries payload =
        filter (\<lambda>e. truthy (getp e ''year'')) (aggregateEntries payload)
        @ filter (\<lambda>e. truthy (getp e ''year'')) (detailEntries payload)"
  using extract_tiers[of rt payload es] extract_tier1[of rt payload first]
    extract_tier2[of rt payload second] extract_tier3[of rt payload] extract_steps[of payload]
  by blast

text \<open>
  A document with a section of each vocabulary and a loose code: all three tiers would
  give an entry, and the extractor returns the entry of the first alone.
\<close>

theorem http_tiers_exclusive_witness:
  "tier1_http sample_runtime payload_two_vocabularies = Inr [entry_first_tier]
   \<and> map (\<lambda>e. getp e ''code'') (projr (tier2_http sample_runtime payload_two_vocabularies))
       = [JStr ''D1'']
   \<and> map (\<lambda>e. getp e ''code'') (tier3_http sample_runtime payload_two_vocabularies)
       = [JStr ''AB12'']
   \<and> extractBalanceEntries_http sample_runtime payload_two_vocabularies = Inr [entry_first_tier]"
proof -
  from http_tiers_exclusive[where rt = sample_runtime and payload = payload_two_vocabularies
         and first = "[entry_first_tier]" and es = "[]" and second = "[]"]
       two_vocabularies_tiers(1)
  have "extractBalanceEntries_http sample_runtime payload_two_vocabularies
          = Inr (filter keep_entry [entry_first_tier])"
    by blast
  then show ?thesis
    by (simp add: two_vocabularies_tiers)
qed

text \<open>
  Claim C4, as stated, fails for \<^verbatim>\<open>index.js\<close>: a balance block with an aggregate block
  and a detail group gives the entries of both.
\<close>

theorem cli_steps_additive:
  "map (\<lambda>e. (getp e ''code'', getp e ''source_path'')) (aggregateEntries payload_both_steps)
     = [(JStr ''A1'', JStr ''assetsAggregateValues'')]
   \<and> map (\<lambda>e. (getp e ''code'', getp e ''source_path'')) (detailEntries payload_both_steps)
     = [(JStr ''D1'', JStr ''balance.debts'')]
   \<and> map (\<lambda>e. (getp e ''code'', getp e ''source_path'')) (extractBalanceEntries payload_both_steps)
     = [(JStr ''A1'', JStr ''assetsAggregateValues''), (JStr ''D1'', JStr ''balance.debts'')]"
  by code_simp


section \<open>Column-creation events\<close>

text \<open>
  Claim C6. In \<^verbatim>\<open>index.js\<close>, \<^verbatim>\<open>ensureColumn\<close> reports \<^verbatim>\<open>created: true\<close> and adds the
  column exactly when the catalogue does not have it, and reports \<^verbatim>\<open>created: false\<close>
  and adds nothing when it has; a promotion loop over fields whose columns all exist
  adds nothing to \<^verbatim>\<open>createdColumns\<close>. In \<^verbatim>\<open>index.http.js\<close> the claim fails:
  \<^verbatim>\<open>ensureColumn\<close> reports \<^verbatim>\<open>created: true\<close> whenever it returns, also when the column
  exists and nothing is added, and the promotion loop pushes one entry to
  \<^verbatim>\<open>createdColumns\<close> for every promoted field, whatever the catalogue holds.
\<close>

theorem column_creation_events:
  "(ensureColumn rt t c v db = (Inr r, db') \<longrightarrow>
      (SCHEMA_columns db t (toSnakeCase c) \<longrightarrow> \<not> created r \<and> columns db' = columns db)
      \<and> (\<not> SCHEMA_columns db t (toSnakeCase c) \<longrightarrow>
           created r \<and> columns db' = columns db @ [(t, toSnakeCase c, inferPgType rt v)]))
   \<and> (promote rt t excl kvs rep db = (Inr rep', db')
       \<and> (\<forall>kv \<in> set kvs. promoted excl kv \<longrightarrow> SCHEMA_columns db t (toSnakeCase (fst kv))) \<longrightarrow>
      createdColumns rep' = createdColumns rep \<and> columns db' = columns db)
   \<and> (ensureColumn_http rt t c v db = (Inr r, db') \<longrightarrow>
      created r
      \<and> (SCHEMA_columns db t (toSnakeCase c) \<longrightarrow> columns db' = columns db)
      \<and> (\<not> SCHEMA_columns db t (toSnakeCase c) \<longrightarrow>
           columns db' = columns db @ [(t, toSnakeCase c, inferPgType rt v)]))
   \<and> (promote_http rt t excl kvs rep db = (Inr rep', db') \<longrightarrow>
      createdColumns rep' = createdColumns rep @
        map (\<lambda>kv. (t, \<lparr>created = True, column = toSnakeCase (fst kv),
                        pgType = Some (inferPgType rt (snd kv))\<rparr>))
          (filter (promoted excl) kvs))"
proof (intro conjI impI)
  assume a: "ensureColumn rt t c v db = (Inr r, db')"
  {
    assume "SCHEMA_columns db t (toSnakeCase c)"
    with ensureColumn_Inr[OF a] show "\<not> created r" and "columns db' = columns db"
      by simp_all
  }
  {
    assume "\<not> SCHEMA_columns db t (toSnakeCase c)"
    with ensureColumn_Inr[OF a]
    show "created r" and "columns db' = columns db @ [(t, toSnakeCase c, inferPgType rt v)]"
      by simp_all
  }
next
  assume a: "promote rt t excl kvs rep db = (Inr rep', db')
       \<and> (\<forall>kv \<in> set kvs. promoted excl kv \<longrightarrow> SCHEMA_columns db t (toSnakeCase (fst kv)))"
  with promote_known[of rt t excl kvs rep db rep' db']
  show "createdColumns rep' = createdColumns rep" and "columns db' = columns db"
    by blast+
next
  assume a: "ensureColumn_http rt t c v db = (Inr r, db')"
  from ensureColumn_http_Inr[OF a] show "created r"
    by simp
  {
    assume "SCHEMA_columns db t (toSnakeCase c)"
    with ensureColumn_http_Inr[OF a] show "columns db' = columns db"
      by simp
  }
  {
    assume "\<not> SCHEMA_columns db t (toSnakeCase c)"
    with ensureColumn_http_Inr[OF a]
    show "columns db' = columns db @ [(t, toSnakeCase c, inferPgType rt v)]"
      by simp
  }
next
  assume "promote_http rt t excl kvs rep db = (Inr rep', db')"
  then show "createdColumns rep' = createdColumns rep @
        map (\<lambda>kv. (t, \<lparr>created = True, column = toSnakeCase (fst kv),
                        pgType = Some (inferPgType rt (snd kv))\<rparr>))
          (filter (promoted excl) kvs)"
    by (rule promote_http_created)
qed

text \<open>
  The field \<^verbatim>\<open>fax\<close> of an address, over HTTP: the call on a catalogue that has the
  column adds nothing and reports \<^verbatim>\<open>created: true\<close>; a second ingestion of the same
  document reports the column in \<^verbatim>\<open>createdColumns\<close> again.
\<close>

theorem column_creation_events_witness:
  "ensureColumn_http sample_runtime ''addresses'' ''fax'' (JStr ''06 1234'') empty_store
     = (Inr (snd fax_column), store_fax)
   \<and> ensureColumn_http sample_runtime ''addresses'' ''fax'' (JStr ''06 1234'') store_fax
     = (Inr (snd fax_column), store_fax)
   \<and> SCHEMA_columns store_fax ''addresses'' (toSnakeCase ''fax'')
   \<and> created (snd fax_column)
   \<and> columns (snd (main_http sample_runtime payload_fax empty_store))
       = [(''addresses'', ''fax'', ''text'')]
   \<and> createdColumns (snd (projr (fst (main_http other_process payload_fax
               (snd (main_http sample_runtime payload_fax empty_store)))))) = [fax_column]"
proof -
  from column_creation_events[where rt = sample_runtime and t = "''addresses''" and c = "''fax''"
         and v = "JStr ''06 1234''" and db = store_fax and r = "snd fax_column" and db' = store_fax
         and kvs = "[]" and rep = "initial_report sample_runtime"
         and rep' = "initial_report sample_runtime" and excl = "[]"]
       fax_calls(2)
  have "created (snd fax_column)"
    by blast
  then show ?thesis
    by (simp add: fax_calls fax_runs)
qed

end
